theory Spec2Isabelle
  imports Main "HOL-Library.AList" "HOL-Library.Multiset"
begin

section \<open>Go values shared by all handlers\<close>

text \<open>
  An \<open>error\<close> of the cloud SDK or of \<open>fmt.Errorf\<close>. \<open>Default404Error\<close> is the SDK's typed
  "not found" error, \<open>SDKError\<close> any other error value (with its message), \<open>Errorf\<close> a
  \<open>fmt.Errorf\<close> without \<open>%w\<close> and \<open>Errorf_w\<close> a \<open>fmt.Errorf\<close> whose format wraps an error
  with \<open>%w\<close>. Format strings are kept with their arguments, unformatted.
\<close>

datatype err =
    Default404Error
  | SDKError string
  | Errorf string "string list"
  | Errorf_w string "string list" err

text \<open>\<open>errors.As(err, &errDefault404)\<close>: some error of the \<open>Unwrap\<close> chain is a \<open>Default404Error\<close>.\<close>

fun errors_As_404 :: "err \<Rightarrow> bool" where
  "errors_As_404 Default404Error = True"
| "errors_As_404 (SDKError m) = False"
| "errors_As_404 (Errorf f args) = False"
| "errors_As_404 (Errorf_w f args e) = errors_As_404 e"

datatype fmt_arg = ArgS string | ArgI int | ArgE err

datatype severity = SevError | SevWarning

datatype summary = ErrorText err | Sprintf string "fmt_arg list"

record diagnostic =
  Severity :: severity
  Summary :: summary

type_synonym diagnostics = "diagnostic list"

text \<open>\<open>diag.FromErr(err)\<close> and \<open>diag.Errorf(format, args...)\<close>: one diagnostic of severity Error.\<close>

definition diag_FromErr :: "err \<Rightarrow> diagnostics" where
  "diag_FromErr e = [\<lparr>Severity = SevError, Summary = ErrorText e\<rparr>]"

definition diag_Errorf :: "string \<Rightarrow> fmt_arg list \<Rightarrow> diagnostics" where
  "diag_Errorf f args = [\<lparr>Severity = SevError, Summary = Sprintf f args\<rparr>]"

section \<open>Schema validators\<close>

subsection \<open>LB member: weight and address\<close>

definition minWeight :: int where "minWeight = 0"
definition maxWeight :: int where "maxWeight = 256"

text \<open>
  The \<open>ValidateDiagFunc\<close> of the member's \<open>weight\<close> attribute; \<open>nil\<close> is the empty list.
  The Go \<open>int\<close> is read as an integer: the validator only compares it with the two bounds.
\<close>

definition weight_ValidateDiagFunc :: "int \<Rightarrow> diagnostics" where
  "weight_ValidateDiagFunc v =
     (if v \<ge> minWeight \<and> v \<le> maxWeight then []
      else diag_Errorf ''Valid values: %d to %d got: %d'' [ArgI minWeight, ArgI maxWeight, ArgI v])"

text \<open>
  The \<open>ValidateDiagFunc\<close> of the member's \<open>address\<close> attribute. \<open>net.ParseIP\<close> belongs to Go's
  standard library and is a parameter: \<open>None\<close> is its \<open>nil\<close> result. \<open>key\<close> is the attribute
  path as \<open>%q\<close> prints it.
\<close>

definition address_ValidateDiagFunc :: "(string \<Rightarrow> 'ip option) \<Rightarrow> string \<Rightarrow> string \<Rightarrow> diagnostics" where
  "address_ValidateDiagFunc net_ParseIP v key =
     (case net_ParseIP v of
        Some ip \<Rightarrow> []
      | None \<Rightarrow> diag_FromErr (Errorf ''%q must be a valid ip, got: %s'' [key, v]))"

subsection \<open>LB pool: lb_algorithm\<close>

text \<open>
  Modelled from the spec: the SDK package \<open>loadbalancer/v1/types\<close> that declares the
  \<open>LoadBalancerAlgorithm\<close> constants is not part of the sources; their values are the four
  documented algorithm names.
\<close>

definition LoadBalancerAlgorithmRoundRobin :: string where
  "LoadBalancerAlgorithmRoundRobin = ''ROUND_ROBIN''"
definition LoadBalancerAlgorithmLeastConnections :: string where
  "LoadBalancerAlgorithmLeastConnections = ''LEAST_CONNECTIONS''"
definition LoadBalancerAlgorithmSourceIP :: string where
  "LoadBalancerAlgorithmSourceIP = ''SOURCE_IP''"
definition LoadBalancerAlgorithmSourceIPPort :: string where
  "LoadBalancerAlgorithmSourceIPPort = ''SOURCE_IP_PORT''"

text \<open>
  The format of the validator's error,
  \<^verbatim>\<open>wrong type %s, available values is '%s', '%s', '%s', '%s'\<close>; its last character is
  the quote \<open>CHR 0x27\<close>.
\<close>

definition lb_algorithm_format :: string where
  "lb_algorithm_format = ''wrong type %s, available values is '%s', '%s', '%s', '%s'' @ [CHR 0x27]"

definition lb_algorithm_ValidateDiagFunc :: "string \<Rightarrow> diagnostics" where
  "lb_algorithm_ValidateDiagFunc v =
     (if v = LoadBalancerAlgorithmRoundRobin \<or> v = LoadBalancerAlgorithmLeastConnections
         \<or> v = LoadBalancerAlgorithmSourceIP \<or> v = LoadBalancerAlgorithmSourceIPPort
      then []
      else diag_Errorf lb_algorithm_format
             [ArgS v, ArgS LoadBalancerAlgorithmRoundRobin, ArgS LoadBalancerAlgorithmLeastConnections,
              ArgS LoadBalancerAlgorithmSourceIP, ArgS LoadBalancerAlgorithmSourceIPPort])"

section \<open>Terraform resource data and SDK effects\<close>

text \<open>
  A Go value held by a schema attribute (\<open>interface{}\<close>): \<open>VList\<close> is a list or the
  \<open>List()\<close> of a set, \<open>VMap\<close> a \<open>map[string]interface{}\<close> with its entries in the order
  they were written.
\<close>

datatype val =
    VNil
  | VStr string
  | VInt int
  | VBool bool
  | VList "val list"
  | VMap "(string \<times> val) list"

text \<open>
  The schema fixes the Go type of every attribute, so the type assertions that follow
  \<open>d.Get\<close> (\<open>.(string)\<close>, \<open>.(int)\<close>, \<open>.(bool)\<close>, \<open>.([]interface{})\<close>) read the value; at a
  value of another shape the readers give the zero value.
\<close>

fun as_string :: "val \<Rightarrow> string" where
  "as_string (VStr x) = x"
| "as_string v = []"

fun as_int :: "val \<Rightarrow> int" where
  "as_int (VInt i) = i"
| "as_int v = 0"

fun as_bool :: "val \<Rightarrow> bool" where
  "as_bool (VBool b) = b"
| "as_bool v = False"

fun as_list :: "val \<Rightarrow> val list" where
  "as_list (VList xs) = xs"
| "as_list v = []"

fun as_map :: "val \<Rightarrow> (string \<times> val) list" where
  "as_map (VMap m) = m"
| "as_map v = []"

text \<open>\<open>raw[key]\<close> on a \<open>map[string]interface{}\<close>.\<close>

definition index_map :: "val \<Rightarrow> string \<Rightarrow> val" where
  "index_map raw k = (case map_of (as_map raw) k of Some v \<Rightarrow> v | None \<Rightarrow> VNil)"

fun is_zero :: "val \<Rightarrow> bool" where
  "is_zero VNil = True"
| "is_zero (VStr x) = (x = [])"
| "is_zero (VInt i) = (i = 0)"
| "is_zero (VBool b) = (\<not> b)"
| "is_zero (VList xs) = (xs = [])"
| "is_zero (VMap m) = (m = [])"

text \<open>
  \<open>*schema.ResourceData\<close>: the resource ID, the attribute values that \<open>d.Get\<close> reads and
  \<open>d.Set\<close> writes, and the old and new values that \<open>d.HasChange\<close> and \<open>d.GetChange\<close> compare.
\<close>

record ResourceData =
  Id' :: string
  attrs :: "string \<Rightarrow> val"
  prior :: "string \<Rightarrow> val"
  planned :: "string \<Rightarrow> val"

text \<open>
  \<open>d.Get\<close> gives the value of an attribute, the zero value when it is unset; \<open>d.GetOk\<close> gives
  it with the flag "set to a non-zero value". \<open>d.Set\<close> of a string, an integer or a boolean
  to an attribute of that schema type writes the value (\<open>Set'\<close>). \<open>d.HasChange\<close> holds when
  the old and the new value of \<open>d.GetChange\<close> differ; neither is touched by \<open>d.Set\<close>.
\<close>

definition Get :: "ResourceData \<Rightarrow> string \<Rightarrow> val" where
  "Get d k = attrs d k"

definition GetOk :: "ResourceData \<Rightarrow> string \<Rightarrow> val \<times> bool" where
  "GetOk d k = (attrs d k, \<not> is_zero (attrs d k))"

definition Set' :: "ResourceData \<Rightarrow> string \<Rightarrow> val \<Rightarrow> ResourceData" where
  "Set' d k v = d\<lparr>attrs := (attrs d)(k := v)\<rparr>"

definition SetId :: "ResourceData \<Rightarrow> string \<Rightarrow> ResourceData" where
  "SetId d v = d\<lparr>Id' := v\<rparr>"

definition HasChange :: "ResourceData \<Rightarrow> string \<Rightarrow> bool" where
  "HasChange d k = (prior d k \<noteq> planned d k)"


text \<open>The value of a Go \<open>interface{}\<close> result of a task checker: \<open>nil\<close> or a string.\<close>

datatype iface = INil | IStr string

text \<open>What a handler does: it returns diagnostics (\<open>nil\<close> is \<open>[]\<close>) or it panics.\<close>

datatype outcome = Return diagnostics | Panic

text \<open>
  The calls that a handler body makes, with the identifiers they carry: the provider's
  \<open>CreateClient\<close> with its endpoint, the task wait with the task and its timeout, and the
  requests of the SDK.
\<close>

datatype sdk_call =
    CallCreateClient string
  | CallWaitTask string int
  | CallLbpoolsCreate
  | CallLbpoolsGet string
  | CallLbpoolsUpdate string
  | CallLbpoolsDelete string
  | CallLbpoolsCreateMember string
  | CallLbpoolsDeleteMember string string
  | CallRoutersCreate
  | CallRoutersGet string
  | CallRoutersUpdate string
  | CallRoutersDelete string
  | CallRoutersAttach string string
  | CallRoutersDetach string string
  | CallBminstancesCreate
  | CallInstancesGet string
  | CallInstancesListInterfacesAll string
  | CallInstancesMetadataGet string string
  | CallInstancesDelete string
  | CallImagesListAll

text \<open>
  The state a handler runs in: the cloud behind the SDK, of an arbitrary type \<open>'w\<close>, and the
  sequence of calls the handler body has made so far. A call made by a checker closure happens
  inside \<open>tasks.WaitTaskAndReturnResult\<close> and is not listed.
\<close>

record 'w st =
  world :: 'w
  calls :: "sdk_call list"

definition call :: "sdk_call \<Rightarrow> ('w \<Rightarrow> 'a \<times> 'w) \<Rightarrow> 'w st \<Rightarrow> 'a \<times> 'w st" where
  "call c f s = (case f (world s) of (r, w) \<Rightarrow> (r, \<lparr>world = w, calls = calls s @ [c]\<rparr>))"

text \<open>
  A checker closure, called by \<open>tasks.WaitTaskAndReturnResult\<close> with the task ID: it returns
  a Go pair \<open>(interface{}, error)\<close>, or it panics (\<open>None\<close>).
\<close>

type_synonym 'w checker = "string \<Rightarrow> 'w \<Rightarrow> (iface \<times> err option) option \<times> 'w"

text \<open>\<open>tasks.TaskResults\<close>, the result of every request that starts a task.\<close>

record TaskResults =
  Tasks :: "string list"

text \<open>\<open>results.Tasks[0]\<close>: \<open>None\<close> is the panic of a nil \<open>results\<close> or an empty \<open>Tasks\<close>.\<close>

definition first_task :: "TaskResults option \<Rightarrow> string option" where
  "first_task results =
     (case results of
        None \<Rightarrow> None
      | Some r \<Rightarrow> (case Tasks r of [] \<Rightarrow> None | taskID # rest \<Rightarrow> Some taskID))"

text \<open>
  What the handlers use and the sources do not define: the helpers \<open>CreateClient\<close> and
  \<open>revertState\<close> and the constant \<open>VersionPointV1\<close> of this provider, the error with which
  \<open>d.Set\<close> rejects a composite value (\<open>Set_error\<close>), the clock, and the SDK's task package.
  A Go result \<open>(value, error)\<close> is a pair whose error is \<open>None\<close> for \<open>nil\<close>; a pointer that
  the handler dereferences is an option, \<open>None\<close> for \<open>nil\<close>. \<open>'c\<close> is the service client,
  \<open>'t\<close> a task as \<open>tasks.Get\<close> returns it.
\<close>

record ('w, 'c, 't) provider_env =
  CreateClient :: "ResourceData \<Rightarrow> string \<Rightarrow> string \<Rightarrow> 'w \<Rightarrow> ('c \<times> err option) \<times> 'w"
  VersionPointV1 :: string
  revertState :: "ResourceData \<Rightarrow> string list \<Rightarrow> ResourceData"
  Set_error :: "string \<Rightarrow> val \<Rightarrow> err option"
  time_Now :: "'w \<Rightarrow> string"
  WaitTaskAndReturnResult ::
    "'c \<Rightarrow> string \<Rightarrow> bool \<Rightarrow> int \<Rightarrow> 'w checker \<Rightarrow> 'w \<Rightarrow> (iface \<times> err option) option \<times> 'w"
  tasks_Get :: "'c \<Rightarrow> string \<Rightarrow> 'w \<Rightarrow> ('t \<times> err option) \<times> 'w"

text \<open>
  \<open>d.Set\<close> of a composite value, whose error the caller may test: on an error nothing is
  written.
\<close>

definition Set_checked ::
  "('w, 'c, 't, 'z) provider_env_scheme \<Rightarrow> ResourceData \<Rightarrow> string \<Rightarrow> val \<Rightarrow> ResourceData \<times> err option" where
  "Set_checked env d k v =
     (case Set_error env k v of
        None \<Rightarrow> (Set' d k v, None)
      | Some e \<Rightarrow> (d, Some e))"

section \<open>Load balancer pool\<close>

definition LBPoolsPoint :: string where "LBPoolsPoint = ''lbpools''"
definition LBPoolsCreateTimeout :: int where "LBPoolsCreateTimeout = 2400"

text \<open>
  The SDK's \<open>lbpools.Pool\<close> as the handlers read it. A field with a \<open>String()\<close> method holds
  that string; a field whose Go type the handlers do not fix holds a \<open>val\<close>; \<open>LoadBalancers\<close>
  and \<open>Listeners\<close> hold the \<open>ID\<close> of each of their elements.
\<close>

record HealthMonitor =
  ID :: string
  Type :: string
  Delay :: int
  Timeout :: int
  MaxRetries :: int
  MaxRetriesDown :: val
  URLPath :: val
  ExpectedCodes :: val
  HTTPMethod :: "string option"

record SessionPersistence =
  Type :: string
  CookieName :: val
  PersistenceGranularity :: val
  PersistenceTimeout :: val

record PoolMember =
  ID :: string
  Address :: string
  ProtocolPort :: int
  Weight :: int
  SubnetID :: string
  InstanceID :: string
  OperatingStatus :: string

record Pool =
  ID :: string
  Name :: string
  LoadBalancerAlgorithm :: string
  Protocol :: string
  LoadBalancers :: "string list"
  Listeners :: "string list"
  HealthMonitor :: "HealthMonitor option"
  SessionPersistence :: "SessionPersistence option"
  Members :: "PoolMember list"

record lbpools_CreateOpts =
  Name :: string
  Protocol :: string
  LBPoolAlgorithm :: string
  LoadBalancerID :: string
  ListenerID :: string
  HealthMonitor :: val
  SessionPersistence :: val

record lbpools_UpdateOpts =
  Name :: string
  LBPoolAlgorithm :: string
  HealthMonitor :: val
  SessionPersistence :: val

record 'ip CreatePoolMemberOpts =
  Address :: "'ip option"
  ProtocolPort :: int
  Weight :: int
  SubnetID :: string
  InstanceID :: string

record ('w, 'c, 't, 'ip) lbpools_env = "('w, 'c, 't) provider_env" +
  extractHealthMonitorMap :: "ResourceData \<Rightarrow> val"
  extractSessionPersistenceMap :: "ResourceData \<Rightarrow> val"
  net_ParseIP :: "string \<Rightarrow> 'ip option"
  lbpools_Create :: "'c \<Rightarrow> lbpools_CreateOpts \<Rightarrow> 'w \<Rightarrow> (TaskResults option \<times> err option) \<times> 'w"
  lbpools_Get :: "'c \<Rightarrow> string \<Rightarrow> 'w \<Rightarrow> (Pool option \<times> err option) \<times> 'w"
  lbpools_Update :: "'c \<Rightarrow> string \<Rightarrow> lbpools_UpdateOpts \<Rightarrow> 'w \<Rightarrow> (TaskResults option \<times> err option) \<times> 'w"
  lbpools_Delete :: "'c \<Rightarrow> string \<Rightarrow> 'w \<Rightarrow> (TaskResults option \<times> err option) \<times> 'w"
  lbpools_CreateMember ::
    "'c \<Rightarrow> string \<Rightarrow> 'ip CreatePoolMemberOpts \<Rightarrow> 'w \<Rightarrow> (TaskResults option \<times> err option) \<times> 'w"
  lbpools_DeleteMember :: "'c \<Rightarrow> string \<Rightarrow> string \<Rightarrow> 'w \<Rightarrow> (TaskResults option \<times> err option) \<times> 'w"
  ExtractPoolIDFromTask :: "'t \<Rightarrow> string \<times> err option"
  ExtractPoolMemberIDFromTask :: "'t \<Rightarrow> string \<times> err option"

subsection \<open>resourceLBPoolRead\<close>

definition healthMonitor_map :: "HealthMonitor \<Rightarrow> val" where
  "healthMonitor_map hm =
     (let healthMonitor =
            [(''id'', VStr (HealthMonitor.ID hm)),
             (''type'', VStr (HealthMonitor.Type hm)),
             (''delay'', VInt (Delay hm)),
             (''timeout'', VInt (Timeout hm)),
             (''max_retries'', VInt (MaxRetries hm)),
             (''max_retries_down'', MaxRetriesDown hm),
             (''url_path'', URLPath hm),
             (''expected_codes'', ExpectedCodes hm)]
      in case HTTPMethod hm of
           Some method \<Rightarrow> VMap (healthMonitor @ [(''http_method'', VStr method)])
         | None \<Rightarrow> VMap healthMonitor)"

definition sessionPersistence_map :: "SessionPersistence \<Rightarrow> val" where
  "sessionPersistence_map sp =
     VMap [(''type'', VStr (SessionPersistence.Type sp)),
           (''cookie_name'', CookieName sp),
           (''persistence_granularity'', PersistenceGranularity sp),
           (''persistence_timeout'', PersistenceTimeout sp)]"

text \<open>The part of the read that follows a successful \<open>lbpools.Get\<close>, with the pool \<open>lb\<close>.\<close>

definition LBPoolRead_fields ::
  "('w, 'c, 't, 'z) provider_env_scheme \<Rightarrow> Pool \<Rightarrow> ResourceData \<Rightarrow> diagnostics \<times> ResourceData" where
  "LBPoolRead_fields env lb d =
     (let d1 = Set' d ''name'' (VStr (Pool.Name lb));
          d2 = Set' d1 ''lb_algorithm'' (VStr (LoadBalancerAlgorithm lb));
          d3 = Set' d2 ''protocol'' (VStr (Pool.Protocol lb));
          d4 = (if length (LoadBalancers lb) > 0
                then Set' d3 ''loadbalancer_id'' (VStr (hd (LoadBalancers lb))) else d3);
          d5 = (if length (Listeners lb) > 0
                then Set' d4 ''listener_id'' (VStr (hd (Listeners lb))) else d4);
          (d6, err6) = (case Pool.HealthMonitor lb of
                          Some hm \<Rightarrow> Set_checked env d5 ''health_monitor'' (VList [healthMonitor_map hm])
                        | None \<Rightarrow> (d5, None))
      in case err6 of
           Some e \<Rightarrow> (diag_FromErr e, d6)
         | None \<Rightarrow>
             (let (d7, err7) =
                    (case Pool.SessionPersistence lb of
                       Some sp \<Rightarrow>
                         Set_checked env d6 ''session_persistence'' (VList [sessionPersistence_map sp])
                     | None \<Rightarrow> (d6, None))
              in case err7 of
                   Some e \<Rightarrow> (diag_FromErr e, d7)
                 | None \<Rightarrow> ([], revertState env d7 [''project_id'', ''region_id''])))"

definition resourceLBPoolRead ::
  "('w, 'c, 't, 'ip) lbpools_env \<Rightarrow> ResourceData \<Rightarrow> 'w st \<Rightarrow> outcome \<times> ResourceData \<times> 'w st" where
  "resourceLBPoolRead env d s =
     (case call (CallCreateClient LBPoolsPoint) (CreateClient env d LBPoolsPoint (VersionPointV1 env)) s of
        ((client, Some e), s1) \<Rightarrow> (Return (diag_FromErr e), d, s1)
      | ((client, None), s1) \<Rightarrow>
          (case call (CallLbpoolsGet (Id' d)) (lbpools_Get env client (Id' d)) s1 of
             ((lb, Some e), s2) \<Rightarrow> (Return (diag_FromErr e), d, s2)
           | ((None, None), s2) \<Rightarrow> (Panic, d, s2)
           | ((Some lb, None), s2) \<Rightarrow>
               (case LBPoolRead_fields env lb d of (diags, d') \<Rightarrow> (Return diags, d', s2))))"

subsection \<open>resourceLBPoolCreate\<close>

definition LBPoolCreate_checker :: "('w, 'c, 't, 'ip) lbpools_env \<Rightarrow> 'c \<Rightarrow> 'w checker" where
  "LBPoolCreate_checker env client task w =
     (case tasks_Get env client task w of
        ((taskInfo, Some e), w1) \<Rightarrow>
          (Some (INil, Some (Errorf_w ''cannot get task with ID: %s. Error: %w'' [task] e)), w1)
      | ((taskInfo, None), w1) \<Rightarrow>
          (case ExtractPoolIDFromTask env taskInfo of
             (lbPoolID, Some e) \<Rightarrow>
               (Some (INil, Some (Errorf_w ''cannot retrieve LBPool ID from task info: %w'' [] e)), w1)
           | (lbPoolID, None) \<Rightarrow> (Some (IStr lbPoolID, None), w1)))"

text \<open>
  A create handler calls the read handler for its effect on \<open>d\<close> and drops the diagnostics
  it returns.
\<close>

definition drop_diags :: "outcome \<times> ResourceData \<times> 'w st \<Rightarrow> outcome \<times> ResourceData \<times> 'w st" where
  "drop_diags r =
     (case r of
        (Return ds, d, s) \<Rightarrow> (Return [], d, s)
      | (Panic, d, s) \<Rightarrow> (Panic, d, s))"

text \<open>The options of the create request.\<close>

definition LBPoolCreate_opts :: "('w, 'c, 't, 'ip) lbpools_env \<Rightarrow> ResourceData \<Rightarrow> lbpools_CreateOpts" where
  "LBPoolCreate_opts env d =
     (let healthOpts = extractHealthMonitorMap env d;
          sessionOpts = extractSessionPersistenceMap env d
      in \<lparr>lbpools_CreateOpts.Name = as_string (Get d ''name''),
          lbpools_CreateOpts.Protocol = as_string (Get d ''protocol''),
          lbpools_CreateOpts.LBPoolAlgorithm = as_string (Get d ''lb_algorithm''),
          LoadBalancerID = as_string (Get d ''loadbalancer_id''),
          ListenerID = as_string (Get d ''listener_id''),
          lbpools_CreateOpts.HealthMonitor = healthOpts,
          lbpools_CreateOpts.SessionPersistence = sessionOpts\<rparr>)"

definition resourceLBPoolCreate ::
  "('w, 'c, 't, 'ip) lbpools_env \<Rightarrow> ResourceData \<Rightarrow> 'w st \<Rightarrow> outcome \<times> ResourceData \<times> 'w st" where
  "resourceLBPoolCreate env d s =
     (case call (CallCreateClient LBPoolsPoint) (CreateClient env d LBPoolsPoint (VersionPointV1 env)) s of
        ((client, Some e), s1) \<Rightarrow> (Return (diag_FromErr e), d, s1)
      | ((client, None), s1) \<Rightarrow>
          (case call CallLbpoolsCreate (lbpools_Create env client (LBPoolCreate_opts env d)) s1 of
             ((results, Some e), s2) \<Rightarrow> (Return (diag_FromErr e), d, s2)
           | ((results, None), s2) \<Rightarrow>
               (case first_task results of
                  None \<Rightarrow> (Panic, d, s2)
                | Some taskID \<Rightarrow>
                    (case call (CallWaitTask taskID LBPoolsCreateTimeout)
                            (WaitTaskAndReturnResult env client taskID True LBPoolsCreateTimeout
                               (LBPoolCreate_checker env client)) s2 of
                       (None, s3) \<Rightarrow> (Panic, d, s3)
                     | (Some (lbPoolID, Some e), s3) \<Rightarrow> (Return (diag_FromErr e), d, s3)
                     | (Some (INil, None), s3) \<Rightarrow> (Panic, d, s3)
                     | (Some (IStr lbPoolID, None), s3) \<Rightarrow>
                         drop_diags (resourceLBPoolRead env (SetId d lbPoolID) s3)))))"

subsection \<open>resourceLBPoolUpdate\<close>

definition LBPoolUpdate_checker :: "('w, 'c, 't, 'ip) lbpools_env \<Rightarrow> 'c \<Rightarrow> 'w checker" where
  "LBPoolUpdate_checker env client task w =
     (case tasks_Get env client task w of
        ((taskInfo, Some e), w1) \<Rightarrow>
          (Some (INil, Some (Errorf_w ''cannot get task with ID: %s. Error: %w'' [task] e)), w1)
      | ((taskInfo, None), w1) \<Rightarrow> (Some (INil, None), w1))"

text \<open>The options and the \<open>change\<close> flag that the three \<open>d.HasChange\<close> tests build.\<close>

definition LBPoolUpdate_opts ::
  "('w, 'c, 't, 'ip) lbpools_env \<Rightarrow> ResourceData \<Rightarrow> lbpools_UpdateOpts \<times> bool" where
  "LBPoolUpdate_opts env d =
     (let change0 = False;
          opts0 = \<lparr>lbpools_UpdateOpts.Name = as_string (Get d ''name''), lbpools_UpdateOpts.LBPoolAlgorithm = [],
                   lbpools_UpdateOpts.HealthMonitor = VNil, lbpools_UpdateOpts.SessionPersistence = VNil\<rparr>;
          (opts1, change1) =
            (if HasChange d ''lb_algorithm''
             then (opts0\<lparr>lbpools_UpdateOpts.LBPoolAlgorithm := as_string (Get d ''lb_algorithm'')\<rparr>, True)
             else (opts0, change0));
          (opts2, change2) =
            (if HasChange d ''health_monitor''
             then (opts1\<lparr>lbpools_UpdateOpts.HealthMonitor := extractHealthMonitorMap env d\<rparr>, True)
             else (opts1, change1));
          (opts3, change3) =
            (if HasChange d ''session_persistence''
             then (opts2\<lparr>lbpools_UpdateOpts.SessionPersistence := extractSessionPersistenceMap env d\<rparr>, True)
             else (opts2, change2))
      in (opts3, change3))"

definition resourceLBPoolUpdate ::
  "('w, 'c, 't, 'ip) lbpools_env \<Rightarrow> ResourceData \<Rightarrow> 'w st \<Rightarrow> outcome \<times> ResourceData \<times> 'w st" where
  "resourceLBPoolUpdate env d s =
     (case call (CallCreateClient LBPoolsPoint) (CreateClient env d LBPoolsPoint (VersionPointV1 env)) s of
        ((client, Some e), s1) \<Rightarrow> (Return (diag_FromErr e), d, s1)
      | ((client, None), s1) \<Rightarrow>
          (case LBPoolUpdate_opts env d of
             (opts, change) \<Rightarrow>
               if \<not> change then resourceLBPoolRead env d s1
               else
                 (case call (CallLbpoolsUpdate (Id' d)) (lbpools_Update env client (Id' d) opts) s1 of
                    ((results, Some e), s2) \<Rightarrow> (Return (diag_FromErr e), d, s2)
                  | ((results, None), s2) \<Rightarrow>
                      (case first_task results of
                         None \<Rightarrow> (Panic, d, s2)
                       | Some taskID \<Rightarrow>
                           (case call (CallWaitTask taskID LBPoolsCreateTimeout)
                                   (WaitTaskAndReturnResult env client taskID True LBPoolsCreateTimeout
                                      (LBPoolUpdate_checker env client)) s2 of
                              (None, s3) \<Rightarrow> (Panic, d, s3)
                            | (Some (r, Some e), s3) \<Rightarrow> (Return (diag_FromErr e), d, s3)
                            | (Some (r, None), s3) \<Rightarrow>
                                resourceLBPoolRead env
                                  (Set' d ''last_updated'' (VStr (time_Now env (world s3)))) s3)))))"

subsection \<open>resourceLBPoolDelete\<close>

definition LBPoolDelete_checker :: "('w, 'c, 't, 'ip) lbpools_env \<Rightarrow> 'c \<Rightarrow> string \<Rightarrow> 'w checker" where
  "LBPoolDelete_checker env client id' task w =
     (case lbpools_Get env client id' w of
        ((lb, None), w1) \<Rightarrow> (Some (INil, Some (Errorf ''cannot delete LBPool with ID: %s'' [id'])), w1)
      | ((lb, Some e), w1) \<Rightarrow>
          if errors_As_404 e then (Some (INil, None), w1)
          else (Some (INil, Some (Errorf_w ''extracting LBPool resource error: %w'' [] e)), w1))"

text \<open>The handler from \<open>taskID := results.Tasks[0]\<close> on.\<close>

definition LBPoolDelete_wait ::
  "('w, 'c, 't, 'ip) lbpools_env \<Rightarrow> 'c \<Rightarrow> string \<Rightarrow> TaskResults option \<Rightarrow> ResourceData \<Rightarrow> 'w st
     \<Rightarrow> outcome \<times> ResourceData \<times> 'w st" where
  "LBPoolDelete_wait env client id' results d s2 =
     (case first_task results of
        None \<Rightarrow> (Panic, d, s2)
      | Some taskID \<Rightarrow>
          (case call (CallWaitTask taskID LBPoolsCreateTimeout)
                  (WaitTaskAndReturnResult env client taskID True LBPoolsCreateTimeout
                     (LBPoolDelete_checker env client id')) s2 of
             (None, s3) \<Rightarrow> (Panic, d, s3)
           | (Some (r, Some e), s3) \<Rightarrow> (Return (diag_FromErr e), d, s3)
           | (Some (r, None), s3) \<Rightarrow> (Return [], SetId d [], s3)))"

definition resourceLBPoolDelete ::
  "('w, 'c, 't, 'ip) lbpools_env \<Rightarrow> ResourceData \<Rightarrow> 'w st \<Rightarrow> outcome \<times> ResourceData \<times> 'w st" where
  "resourceLBPoolDelete env d s =
     (case call (CallCreateClient LBPoolsPoint) (CreateClient env d LBPoolsPoint (VersionPointV1 env)) s of
        ((client, Some e), s1) \<Rightarrow> (Return (diag_FromErr e), d, s1)
      | ((client, None), s1) \<Rightarrow>
          (let id' = Id' d
           in case call (CallLbpoolsDelete id') (lbpools_Delete env client id') s1 of
                ((results, Some e), s2) \<Rightarrow>
                  if \<not> errors_As_404 e then (Return (diag_FromErr e), d, s2)
                  else LBPoolDelete_wait env client id' results d s2
              | ((results, None), s2) \<Rightarrow> LBPoolDelete_wait env client id' results d s2))"

section \<open>Load balancer pool member\<close>

subsection \<open>resourceLBMemberRead\<close>

text \<open>The body of the loop over \<open>pool.Members\<close>.\<close>

definition LBMemberRead_member :: "string \<Rightarrow> PoolMember \<Rightarrow> ResourceData \<Rightarrow> ResourceData" where
  "LBMemberRead_member mid pm d =
     (if mid = PoolMember.ID pm
      then (let d1 = Set' d ''address'' (VStr (PoolMember.Address pm));
                d2 = Set' d1 ''protocol_port'' (VInt (PoolMember.ProtocolPort pm));
                d3 = Set' d2 ''weight'' (VInt (PoolMember.Weight pm));
                d4 = Set' d3 ''subnet_id'' (VStr (PoolMember.SubnetID pm));
                d5 = Set' d4 ''instance_id'' (VStr (PoolMember.InstanceID pm))
            in Set' d5 ''operating_status'' (VStr (OperatingStatus pm)))
      else d)"

definition resourceLBMemberRead ::
  "('w, 'c, 't, 'ip) lbpools_env \<Rightarrow> ResourceData \<Rightarrow> 'w st \<Rightarrow> outcome \<times> ResourceData \<times> 'w st" where
  "resourceLBMemberRead env d s =
     (case call (CallCreateClient LBPoolsPoint) (CreateClient env d LBPoolsPoint (VersionPointV1 env)) s of
        ((client, Some e), s1) \<Rightarrow> (Return (diag_FromErr e), d, s1)
      | ((client, None), s1) \<Rightarrow>
          (case call (CallLbpoolsGet (as_string (Get d ''pool_id'')))
                  (lbpools_Get env client (as_string (Get d ''pool_id''))) s1 of
             ((pool, Some e), s2) \<Rightarrow> (Return (diag_FromErr e), d, s2)
           | ((None, None), s2) \<Rightarrow> (Panic, d, s2)
           | ((Some pool, None), s2) \<Rightarrow>
               (let mid = Id' d;
                    d1 = fold (LBMemberRead_member mid) (Members pool) d
                in (Return [], revertState env d1 [''project_id'', ''region_id''], s2))))"

subsection \<open>resourceLBMemberCreate\<close>

definition LBMemberCreate_checker :: "('w, 'c, 't, 'ip) lbpools_env \<Rightarrow> 'c \<Rightarrow> 'w checker" where
  "LBMemberCreate_checker env client task w =
     (case tasks_Get env client task w of
        ((taskInfo, Some e), w1) \<Rightarrow>
          (Some (INil, Some (Errorf_w ''cannot get task with ID: %s. Error: %w'' [task] e)), w1)
      | ((taskInfo, None), w1) \<Rightarrow>
          (case ExtractPoolMemberIDFromTask env taskInfo of
             (pmID, Some e) \<Rightarrow>
               (Some (INil, Some (Errorf_w ''cannot retrieve LBMember ID from task info: %w'' [] e)), w1)
           | (pmID, None) \<Rightarrow> (Some (IStr pmID, None), w1)))"

text \<open>The options of the create request.\<close>

definition LBMemberCreate_opts ::
  "('w, 'c, 't, 'ip) lbpools_env \<Rightarrow> ResourceData \<Rightarrow> 'ip CreatePoolMemberOpts" where
  "LBMemberCreate_opts env d =
     \<lparr>CreatePoolMemberOpts.Address = net_ParseIP env (as_string (Get d ''address'')),
      CreatePoolMemberOpts.ProtocolPort = as_int (Get d ''protocol_port''),
      CreatePoolMemberOpts.Weight = as_int (Get d ''weight''),
      CreatePoolMemberOpts.SubnetID = as_string (Get d ''subnet_id''),
      CreatePoolMemberOpts.InstanceID = as_string (Get d ''instance_id'')\<rparr>"

definition resourceLBMemberCreate ::
  "('w, 'c, 't, 'ip) lbpools_env \<Rightarrow> ResourceData \<Rightarrow> 'w st \<Rightarrow> outcome \<times> ResourceData \<times> 'w st" where
  "resourceLBMemberCreate env d s =
     (case call (CallCreateClient LBPoolsPoint) (CreateClient env d LBPoolsPoint (VersionPointV1 env)) s of
        ((client, Some e), s1) \<Rightarrow> (Return (diag_FromErr e), d, s1)
      | ((client, None), s1) \<Rightarrow>
          (case call (CallLbpoolsCreateMember (as_string (Get d ''pool_id'')))
                  (lbpools_CreateMember env client (as_string (Get d ''pool_id''))
                     (LBMemberCreate_opts env d)) s1 of
             ((results, Some e), s2) \<Rightarrow> (Return (diag_FromErr e), d, s2)
           | ((results, None), s2) \<Rightarrow>
               (case first_task results of
                  None \<Rightarrow> (Panic, d, s2)
                | Some taskID \<Rightarrow>
                    (case call (CallWaitTask taskID LBPoolsCreateTimeout)
                            (WaitTaskAndReturnResult env client taskID True LBPoolsCreateTimeout
                               (LBMemberCreate_checker env client)) s2 of
                       (None, s3) \<Rightarrow> (Panic, d, s3)
                     | (Some (pmID, Some e), s3) \<Rightarrow> (Return (diag_FromErr e), d, s3)
                     | (Some (INil, None), s3) \<Rightarrow> (Panic, d, s3)
                     | (Some (IStr pmID, None), s3) \<Rightarrow>
                         drop_diags (resourceLBMemberRead env (SetId d pmID) s3)))))"

subsection \<open>resourceLBMemberDelete\<close>

definition LBMemberDelete_checker ::
  "('w, 'c, 't, 'ip) lbpools_env \<Rightarrow> 'c \<Rightarrow> string \<Rightarrow> string \<Rightarrow> 'w checker" where
  "LBMemberDelete_checker env client pid mid task w =
     (case lbpools_Get env client pid w of
        ((pool, Some e), w1) \<Rightarrow>
          (Some (INil, Some (Errorf_w ''extracting LBPool resource error: %w'' [] e)), w1)
      | ((None, None), w1) \<Rightarrow> (None, w1)
      | ((Some pool, None), w1) \<Rightarrow>
          if mid \<in> set (map PoolMember.ID (Members pool))
          then (Some (INil, Some (Errorf ''pool member %s still exist'' [mid])), w1)
          else (Some (INil, None), w1))"

definition resourceLBMemberDelete ::
  "('w, 'c, 't, 'ip) lbpools_env \<Rightarrow> ResourceData \<Rightarrow> 'w st \<Rightarrow> outcome \<times> ResourceData \<times> 'w st" where
  "resourceLBMemberDelete env d s =
     (case call (CallCreateClient LBPoolsPoint) (CreateClient env d LBPoolsPoint (VersionPointV1 env)) s of
        ((client, Some e), s1) \<Rightarrow> (Return (diag_FromErr e), d, s1)
      | ((client, None), s1) \<Rightarrow>
          (let mid = Id' d;
               pid = as_string (Get d ''pool_id'')
           in case call (CallLbpoolsDeleteMember pid mid) (lbpools_DeleteMember env client pid mid) s1 of
                ((results, Some e), s2) \<Rightarrow>
                  if errors_As_404 e then (Return [], SetId d [], s2)
                  else (Return (diag_FromErr e), d, s2)
              | ((results, None), s2) \<Rightarrow>
                  (case first_task results of
                     None \<Rightarrow> (Panic, d, s2)
                   | Some taskID \<Rightarrow>
                       (case call (CallWaitTask taskID LBPoolsCreateTimeout)
                               (WaitTaskAndReturnResult env client taskID True LBPoolsCreateTimeout
                                  (LBMemberDelete_checker env client pid mid)) s2 of
                          (None, s3) \<Rightarrow> (Panic, d, s3)
                        | (Some (r, Some e), s3) \<Rightarrow> (Return (diag_FromErr e), d, s3)
                        | (Some (r, None), s3) \<Rightarrow> (Return [], SetId d [], s3)))))"

section \<open>Router\<close>

definition RouterDeleting :: int where "RouterDeleting = 1200"
definition RouterCreatingTimeout :: int where "RouterCreatingTimeout = 1200"
definition RouterPoint :: string where "RouterPoint = ''routers''"

text \<open>
  The SDK's \<open>routers\<close> types as the handlers read them. \<open>GatewayInfo\<close> and
  \<open>routers_Interface\<close> are what \<open>extractExternalGatewayInfoMap\<close> and \<open>extractInterfacesMap\<close>
  build; a host route is kept as a \<open>val\<close>.
\<close>

record GatewayInfo =
  Type :: string
  Rest :: val

record routers_Interface =
  Type :: string
  SubnetID :: string

record ExternalFixedIP =
  IPAddress :: string
  SubnetID :: string

record ExtGatewayInfo =
  EnableSNat :: bool
  NetworkID :: string
  ExternalFixedIPs :: "ExternalFixedIP list"

record PortIP =
  SubnetID :: string
  IPAddress :: string

record RouterInterface =
  PortID :: string
  NetworkID :: string
  MacAddress :: string
  IPAssignments :: "PortIP list"

record HostRoute =
  Destination :: string
  NextHop :: string

record Router =
  Name :: string
  ExternalGatewayInfo :: ExtGatewayInfo
  Interfaces :: "RouterInterface list"
  Routes :: "HostRoute list"

record routers_CreateOpts =
  Name :: string
  ExternalGatewayInfo :: "GatewayInfo option"
  Interfaces :: "routers_Interface list"
  Routes :: "val list"

text \<open>In \<open>routers_UpdateOpts\<close> the routes are \<open>None\<close> for a nil slice.\<close>

record routers_UpdateOpts =
  Name :: string
  ExternalGatewayInfo :: "GatewayInfo option"
  Routes :: "val list option"

text \<open>
  The router handlers use, besides the provider's environment: the helpers
  \<open>extractExternalGatewayInfoMap\<close>, \<open>extractInterfacesMap\<close> and \<open>extractHostRoutesMap\<close>;
  \<open>schema.NewSet(routerInterfaceUniqueID, ifs)\<close> as \<open>NewSet_interfaces\<close>; the order in which
  Go's \<open>range\<close> visits the entries of the map \<open>omap\<close> (\<open>range_omap\<close>); and the SDK's
  \<open>routers\<close> requests. \<open>Attach\<close>, \<open>Detach\<close> and \<open>Update\<close> give the error of their
  \<open>Extract()\<close>, whose value the handler discards.
\<close>

record ('w, 'c, 't) routers_env = "('w, 'c, 't) provider_env" +
  extractExternalGatewayInfoMap :: "val list \<Rightarrow> GatewayInfo \<times> err option"
  extractInterfacesMap :: "val list \<Rightarrow> routers_Interface list \<times> err option"
  extractHostRoutesMap :: "val list \<Rightarrow> val list \<times> err option"
  NewSet_interfaces :: "val list \<Rightarrow> val"
  range_omap :: "(string \<times> nat) list \<Rightarrow> (string \<times> nat) list"
  routers_Create :: "'c \<Rightarrow> routers_CreateOpts \<Rightarrow> 'w \<Rightarrow> (TaskResults option \<times> err option) \<times> 'w"
  routers_Get :: "'c \<Rightarrow> string \<Rightarrow> 'w \<Rightarrow> (Router option \<times> err option) \<times> 'w"
  routers_Update :: "'c \<Rightarrow> string \<Rightarrow> routers_UpdateOpts \<Rightarrow> 'w \<Rightarrow> err option \<times> 'w"
  routers_Attach :: "'c \<Rightarrow> string \<Rightarrow> string \<Rightarrow> 'w \<Rightarrow> err option \<times> 'w"
  routers_Detach :: "'c \<Rightarrow> string \<Rightarrow> string \<Rightarrow> 'w \<Rightarrow> err option \<times> 'w"
  routers_Delete :: "'c \<Rightarrow> string \<Rightarrow> 'w \<Rightarrow> (TaskResults option \<times> err option) \<times> 'w"
  ExtractRouterIDFromTask :: "'t \<Rightarrow> string \<times> err option"

subsection \<open>resourceRouterRead\<close>

text \<open>The block guarded by \<open>len(router.ExternalGatewayInfo.ExternalFixedIPs) > 0\<close>.\<close>

definition RouterRead_gateway ::
  "('w, 'c, 't) routers_env \<Rightarrow> Router \<Rightarrow> ResourceData \<Rightarrow> ResourceData \<times> err option" where
  "RouterRead_gateway env router d =
     (let info = Router.ExternalGatewayInfo router
      in if length (ExternalFixedIPs info) > 0
         then
           (let egi0 = [(''enable_snat'', VBool (EnableSNat info)),
                        (''network_id'', VStr (ExtGatewayInfo.NetworkID info))];
                egist = Get d ''external_gateway_info'';
                (egi1, err) =
                  (if length (as_list egist) > 0
                   then (case extractExternalGatewayInfoMap env (as_list egist) of
                           (gws, Some e) \<Rightarrow> (egi0, Some e)
                         | (gws, None) \<Rightarrow> (egi0 @ [(''type'', VStr (GatewayInfo.Type gws))], None))
                   else (egi0, None))
            in case err of
                 Some e \<Rightarrow> (d, Some e)
               | None \<Rightarrow>
                   (let efip = map (\<lambda>fip. VMap [(''ip_address'', VStr (ExternalFixedIP.IPAddress fip)),
                                                (''subnet_id'', VStr (ExternalFixedIP.SubnetID fip))])
                                 (ExternalFixedIPs info);
                        egi = egi1 @ [(''external_fixed_ips'', VList efip)]
                    in (fst (Set_checked env d ''external_gateway_info'' (VList [VMap egi])), None)))
         else (d, None))"

definition RouterRead_interfaces :: "Router \<Rightarrow> val list" where
  "RouterRead_interfaces router =
     concat (map (\<lambda>iface.
               map (\<lambda>subnet.
                      VMap [(''port_id'', VStr (PortID iface)),
                            (''network_id'', VStr (RouterInterface.NetworkID iface)),
                            (''mac_address'', VStr (MacAddress iface)),
                            (''type'', VStr ''subnet''),
                            (''subnet_id'', VStr (PortIP.SubnetID subnet)),
                            (''ip_address'', VStr (PortIP.IPAddress subnet))])
                   (IPAssignments iface))
             (Router.Interfaces router))"

definition RouterRead_routes :: "Router \<Rightarrow> val list" where
  "RouterRead_routes router =
     map (\<lambda>r. VMap [(''destination'', VStr (Destination r)), (''nexthop'', VStr (NextHop r))])
       (Router.Routes router)"

definition resourceRouterRead ::
  "('w, 'c, 't) routers_env \<Rightarrow> ResourceData \<Rightarrow> 'w st \<Rightarrow> outcome \<times> ResourceData \<times> 'w st" where
  "resourceRouterRead env d s =
     (let routerID = Id' d
      in case call (CallCreateClient RouterPoint) (CreateClient env d RouterPoint (VersionPointV1 env)) s of
           ((client, Some e), s1) \<Rightarrow> (Return (diag_FromErr e), d, s1)
         | ((client, None), s1) \<Rightarrow>
             (case call (CallRoutersGet routerID) (routers_Get env client routerID) s1 of
                ((router, Some e), s2) \<Rightarrow>
                  (Return (diag_Errorf ''cannot get router with ID: %s. Error: %s'' [ArgS routerID, ArgE e]),
                   d, s2)
              | ((None, None), s2) \<Rightarrow> (Panic, d, s2)
              | ((Some router, None), s2) \<Rightarrow>
                  (let d1 = Set' d ''name'' (VStr (Router.Name router))
                   in case RouterRead_gateway env router d1 of
                        (d2, Some e) \<Rightarrow> (Return (diag_FromErr e), d2, s2)
                      | (d2, None) \<Rightarrow>
                          (case Set_checked env d2 ''interfaces''
                                  (NewSet_interfaces env (RouterRead_interfaces router)) of
                             (d3, Some e) \<Rightarrow> (Return (diag_FromErr e), d3, s2)
                           | (d3, None) \<Rightarrow>
                               (Return [],
                                fst (Set_checked env d3 ''routes'' (VList (RouterRead_routes router))),
                                s2)))))"

subsection \<open>resourceRouterCreate\<close>

definition RouterCreate_checker :: "('w, 'c, 't) routers_env \<Rightarrow> 'c \<Rightarrow> 'w checker" where
  "RouterCreate_checker env client task w =
     (case tasks_Get env client task w of
        ((taskInfo, Some e), w1) \<Rightarrow>
          (Some (INil, Some (Errorf_w ''cannot get task with ID: %s. Error: %w'' [task] e)), w1)
      | ((taskInfo, None), w1) \<Rightarrow>
          (case ExtractRouterIDFromTask env taskInfo of
             (Router, Some e) \<Rightarrow>
               (Some (INil, Some (Errorf_w ''cannot retrieve Router ID from task info: %w'' [] e)), w1)
           | (Router, None) \<Rightarrow> (Some (IStr Router, None), w1)))"

text \<open>The options of the create request; an error of one of the three helpers ends the handler.\<close>

definition RouterCreate_opts ::
  "('w, 'c, 't) routers_env \<Rightarrow> ResourceData \<Rightarrow> err + routers_CreateOpts" where
  "RouterCreate_opts env d =
     (let createOpts0 = \<lparr>routers_CreateOpts.Name = as_string (Get d ''name''),
                          routers_CreateOpts.ExternalGatewayInfo = None,
                          routers_CreateOpts.Interfaces = [],
                          routers_CreateOpts.Routes = []\<rparr>;
          egi = as_list (Get d ''external_gateway_info'');
          r1 = (if length egi > 0
                then (case extractExternalGatewayInfoMap env egi of
                        (gws, Some e) \<Rightarrow> Inl e
                      | (gws, None) \<Rightarrow>
                          Inr (createOpts0\<lparr>routers_CreateOpts.ExternalGatewayInfo := Some gws\<rparr>))
                else Inr createOpts0)
      in case r1 of
           Inl e \<Rightarrow> Inl e
         | Inr createOpts1 \<Rightarrow>
             (let ifs = as_list (Get d ''interfaces'');
                  r2 = (if length ifs > 0
                        then (case extractInterfacesMap env ifs of
                                (ifaces, Some e) \<Rightarrow> Inl e
                              | (ifaces, None) \<Rightarrow>
                                  Inr (createOpts1\<lparr>routers_CreateOpts.Interfaces := ifaces\<rparr>))
                        else Inr createOpts1)
              in case r2 of
                   Inl e \<Rightarrow> Inl e
                 | Inr createOpts2 \<Rightarrow>
                     (let rs = as_list (Get d ''routes'')
                      in if length rs > 0
                         then (case extractHostRoutesMap env rs of
                                 (routes, Some e) \<Rightarrow> Inl e
                               | (routes, None) \<Rightarrow>
                                   Inr (createOpts2\<lparr>routers_CreateOpts.Routes := routes\<rparr>))
                         else Inr createOpts2)))"

definition resourceRouterCreate ::
  "('w, 'c, 't) routers_env \<Rightarrow> ResourceData \<Rightarrow> 'w st \<Rightarrow> outcome \<times> ResourceData \<times> 'w st" where
  "resourceRouterCreate env d s =
     (case call (CallCreateClient RouterPoint) (CreateClient env d RouterPoint (VersionPointV1 env)) s of
        ((client, Some e), s1) \<Rightarrow> (Return (diag_FromErr e), d, s1)
      | ((client, None), s1) \<Rightarrow>
          (case RouterCreate_opts env d of
             Inl e \<Rightarrow> (Return (diag_FromErr e), d, s1)
           | Inr createOpts \<Rightarrow>
               (case call CallRoutersCreate (routers_Create env client createOpts) s1 of
                  ((results, Some e), s2) \<Rightarrow> (Return (diag_FromErr e), d, s2)
                | ((results, None), s2) \<Rightarrow>
                    (case first_task results of
                       None \<Rightarrow> (Panic, d, s2)
                     | Some taskID \<Rightarrow>
                         (case call (CallWaitTask taskID RouterCreatingTimeout)
                                 (WaitTaskAndReturnResult env client taskID True RouterCreatingTimeout
                                    (RouterCreate_checker env client)) s2 of
                            (None, s3) \<Rightarrow> (Panic, d, s3)
                          | (Some (routerID, Some e), s3) \<Rightarrow> (Return (diag_FromErr e), d, s3)
                          | (Some (INil, None), s3) \<Rightarrow> (Panic, d, s3)
                          | (Some (IStr routerID, None), s3) \<Rightarrow>
                              drop_diags (resourceRouterRead env (SetId d routerID) s3))))))"

subsection \<open>resourceRouterDelete\<close>

definition RouterDelete_checker :: "('w, 'c, 't) routers_env \<Rightarrow> 'c \<Rightarrow> string \<Rightarrow> 'w checker" where
  "RouterDelete_checker env client routerID task w =
     (case routers_Get env client routerID w of
        ((router, None), w1) \<Rightarrow>
          (Some (INil, Some (Errorf ''cannot delete router with ID: %s'' [routerID])), w1)
      | ((router, Some e), w1) \<Rightarrow>
          if errors_As_404 e then (Some (INil, None), w1)
          else (Some (INil, Some (Errorf_w ''extracting Router resource error: %w'' [] e)), w1))"

definition resourceRouterDelete ::
  "('w, 'c, 't) routers_env \<Rightarrow> ResourceData \<Rightarrow> 'w st \<Rightarrow> outcome \<times> ResourceData \<times> 'w st" where
  "resourceRouterDelete env d s =
     (let routerID = Id' d
      in case call (CallCreateClient RouterPoint) (CreateClient env d RouterPoint (VersionPointV1 env)) s of
           ((client, Some e), s1) \<Rightarrow> (Return (diag_FromErr e), d, s1)
         | ((client, None), s1) \<Rightarrow>
             (case call (CallRoutersDelete routerID) (routers_Delete env client routerID) s1 of
                ((results, Some e), s2) \<Rightarrow> (Return (diag_FromErr e), d, s2)
              | ((results, None), s2) \<Rightarrow>
                  (case first_task results of
                     None \<Rightarrow> (Panic, d, s2)
                   | Some taskID \<Rightarrow>
                       (case call (CallWaitTask taskID RouterDeleting)
                               (WaitTaskAndReturnResult env client taskID True RouterDeleting
                                  (RouterDelete_checker env client routerID)) s2 of
                          (None, s3) \<Rightarrow> (Panic, d, s3)
                        | (Some (r, Some e), s3) \<Rightarrow> (Return (diag_FromErr e), d, s3)
                        | (Some (r, None), s3) \<Rightarrow> (Return [], SetId d [], s3)))))"

subsection \<open>resourceRouterUpdate\<close>









section \<open>Baremetal instance\<close>

definition BmInstanceDeleting :: int where "BmInstanceDeleting = 1200"
definition BmInstanceCreatingTimeout :: int where "BmInstanceCreatingTimeout = 3600"
definition BmInstancePoint :: string where "BmInstancePoint = ''bminstances''"

record FloatingIPOpts =
  Source :: string
  ExistingFloatingID :: string

record bminstances_InterfaceOpts =
  Type :: string
  NetworkID :: string
  SubnetID :: string
  PortID :: string
  FloatingIP :: "FloatingIPOpts option"

record bminstances_CreateOpts =
  Flavor :: string
  ImageID :: string
  AppTemplateID :: string
  Keypair :: string
  Password :: string
  Username :: string
  UserData :: string
  AppConfig :: "(string \<times> val) list"
  Interfaces :: "bminstances_InterfaceOpts list"
  Names :: "string list"
  NameTemplates :: "string list"
  Metadata :: "val option"

record instances_InterfaceOpts =
  Type :: string
  SubnetID :: string
  IPAddress :: string
  PortID :: string
  FloatingIP :: "FloatingIPOpts option"

record InstanceFlavor =
  FlavorID :: string
  FlavorName :: string
  RAM :: int
  VCPUS :: int

record InstanceAddress =
  Type :: string
  Address :: string

text \<open>
  \<open>Addresses\<close> is a Go map from network names to address lists; the list holds its values in
  the order in which \<open>range\<close> visits them.
\<close>

record Instance =
  Name :: string
  Flavor :: InstanceFlavor
  Status :: string
  VMState :: string
  Addresses :: "InstanceAddress list list"

record SubPort =
  PortID :: string
  NetworkID :: string
  IPAssignments :: "PortIP list"

record instances_Interface =
  PortID :: string
  NetworkID :: string
  IPAssignments :: "PortIP list"
  SubPorts :: "SubPort list"

record Metadata =
  Key :: string
  Value :: string

record DeleteOpts =
  DeleteFloatings :: bool

text \<open>
  The baremetal handlers use, besides the provider's environment: the constant
  \<open>InstancePoint\<close>; \<open>sort.Sort(instanceInterfaces(ifs))\<close> as \<open>sort_instanceInterfaces\<close>; the
  helpers \<open>extractKeyValue\<close>, \<open>extractMetadataMap\<close> and \<open>extractInstanceInterfaceToListRead\<close>;
  \<open>strconv.Itoa\<close>; and the SDK's requests.
\<close>

record ('w, 'c, 't) bminstances_env = "('w, 'c, 't) provider_env" +
  InstancePoint :: string
  sort_instanceInterfaces :: "val list \<Rightarrow> val list"
  extractKeyValue :: "val list \<Rightarrow> val \<times> err option"
  extractMetadataMap :: "(string \<times> val) list \<Rightarrow> val"
  extractInstanceInterfaceToListRead :: "val list \<Rightarrow> instances_InterfaceOpts list \<times> err option"
  strconv_Itoa :: "int \<Rightarrow> string"
  bminstances_Create :: "'c \<Rightarrow> bminstances_CreateOpts \<Rightarrow> 'w \<Rightarrow> (TaskResults option \<times> err option) \<times> 'w"
  instances_Get :: "'c \<Rightarrow> string \<Rightarrow> 'w \<Rightarrow> (Instance option \<times> err option) \<times> 'w"
  instances_ListInterfacesAll :: "'c \<Rightarrow> string \<Rightarrow> 'w \<Rightarrow> (instances_Interface list \<times> err option) \<times> 'w"
  instances_MetadataGet :: "'c \<Rightarrow> string \<Rightarrow> string \<Rightarrow> 'w \<Rightarrow> (Metadata option \<times> err option) \<times> 'w"
  instances_Delete :: "'c \<Rightarrow> string \<Rightarrow> DeleteOpts \<Rightarrow> 'w \<Rightarrow> (TaskResults option \<times> err option) \<times> 'w"
  ExtractInstanceIDFromTask :: "'t \<Rightarrow> string \<times> err option"

subsection \<open>resourceBmInstanceRead\<close>

text \<open>The first extracted interface that matches by subnet, address or port, or the zero value.\<close>

definition find_interfaceOpts ::
  "instances_InterfaceOpts list \<Rightarrow> string \<Rightarrow> string \<Rightarrow> string \<Rightarrow> instances_InterfaceOpts" where
  "find_interfaceOpts interfacesListExtracted subnetID ipAddress portID =
     (case filter (\<lambda>interfaceExtracted.
                     instances_InterfaceOpts.SubnetID interfaceExtracted = subnetID \<or>
                     instances_InterfaceOpts.IPAddress interfaceExtracted = ipAddress \<or>
                     instances_InterfaceOpts.PortID interfaceExtracted = portID)
             interfacesListExtracted of
        interfaceOpts # rest \<Rightarrow> interfaceOpts
      | [] \<Rightarrow> \<lparr>instances_InterfaceOpts.Type = [], instances_InterfaceOpts.SubnetID = [],
               instances_InterfaceOpts.IPAddress = [], instances_InterfaceOpts.PortID = [],
               instances_InterfaceOpts.FloatingIP = None\<rparr>)"

text \<open>The map \<open>i\<close> that the read builds for one IP assignment of a port or of a sub-port.\<close>

definition interface_entry ::
  "instances_InterfaceOpts \<Rightarrow> nat \<Rightarrow> string \<Rightarrow> string \<Rightarrow> string \<Rightarrow> bool \<Rightarrow> string \<Rightarrow> val" where
  "interface_entry interfaceOpts order networkID subnetID portID isParent ipAddress =
     VMap ([(''type'', VStr (instances_InterfaceOpts.Type interfaceOpts)),
            (''order'', VInt (int order)),
            (''network_id'', VStr networkID),
            (''subnet_id'', VStr subnetID),
            (''port_id'', VStr portID),
            (''is_parent'', VBool isParent)]
           @ (case instances_InterfaceOpts.FloatingIP interfaceOpts of
                Some fip \<Rightarrow> [(''fip_source'', VStr (Source fip)),
                             (''existing_fip_id'', VStr (ExistingFloatingID fip))]
              | None \<Rightarrow> [])
           @ [(''ip_address'', VStr ipAddress)])"

definition BmInstanceRead_interfaces ::
  "instances_Interface list \<Rightarrow> instances_InterfaceOpts list \<Rightarrow> val list" where
  "BmInstanceRead_interfaces interfacesListAPI interfacesListExtracted =
     concat (map (\<lambda>(order, iFace).
       if length (instances_Interface.IPAssignments iFace) = 0 then []
       else
         map (\<lambda>assignment.
                interface_entry
                  (find_interfaceOpts interfacesListExtracted (PortIP.SubnetID assignment)
                     (PortIP.IPAddress assignment) (instances_Interface.PortID iFace))
                  order (instances_Interface.NetworkID iFace) (PortIP.SubnetID assignment)
                  (instances_Interface.PortID iFace) True (PortIP.IPAddress assignment))
           (instances_Interface.IPAssignments iFace)
         @ concat (map (\<lambda>iFaceSubPort.
             map (\<lambda>assignmentSubPort.
                    interface_entry
                      (find_interfaceOpts interfacesListExtracted (PortIP.SubnetID assignmentSubPort)
                         (PortIP.IPAddress assignmentSubPort) (SubPort.PortID iFaceSubPort))
                      order (SubPort.NetworkID iFaceSubPort) (PortIP.SubnetID assignmentSubPort)
                      (SubPort.PortID iFaceSubPort) False (PortIP.IPAddress assignmentSubPort))
               (SubPort.IPAssignments iFaceSubPort))
           (SubPorts iFace)))
       (enumerate 0 interfacesListAPI))"

text \<open>
  The two loops that fetch the metadata, one request for each key: over the list \<open>metadata\<close>,
  and over the keys of the map \<open>metadata_map\<close> in the order of its entries.
\<close>

fun BmInstanceRead_metadata ::
  "('w, 'c, 't) bminstances_env \<Rightarrow> 'c \<Rightarrow> string \<Rightarrow> val list \<Rightarrow> 'w st \<Rightarrow> (outcome + val list) \<times> 'w st" where
  "BmInstanceRead_metadata env client instanceID [] s = (Inr [], s)"
| "BmInstanceRead_metadata env client instanceID (data # rest) s =
     (case call (CallInstancesMetadataGet instanceID (as_string (index_map data ''key'')))
             (instances_MetadataGet env client instanceID (as_string (index_map data ''key''))) s of
        ((md, Some e), s1) \<Rightarrow>
          (Inl (Return (diag_Errorf ''cannot get metadata with key: %s. Error: %s''
                          [ArgS instanceID, ArgE e])), s1)
      | ((None, None), s1) \<Rightarrow> (Inl Panic, s1)
      | ((Some md, None), s1) \<Rightarrow>
          (case BmInstanceRead_metadata env client instanceID rest s1 of
             (Inl r, s2) \<Rightarrow> (Inl r, s2)
           | (Inr sliced, s2) \<Rightarrow>
               (Inr (VMap [(''key'', VStr (Key md)), (''value'', VStr (Value md))] # sliced), s2)))"

fun BmInstanceRead_metadata_map ::
  "('w, 'c, 't) bminstances_env \<Rightarrow> 'c \<Rightarrow> string \<Rightarrow> string list \<Rightarrow> 'w st
     \<Rightarrow> (outcome + (string \<times> val) list) \<times> 'w st" where
  "BmInstanceRead_metadata_map env client instanceID [] s = (Inr [], s)"
| "BmInstanceRead_metadata_map env client instanceID (k # rest) s =
     (case call (CallInstancesMetadataGet instanceID k)
             (instances_MetadataGet env client instanceID k) s of
        ((md, Some e), s1) \<Rightarrow>
          (Inl (Return (diag_Errorf ''cannot get metadata with key: %s. Error: %s''
                          [ArgS instanceID, ArgE e])), s1)
      | ((None, None), s1) \<Rightarrow> (Inl Panic, s1)
      | ((Some md, None), s1) \<Rightarrow>
          (case BmInstanceRead_metadata_map env client instanceID rest s1 of
             (Inl r, s2) \<Rightarrow> (Inl r, s2)
           | (Inr newMetadata, s2) \<Rightarrow> (Inr ((k, VStr (Value md)) # newMetadata), s2)))"

definition BmInstanceRead_addresses :: "Instance \<Rightarrow> val list" where
  "BmInstanceRead_addresses instance =
     map (\<lambda>data.
            VMap [(''net'',
                   VList (map (\<lambda>iaddr. VMap [(''type'', VStr (InstanceAddress.Type iaddr)),
                                              (''addr'', VStr (Address iaddr))]) data))])
       (Addresses instance)"

text \<open>The read from the metadata on: the metadata, the addresses and \<open>revertState\<close>.\<close>

definition BmInstanceRead_tail ::
  "('w, 'c, 't) bminstances_env \<Rightarrow> 'c \<Rightarrow> string \<Rightarrow> Instance \<Rightarrow> ResourceData \<Rightarrow> 'w st
     \<Rightarrow> outcome \<times> ResourceData \<times> 'w st" where
  "BmInstanceRead_tail env client instanceID instance d s =
     (let (r, d1, s1) =
            (case GetOk d ''metadata'' of
               (metadataRaw, True) \<Rightarrow>
                 (case BmInstanceRead_metadata env client instanceID (as_list metadataRaw) s of
                    (Inl r, s1) \<Rightarrow> (Some r, d, s1)
                  | (Inr sliced, s1) \<Rightarrow>
                      (None, fst (Set_checked env d ''metadata'' (VList sliced)), s1))
             | (metadataRaw, False) \<Rightarrow>
                 (case BmInstanceRead_metadata_map env client instanceID
                         (map fst (as_map (Get d ''metadata_map''))) s of
                    (Inl r, s1) \<Rightarrow> (Some r, d, s1)
                  | (Inr newMetadata, s1) \<Rightarrow>
                      (case Set_checked env d ''metadata_map'' (VMap newMetadata) of
                         (d1, Some e) \<Rightarrow> (Some (Return (diag_FromErr e)), d1, s1)
                       | (d1, None) \<Rightarrow> (None, d1, s1))))
      in case r of
           Some r \<Rightarrow> (r, d1, s1)
         | None \<Rightarrow>
             (case Set_checked env d1 ''addresses'' (VList (BmInstanceRead_addresses instance)) of
                (d2, Some e) \<Rightarrow> (Return (diag_FromErr e), d2, s1)
              | (d2, None) \<Rightarrow> (Return [], revertState env d2 [''user_data'', ''app_config''], s1)))"

definition BmInstanceRead_instance ::
  "('w, 'c, 't) bminstances_env \<Rightarrow> Instance \<Rightarrow> ResourceData \<Rightarrow> ResourceData" where
  "BmInstanceRead_instance env instance d =
     (let d1 = Set' d ''name'' (VStr (Instance.Name instance));
          d2 = Set' d1 ''flavor_id'' (VStr (FlavorID (Instance.Flavor instance)));
          d3 = Set' d2 ''status'' (VStr (Status instance));
          d4 = Set' d3 ''vm_state'' (VStr (VMState instance));
          flavor = [(''flavor_id'', VStr (FlavorID (Instance.Flavor instance))),
                    (''flavor_name'', VStr (FlavorName (Instance.Flavor instance))),
                    (''ram'', VStr (strconv_Itoa env (RAM (Instance.Flavor instance)))),
                    (''vcpus'', VStr (strconv_Itoa env (VCPUS (Instance.Flavor instance))))]
      in fst (Set_checked env d4 ''flavor'' (VMap flavor)))"

definition resourceBmInstanceRead ::
  "('w, 'c, 't) bminstances_env \<Rightarrow> ResourceData \<Rightarrow> 'w st \<Rightarrow> outcome \<times> ResourceData \<times> 'w st" where
  "resourceBmInstanceRead env d s =
     (let instanceID = Id' d
      in case call (CallCreateClient (InstancePoint env))
                (CreateClient env d (InstancePoint env) (VersionPointV1 env)) s of
           ((client, Some e), s1) \<Rightarrow> (Return (diag_FromErr e), d, s1)
         | ((client, None), s1) \<Rightarrow>
             (case call (CallInstancesGet instanceID) (instances_Get env client instanceID) s1 of
                ((instance, Some e), s2) \<Rightarrow>
                  (Return (diag_Errorf ''cannot get instance with ID: %s. Error: %s''
                             [ArgS instanceID, ArgE e]), d, s2)
              | ((None, None), s2) \<Rightarrow> (Panic, d, s2)
              | ((Some instance, None), s2) \<Rightarrow>
                  (let d1 = BmInstanceRead_instance env instance d
                   in case call (CallInstancesListInterfacesAll instanceID)
                             (instances_ListInterfacesAll env client instanceID) s2 of
                        ((interfacesListAPI, Some e), s3) \<Rightarrow> (Return (diag_FromErr e), d1, s3)
                      | ((interfacesListAPI, None), s3) \<Rightarrow>
                          if length interfacesListAPI = 0
                          then (Return (diag_Errorf ''interface not found'' []), d1, s3)
                          else
                            (let ifs = sort_instanceInterfaces env (as_list (Get d1 ''interface''))
                             in case extractInstanceInterfaceToListRead env ifs of
                                  (interfacesListExtracted, Some e) \<Rightarrow> (Return (diag_FromErr e), d1, s3)
                                | (interfacesListExtracted, None) \<Rightarrow>
                                    (case Set_checked env d1 ''interface''
                                            (VList (BmInstanceRead_interfaces interfacesListAPI
                                                      interfacesListExtracted)) of
                                       (d2, Some e) \<Rightarrow> (Return (diag_FromErr e), d2, s3)
                                     | (d2, None) \<Rightarrow>
                                         BmInstanceRead_tail env client instanceID instance d2 s3)))))"

subsection \<open>resourceBmInstanceCreate\<close>

definition BmInstanceCreate_interfaceOpts :: "val \<Rightarrow> bminstances_InterfaceOpts" where
  "BmInstanceCreate_interfaceOpts raw =
     (let fipSource = as_string (index_map raw ''fip_source'');
          fipID = as_string (index_map raw ''existing_fip_id'')
      in \<lparr>bminstances_InterfaceOpts.Type = as_string (index_map raw ''type''),
          bminstances_InterfaceOpts.NetworkID = as_string (index_map raw ''network_id''),
          bminstances_InterfaceOpts.SubnetID = as_string (index_map raw ''subnet_id''),
          bminstances_InterfaceOpts.PortID = as_string (index_map raw ''port_id''),
          bminstances_InterfaceOpts.FloatingIP =
            (if fipSource \<noteq> []
             then Some \<lparr>Source = fipSource, ExistingFloatingID = fipID\<rparr>
             else None)\<rparr>)"

definition BmInstanceCreate_nameTemplates :: "ResourceData \<Rightarrow> string list" where
  "BmInstanceCreate_nameTemplates d =
     (case GetOk d ''name_templates'' of
        (nameTemplatesRaw, True) \<Rightarrow>
          if length (as_list nameTemplatesRaw) > 0 then map as_string (as_list nameTemplatesRaw) else []
      | (nameTemplatesRaw, False) \<Rightarrow>
          (case GetOk d ''name_template'' of
             (nameTemplate, True) \<Rightarrow> [as_string nameTemplate]
           | (nameTemplate, False) \<Rightarrow> []))"

definition BmInstanceCreate_metadata ::
  "('w, 'c, 't) bminstances_env \<Rightarrow> ResourceData \<Rightarrow> err + val option" where
  "BmInstanceCreate_metadata env d =
     (case GetOk d ''metadata'' of
        (metadata, True) \<Rightarrow>
          if length (as_list metadata) > 0
          then (case extractKeyValue env (as_list metadata) of
                  (md, Some e) \<Rightarrow> Inl e
                | (md, None) \<Rightarrow> Inr (Some md))
          else Inr None
      | (metadata, False) \<Rightarrow>
          (case GetOk d ''metadata_map'' of
             (metadataRaw, True) \<Rightarrow> Inr (Some (extractMetadataMap env (as_map metadataRaw)))
           | (metadataRaw, False) \<Rightarrow> Inr None))"

definition BmInstanceCreate_opts ::
  "('w, 'c, 't) bminstances_env \<Rightarrow> ResourceData \<Rightarrow> err + bminstances_CreateOpts" where
  "BmInstanceCreate_opts env d =
     (let ifs = sort_instanceInterfaces env (as_list (Get d ''interface''));
          interfaceOptsList = map BmInstanceCreate_interfaceOpts ifs;
          name = as_string (Get d ''name'')
      in case BmInstanceCreate_metadata env d of
           Inl e \<Rightarrow> Inl e
         | Inr md \<Rightarrow>
             Inr \<lparr>bminstances_CreateOpts.Flavor = as_string (Get d ''flavor_id''),
                  ImageID = as_string (Get d ''image_id''),
                  AppTemplateID = as_string (Get d ''apptemplate_id''),
                  Keypair = as_string (Get d ''keypair_name''),
                  Password = as_string (Get d ''password''),
                  Username = as_string (Get d ''username''),
                  UserData = as_string (Get d ''user_data''),
                  AppConfig = as_map (Get d ''app_config''),
                  bminstances_CreateOpts.Interfaces = interfaceOptsList,
                  Names = (if length name > 0 then [name] else []),
                  NameTemplates = BmInstanceCreate_nameTemplates d,
                  bminstances_CreateOpts.Metadata = md\<rparr>)"

definition BmInstanceCreate_checker :: "('w, 'c, 't) bminstances_env \<Rightarrow> 'c \<Rightarrow> 'w checker" where
  "BmInstanceCreate_checker env client task w =
     (case tasks_Get env client task w of
        ((taskInfo, Some e), w1) \<Rightarrow>
          (Some (INil, Some (Errorf_w ''cannot get task with ID: %s. Error: %w'' [task] e)), w1)
      | ((taskInfo, None), w1) \<Rightarrow>
          (case ExtractInstanceIDFromTask env taskInfo of
             (Instance, Some e) \<Rightarrow>
               (Some (INil, Some (Errorf_w ''cannot retrieve Instance ID from task info: %w'' [] e)), w1)
           | (Instance, None) \<Rightarrow> (Some (IStr Instance, None), w1)))"

definition resourceBmInstanceCreate ::
  "('w, 'c, 't) bminstances_env \<Rightarrow> ResourceData \<Rightarrow> 'w st \<Rightarrow> outcome \<times> ResourceData \<times> 'w st" where
  "resourceBmInstanceCreate env d s =
     (case call (CallCreateClient BmInstancePoint) (CreateClient env d BmInstancePoint (VersionPointV1 env)) s of
        ((client, Some e), s1) \<Rightarrow> (Return (diag_FromErr e), d, s1)
      | ((client, None), s1) \<Rightarrow>
          (case BmInstanceCreate_opts env d of
             Inl e \<Rightarrow> (Return (diag_FromErr e), d, s1)
           | Inr opts \<Rightarrow>
               (case call CallBminstancesCreate (bminstances_Create env client opts) s1 of
                  ((results, Some e), s2) \<Rightarrow> (Return (diag_FromErr e), d, s2)
                | ((results, None), s2) \<Rightarrow>
                    (case first_task results of
                       None \<Rightarrow> (Panic, d, s2)
                     | Some taskID \<Rightarrow>
                         (case call (CallWaitTask taskID BmInstanceCreatingTimeout)
                                 (WaitTaskAndReturnResult env client taskID True BmInstanceCreatingTimeout
                                    (BmInstanceCreate_checker env client)) s2 of
                            (None, s3) \<Rightarrow> (Panic, d, s3)
                          | (Some (instID, Some e), s3) \<Rightarrow> (Return (diag_FromErr e), d, s3)
                          | (Some (INil, None), s3) \<Rightarrow> (Panic, d, s3)
                          | (Some (IStr instID, None), s3) \<Rightarrow>
                              drop_diags (resourceBmInstanceRead env (SetId d instID) s3))))))"

subsection \<open>resourceBmInstanceDelete\<close>

definition BmInstanceDelete_checker :: "('w, 'c, 't) bminstances_env \<Rightarrow> 'c \<Rightarrow> string \<Rightarrow> 'w checker" where
  "BmInstanceDelete_checker env client instanceID task w =
     (case instances_Get env client instanceID w of
        ((instance, None), w1) \<Rightarrow>
          (Some (INil, Some (Errorf ''cannot delete instance with ID: %s'' [instanceID])), w1)
      | ((instance, Some e), w1) \<Rightarrow>
          if errors_As_404 e then (Some (INil, None), w1)
          else (Some (INil, Some (Errorf_w ''extracting Instance resource error: %w'' [] e)), w1))"

definition resourceBmInstanceDelete ::
  "('w, 'c, 't) bminstances_env \<Rightarrow> ResourceData \<Rightarrow> 'w st \<Rightarrow> outcome \<times> ResourceData \<times> 'w st" where
  "resourceBmInstanceDelete env d s =
     (let instanceID = Id' d
      in case call (CallCreateClient (InstancePoint env))
                (CreateClient env d (InstancePoint env) (VersionPointV1 env)) s of
           ((client, Some e), s1) \<Rightarrow> (Return (diag_FromErr e), d, s1)
         | ((client, None), s1) \<Rightarrow>
             (let delOpts = \<lparr>DeleteFloatings = True\<rparr>
              in case call (CallInstancesDelete instanceID)
                        (instances_Delete env client instanceID delOpts) s1 of
                   ((results, Some e), s2) \<Rightarrow> (Return (diag_FromErr e), d, s2)
                 | ((results, None), s2) \<Rightarrow>
                     (case first_task results of
                        None \<Rightarrow> (Panic, d, s2)
                      | Some taskID \<Rightarrow>
                          (case call (CallWaitTask taskID BmInstanceDeleting)
                                  (WaitTaskAndReturnResult env client taskID True BmInstanceDeleting
                                     (BmInstanceDelete_checker env client instanceID)) s2 of
                             (None, s3) \<Rightarrow> (Panic, d, s3)
                           | (Some (r, Some e), s3) \<Rightarrow> (Return (diag_FromErr e), d, s3)
                           | (Some (r, None), s3) \<Rightarrow> (Return [], SetId d [], s3)))))"

section \<open>Image data source\<close>

definition ImagesPoint :: string where "ImagesPoint = ''images''"
definition bmImagesPoint :: string where "bmImagesPoint = ''bmimages''"

record Image =
  ID :: string
  Name :: string
  MinDisk :: int
  MinRAM :: int
  OsDistro :: string
  OsVersion :: string
  Description :: string
  Metadata :: val

record images_ListOpts =
  MetadataK :: string
  MetadataKV :: "(string \<times> string) list"

text \<open>
  The image data source uses, besides the provider's environment: \<open>strings.ToLower\<close> of Go's
  standard library, the helper \<open>PrepareMetadataReadonly\<close> and the SDK's \<open>images.ListAll\<close>.
\<close>

record ('w, 'c, 't) images_env = "('w, 'c, 't) provider_env" +
  strings_ToLower :: "string \<Rightarrow> string"
  PrepareMetadataReadonly :: "val \<Rightarrow> val"
  images_ListAll :: "'c \<Rightarrow> images_ListOpts \<Rightarrow> 'w \<Rightarrow> (Image list \<times> err option) \<times> 'w"

text \<open>\<open>strings.HasPrefix(s, prefix)\<close>.\<close>

definition strings_HasPrefix :: "string \<Rightarrow> string \<Rightarrow> bool" where
  "strings_HasPrefix s' prefix' \<longleftrightarrow> length s' \<ge> length prefix' \<and> take (length prefix') s' = prefix'"

definition dataSourceImageRead_listOpts :: "ResourceData \<Rightarrow> images_ListOpts" where
  "dataSourceImageRead_listOpts d =
     (let listOpts0 = \<lparr>MetadataK = [], MetadataKV = []\<rparr>;
          listOpts1 = (case GetOk d ''metadata_k'' of
                         (metadataK, True) \<Rightarrow> listOpts0\<lparr>MetadataK := as_string metadataK\<rparr>
                       | (metadataK, False) \<Rightarrow> listOpts0)
      in case GetOk d ''metadata_kv'' of
           (metadataRaw, True) \<Rightarrow>
             listOpts1\<lparr>MetadataKV := map (\<lambda>(k, v). (k, as_string v)) (as_map metadataRaw)\<rparr>
         | (metadataRaw, False) \<Rightarrow> listOpts1)"

text \<open>The search loop: the first image of the list whose lower-cased name starts with the
  lower-cased \<open>name\<close>; \<open>None\<close> when \<open>found\<close> stays false.\<close>

definition find_image :: "('w, 'c, 't) images_env \<Rightarrow> string \<Rightarrow> Image list \<Rightarrow> Image option" where
  "find_image env name allImages =
     find (\<lambda>img. strings_HasPrefix (strings_ToLower env (Image.Name img)) (strings_ToLower env name))
       allImages"

definition dataSourceImageRead ::
  "('w, 'c, 't) images_env \<Rightarrow> ResourceData \<Rightarrow> 'w st \<Rightarrow> outcome \<times> ResourceData \<times> 'w st" where
  "dataSourceImageRead env d s =
     (let name = as_string (Get d ''name'');
          point = (if as_bool (Get d ''is_baremetal'') then bmImagesPoint else ImagesPoint)
      in case call (CallCreateClient point) (CreateClient env d point (VersionPointV1 env)) s of
           ((client, Some e), s1) \<Rightarrow> (Return (diag_FromErr e), d, s1)
         | ((client, None), s1) \<Rightarrow>
             (case call CallImagesListAll (images_ListAll env client (dataSourceImageRead_listOpts d)) s1 of
                ((allImages, Some e), s2) \<Rightarrow> (Return (diag_FromErr e), d, s2)
              | ((allImages, None), s2) \<Rightarrow>
                  (case find_image env name allImages of
                     None \<Rightarrow> (Return (diag_Errorf ''image with name %s not found'' [ArgS name]), d, s2)
                   | Some image' \<Rightarrow>
                       (let d1 = SetId d (Image.ID image');
                            d2 = Set' d1 ''project_id'' (VInt (as_int (Get d1 ''project_id'')));
                            d3 = Set' d2 ''region_id'' (VInt (as_int (Get d2 ''region_id'')));
                            d4 = Set' d3 ''min_disk'' (VInt (MinDisk image'));
                            d5 = Set' d4 ''min_ram'' (VInt (MinRAM image'));
                            d6 = Set' d5 ''os_distro'' (VStr (OsDistro image'));
                            d7 = Set' d6 ''os_version'' (VStr (OsVersion image'));
                            d8 = Set' d7 ''description'' (VStr (Description image'));
                            metadataReadOnly = PrepareMetadataReadonly env (Image.Metadata image')
                        in case Set_checked env d8 ''metadata_read_only'' metadataReadOnly of
                             (d9, Some e) \<Rightarrow> (Return (diag_FromErr e), d9, s2)
                           | (d9, None) \<Rightarrow> (Return [], d9, s2)))))"

section \<open>The helper revertState\<close>

text \<open>
  The hypothesis on the helper \<open>revertState\<close>, which the sources do not define: it leaves the
  resource ID alone and changes no attribute outside the list of fields it is given.
\<close>

definition revertState_frame :: "('w, 'c, 't, 'z) provider_env_scheme \<Rightarrow> bool" where
  "revertState_frame env \<longleftrightarrow>
     (\<forall>d fields. Id' (revertState env d fields) = Id' d \<and>
        (\<forall>k. k \<notin> set fields \<longrightarrow> Get (revertState env d fields) k = Get d k))"

section \<open>A small cloud for worked examples\<close>

text \<open>
  In the examples the world is the list of the IDs of the resources that exist; the client is
  its endpoint, a task is its ID, and the task wait runs the checker at once.
\<close>

definition example_task :: "string \<Rightarrow> TaskResults option" where
  "example_task t = Some \<lparr>Tasks = [t]\<rparr>"

definition example_data :: "string \<Rightarrow> ResourceData" where
  "example_data id' = \<lparr>Id' = id', attrs = (\<lambda>k. VNil), prior = (\<lambda>k. VNil), planned = (\<lambda>k. VNil)\<rparr>"

text \<open>Resource data in which the one attribute \<open>k\<close> changes from \<open>old\<close> to \<open>new\<close>.\<close>

definition example_change :: "string \<Rightarrow> string \<Rightarrow> val \<Rightarrow> val \<Rightarrow> ResourceData" where
  "example_change id' k old new =
     \<lparr>Id' = id', attrs = (\<lambda>k'. VNil)(k := new), prior = (\<lambda>k'. VNil)(k := old),
      planned = (\<lambda>k'. VNil)(k := new)\<rparr>"

definition example_state :: "string list \<Rightarrow> string list st" where
  "example_state w = \<lparr>world = w, calls = []\<rparr>"

definition example_pool :: Pool where
  "example_pool =
     \<lparr>Pool.ID = ''pool-1'', Pool.Name = ''web'', LoadBalancerAlgorithm = ''ROUND_ROBIN'',
      Pool.Protocol = ''HTTP'', LoadBalancers = [''lb-1''], Listeners = [],
      Pool.HealthMonitor = None,
      Pool.SessionPersistence =
        Some \<lparr>SessionPersistence.Type = ''APP_COOKIE'', CookieName = VStr ''sid'',
              PersistenceGranularity = VNil, PersistenceTimeout = VNil\<rparr>,
      Members = []\<rparr>"

definition example_lbpools :: "(string list, string, string, string) lbpools_env" where
  "example_lbpools =
     \<lparr>CreateClient = (\<lambda>d point version w. ((point, None), w)),
      VersionPointV1 = ''v1'',
      revertState = (\<lambda>d fields. d),
      Set_error = (\<lambda>k v. None),
      time_Now = (\<lambda>w. ''Monday''),
      WaitTaskAndReturnResult = (\<lambda>client task stop timeout checker w. checker task w),
      tasks_Get = (\<lambda>client task w. ((task, None), w)),
      extractHealthMonitorMap = (\<lambda>d. VNil),
      extractSessionPersistenceMap = (\<lambda>d. VNil),
      net_ParseIP = (\<lambda>v. if v = [] then None else Some v),
      lbpools_Create = (\<lambda>client opts w. ((example_task ''task-1'', None), ''pool-1'' # w)),
      lbpools_Get = (\<lambda>client id' w. if id' \<in> set w then ((Some example_pool, None), w)
                                      else ((None, Some Default404Error), w)),
      lbpools_Update = (\<lambda>client id' opts w. ((example_task ''task-2'', None), w)),
      lbpools_Delete = (\<lambda>client id' w. if id' \<in> set w then ((example_task ''task-3'', None), removeAll id' w)
                                         else ((None, Some Default404Error), w)),
      lbpools_CreateMember = (\<lambda>client pid opts w. ((example_task ''task-4'', None), ''member-1'' # w)),
      lbpools_DeleteMember = (\<lambda>client pid mid w.
                                if mid \<in> set w then ((example_task ''task-5'', None), removeAll mid w)
                                else ((None, Some Default404Error), w)),
      ExtractPoolIDFromTask = (\<lambda>t. (''pool-1'', None)),
      ExtractPoolMemberIDFromTask = (\<lambda>t. (''member-1'', None))\<rparr>"

definition example_router :: Router where
  "example_router =
     \<lparr>Router.Name = ''edge'',
      Router.ExternalGatewayInfo = \<lparr>EnableSNat = False, ExtGatewayInfo.NetworkID = [], ExternalFixedIPs = []\<rparr>,
      Router.Interfaces = [], Router.Routes = []\<rparr>"

text \<open>
  In the example cloud a subnet named \<open>no-gateway\<close> cannot be attached to a router, and a
  subnet named \<open>in-use\<close> cannot be detached from one.
\<close>

definition example_routers :: "(string list, string, string) routers_env" where
  "example_routers =
     \<lparr>CreateClient = (\<lambda>d point version w. ((point, None), w)),
      VersionPointV1 = ''v1'',
      revertState = (\<lambda>d fields. d),
      Set_error = (\<lambda>k v. None),
      time_Now = (\<lambda>w. ''Monday''),
      WaitTaskAndReturnResult = (\<lambda>client task stop timeout checker w. checker task w),
      tasks_Get = (\<lambda>client task w. ((task, None), w)),
      extractExternalGatewayInfoMap = (\<lambda>egi. (\<lparr>GatewayInfo.Type = ''default'', Rest = VList egi\<rparr>, None)),
      extractInterfacesMap =
        (\<lambda>ifs. (map (\<lambda>raw. \<lparr>routers_Interface.Type = as_string (index_map raw ''type''),
                             routers_Interface.SubnetID = as_string (index_map raw ''subnet_id'')\<rparr>) ifs,
                None)),
      extractHostRoutesMap = (\<lambda>rs. (rs, None)),
      NewSet_interfaces = VList,
      range_omap = rev,
      routers_Create = (\<lambda>client opts w. ((example_task ''task-1'', None), ''router-1'' # w)),
      routers_Get = (\<lambda>client id' w. if id' \<in> set w then ((Some example_router, None), w)
                                      else ((None, Some Default404Error), w)),
      routers_Update = (\<lambda>client id' opts w. (None, w)),
      routers_Attach = (\<lambda>client id' subnet w.
                          if subnet = ''no-gateway'' then (Some (SDKError ''subnet has no gateway''), w)
                          else (None, w)),
      routers_Detach = (\<lambda>client id' subnet w.
                          if subnet = ''in-use'' then (Some (SDKError ''subnet is in use''), w)
                          else (None, w)),
      routers_Delete = (\<lambda>client id' w. if id' \<in> set w then ((example_task ''task-2'', None), removeAll id' w)
                                         else ((None, Some Default404Error), w)),
      ExtractRouterIDFromTask = (\<lambda>t. (''router-1'', None))\<rparr>"

definition example_interface :: "string \<Rightarrow> val" where
  "example_interface subnet = VMap [(''type'', VStr ''subnet''), (''subnet_id'', VStr subnet)]"

definition example_instance :: Instance where
  "example_instance =
     \<lparr>Instance.Name = ''bm-node'',
      Instance.Flavor = \<lparr>FlavorID = ''bm1-infrastructure-small'', FlavorName = ''small'', RAM = 32768, VCPUS = 8\<rparr>,
      Status = ''ACTIVE'', VMState = ''active'', Addresses = []\<rparr>"

definition example_bminstances :: "(string list, string, string) bminstances_env" where
  "example_bminstances =
     \<lparr>CreateClient = (\<lambda>d point version w. ((point, None), w)),
      VersionPointV1 = ''v1'',
      revertState = (\<lambda>d fields. d),
      Set_error = (\<lambda>k v. None),
      time_Now = (\<lambda>w. ''Monday''),
      WaitTaskAndReturnResult = (\<lambda>client task stop timeout checker w. checker task w),
      tasks_Get = (\<lambda>client task w. ((task, None), w)),
      InstancePoint = ''instances'',
      sort_instanceInterfaces = (\<lambda>ifs. ifs),
      extractKeyValue = (\<lambda>metadata. (VList metadata, None)),
      extractMetadataMap = VMap,
      extractInstanceInterfaceToListRead = (\<lambda>ifs. ([], None)),
      strconv_Itoa = (\<lambda>i. if i = 8 then ''8'' else ''32768''),
      bminstances_Create = (\<lambda>client opts w. ((example_task ''task-1'', None), ''bm-1'' # w)),
      instances_Get = (\<lambda>client id' w. if id' \<in> set w then ((Some example_instance, None), w)
                                        else ((None, Some Default404Error), w)),
      instances_ListInterfacesAll =
        (\<lambda>client id' w.
           (([\<lparr>instances_Interface.PortID = ''port-1'', instances_Interface.NetworkID = ''net-1'',
               instances_Interface.IPAssignments = [\<lparr>PortIP.SubnetID = ''subnet-1'', PortIP.IPAddress = ''10.0.0.5''\<rparr>],
               SubPorts = []\<rparr>], None), w)),
      instances_MetadataGet = (\<lambda>client id' k w. ((Some \<lparr>Key = k, Value = ''v''\<rparr>, None), w)),
      instances_Delete = (\<lambda>client id' opts w.
                            if id' \<in> set w then ((example_task ''task-2'', None), removeAll id' w)
                            else ((None, Some Default404Error), w)),
      ExtractInstanceIDFromTask = (\<lambda>t. (''bm-1'', None))\<rparr>"

text \<open>Lower case of the ASCII letters, for the examples of the image search.\<close>

definition ascii_lower :: "char \<Rightarrow> char" where
  "ascii_lower c =
     (case map_of (zip ''ABCDEFGHIJKLMNOPQRSTUVWXYZ'' ''abcdefghijklmnopqrstuvwxyz'') c of
        Some l \<Rightarrow> l
      | None \<Rightarrow> c)"

definition example_image :: "string \<Rightarrow> string \<Rightarrow> Image" where
  "example_image id' name =
     \<lparr>Image.ID = id', Image.Name = name, MinDisk = 10, MinRAM = 1024, OsDistro = ''ubuntu'',
      OsVersion = ''22.04'', Description = [], Image.Metadata = VNil\<rparr>"

definition example_images :: "(string list, string, string) images_env" where
  "example_images =
     \<lparr>CreateClient = (\<lambda>d point version w. ((point, None), w)),
      VersionPointV1 = ''v1'',
      revertState = (\<lambda>d fields. d),
      Set_error = (\<lambda>k v. None),
      time_Now = (\<lambda>w. ''Monday''),
      WaitTaskAndReturnResult = (\<lambda>client task stop timeout checker w. checker task w),
      tasks_Get = (\<lambda>client task w. ((task, None), w)),
      strings_ToLower = map ascii_lower,
      PrepareMetadataReadonly = (\<lambda>m. VList []),
      images_ListAll =
        (\<lambda>client opts w.
           (([example_image ''img-1'' ''Debian-12'', example_image ''img-2'' ''Ubuntu-22.04'',
              example_image ''img-3'' ''ubuntu-20.04''], None), w))\<rparr>"

section \<open>Properties of the validators\<close>

text \<open>
  C4: the \<open>weight\<close> validator returns no diagnostic exactly for the values between 0 and 256,
  both inclusive, and one error diagnostic (reporting the bounds and the value) for every
  other integer.
\<close>

theorem weight_validator_range:
  "(weight_ValidateDiagFunc v = [] \<longleftrightarrow> 0 \<le> v \<and> v \<le> 256) \<and>
   (\<not> (0 \<le> v \<and> v \<le> 256) \<longrightarrow>
      weight_ValidateDiagFunc v =
        [\<lparr>Severity = SevError,
          Summary = Sprintf ''Valid values: %d to %d got: %d'' [ArgI 0, ArgI 256, ArgI v]\<rparr>])"
  by (simp add: weight_ValidateDiagFunc_def minWeight_def maxWeight_def diag_Errorf_def)

theorem weight_validator_range_witness:
  "weight_ValidateDiagFunc 256 = [] \<and> weight_ValidateDiagFunc 0 = [] \<and>
   weight_ValidateDiagFunc 257 =
     [\<lparr>Severity = SevError,
       Summary = Sprintf ''Valid values: %d to %d got: %d'' [ArgI 0, ArgI 256, ArgI 257]\<rparr>] \<and>
   weight_ValidateDiagFunc (- 1) \<noteq> []"
  using weight_validator_range [of 256] weight_validator_range [of 0]
    weight_validator_range [of 257] weight_validator_range [of "- 1"]
  by simp

text \<open>
  C5: the \<open>address\<close> validator returns no diagnostic exactly when \<open>net.ParseIP\<close> returns a
  non-nil address for the string, and one error diagnostic for every string that does not parse.
\<close>

theorem address_validator_parse:
  "(address_ValidateDiagFunc parse v key = [] \<longleftrightarrow> parse v \<noteq> None) \<and>
   (parse v = None \<longrightarrow>
      address_ValidateDiagFunc parse v key =
        [\<lparr>Severity = SevError,
          Summary = ErrorText (Errorf ''%q must be a valid ip, got: %s'' [key, v])\<rparr>])"
  by (simp add: address_ValidateDiagFunc_def diag_FromErr_def split: option.splits)

theorem address_validator_parse_witness:
  "address_ValidateDiagFunc (\<lambda>s. if s = ''10.0.0.7'' then Some [10, 0, 0, 7 :: nat] else None)
     ''10.0.0.7'' ''address'' = [] \<and>
   address_ValidateDiagFunc (\<lambda>s. if s = ''10.0.0.7'' then Some [10, 0, 0, 7 :: nat] else None)
     ''10.0.0'' ''address'' =
     [\<lparr>Severity = SevError,
       Summary = ErrorText (Errorf ''%q must be a valid ip, got: %s'' [''address'', ''10.0.0''])\<rparr>]"
  using address_validator_parse
    [of "\<lambda>s. if s = ''10.0.0.7'' then Some [10, 0, 0, 7 :: nat] else None" "''10.0.0.7''" "''address''"]
    address_validator_parse
    [of "\<lambda>s. if s = ''10.0.0.7'' then Some [10, 0, 0, 7 :: nat] else None" "''10.0.0''" "''address''"]
  by simp

text \<open>
  C6: the \<open>lb_algorithm\<close> validator returns no diagnostic exactly for the four algorithm names
  ROUND_ROBIN, LEAST_CONNECTIONS, SOURCE_IP and SOURCE_IP_PORT; for every other string it
  returns one error diagnostic whose arguments are the rejected value and the four available
  values.
\<close>

theorem lb_algorithm_validator_values:
  "(lb_algorithm_ValidateDiagFunc v = [] \<longleftrightarrow>
      v \<in> {''ROUND_ROBIN'', ''LEAST_CONNECTIONS'', ''SOURCE_IP'', ''SOURCE_IP_PORT''}) \<and>
   (v \<notin> {''ROUND_ROBIN'', ''LEAST_CONNECTIONS'', ''SOURCE_IP'', ''SOURCE_IP_PORT''} \<longrightarrow>
      lb_algorithm_ValidateDiagFunc v =
        [\<lparr>Severity = SevError,
          Summary = Sprintf lb_algorithm_format
            [ArgS v, ArgS ''ROUND_ROBIN'', ArgS ''LEAST_CONNECTIONS'', ArgS ''SOURCE_IP'',
             ArgS ''SOURCE_IP_PORT'']\<rparr>])"
  by (simp add: lb_algorithm_ValidateDiagFunc_def diag_Errorf_def
      LoadBalancerAlgorithmRoundRobin_def LoadBalancerAlgorithmLeastConnections_def
      LoadBalancerAlgorithmSourceIP_def LoadBalancerAlgorithmSourceIPPort_def)

theorem lb_algorithm_validator_values_witness:
  "lb_algorithm_ValidateDiagFunc ''SOURCE_IP_PORT'' = [] \<and>
   lb_algorithm_ValidateDiagFunc ''round_robin'' =
     [\<lparr>Severity = SevError,
       Summary = Sprintf lb_algorithm_format
         [ArgS ''round_robin'', ArgS ''ROUND_ROBIN'', ArgS ''LEAST_CONNECTIONS'', ArgS ''SOURCE_IP'',
          ArgS ''SOURCE_IP_PORT'']\<rparr>]"
  using lb_algorithm_validator_values [of "''SOURCE_IP_PORT''"]
    lb_algorithm_validator_values [of "''round_robin''"]
  by simp

section \<open>Facts shared by the proofs\<close>

lemmas example_defs =
  example_task_def example_data_def example_change_def example_state_def example_pool_def example_lbpools_def
  example_router_def example_routers_def example_interface_def example_instance_def
  example_bminstances_def ascii_lower_def example_image_def example_images_def


lemma Get_Set' [simp]: "Get (Set' d k v) k' = (if k' = k then v else Get d k')"
  by (simp add: Get_def Set'_def)

lemma Id'_Set' [simp]: "Id' (Set' d k v) = Id' d"
  by (simp add: Set'_def)

lemma Id'_SetId [simp]: "Id' (SetId d v) = v"
  by (simp add: SetId_def)

lemma Get_SetId [simp]: "Get (SetId d v) k = Get d k"
  by (simp add: SetId_def Get_def)

lemma Set_checked_Id': "Set_checked env d k v = (d', r) \<Longrightarrow> Id' d' = Id' d"
  by (auto simp: Set_checked_def split: option.splits)

lemma fst_Set_checked_Id' [simp]: "Id' (fst (Set_checked env d k v)) = Id' d"
  by (auto simp: Set_checked_def split: option.splits)

lemma calls_call: "call c f s = (r, s') \<Longrightarrow> calls s' = calls s @ [c]"
  by (auto simp: call_def split: prod.splits)

lemma diag_FromErr_not_Nil [simp]: "diag_FromErr e \<noteq> []" "[] \<noteq> diag_FromErr e"
  by (simp_all add: diag_FromErr_def)

lemma diag_Errorf_not_Nil [simp]: "diag_Errorf f args \<noteq> []" "[] \<noteq> diag_Errorf f args"
  by (simp_all add: diag_Errorf_def)

section \<open>Load balancer pool: read and update\<close>

lemma LBPoolRead_fields_ok:
  assumes "revertState_frame env" and "LBPoolRead_fields env lb d = ([], d')"
  shows "Get d' ''name'' = VStr (Pool.Name lb) \<and>
     Get d' ''lb_algorithm'' = VStr (LoadBalancerAlgorithm lb) \<and>
     Get d' ''protocol'' = VStr (Pool.Protocol lb) \<and>
     Get d' ''loadbalancer_id'' =
       (if LoadBalancers lb \<noteq> [] then VStr (hd (LoadBalancers lb)) else Get d ''loadbalancer_id'') \<and>
     Get d' ''listener_id'' =
       (if Listeners lb \<noteq> [] then VStr (hd (Listeners lb)) else Get d ''listener_id'') \<and>
     Get d' ''health_monitor'' =
       (case Pool.HealthMonitor lb of
          Some hm \<Rightarrow> VList [healthMonitor_map hm] | None \<Rightarrow> Get d ''health_monitor'') \<and>
     Get d' ''session_persistence'' =
       (case Pool.SessionPersistence lb of
          Some sp \<Rightarrow> VList [sessionPersistence_map sp] | None \<Rightarrow> Get d ''session_persistence'')"
  using assms
  by (auto simp: LBPoolRead_fields_def revertState_frame_def Let_def Set_checked_def
      split: option.splits prod.splits if_splits)

lemma LBPoolRead_fields_Id':
  assumes "revertState_frame env" and "LBPoolRead_fields env lb d = (ds, d')"
  shows "Id' d' = Id' d"
  using assms
  by (auto simp: LBPoolRead_fields_def revertState_frame_def Let_def Set_checked_def
      split: option.splits prod.splits if_splits)

lemma resourceLBPoolRead_Id':
  assumes "revertState_frame env" and "resourceLBPoolRead env d s = (r, d', s')"
  shows "Id' d' = Id' d"
  using assms
  by (auto simp: resourceLBPoolRead_def split: option.splits prod.splits dest: LBPoolRead_fields_Id')

lemma resourceLBPoolRead_calls:
  assumes "resourceLBPoolRead env d s = (r, d', s')"
  shows "\<exists>cs. calls s' = calls s @ cs \<and> set cs \<subseteq> {CallCreateClient LBPoolsPoint, CallLbpoolsGet (Id' d)}"
  using assms
  by (auto simp: resourceLBPoolRead_def call_def split: option.splits prod.splits)

text \<open>
  C7: after a read of the pool that returns no diagnostic, and provided the helper
  \<open>revertState\<close> changes only the attributes it is given, the attributes mirror the pool
  that \<open>lbpools.Get\<close> returned: \<open>name\<close>, \<open>lb_algorithm\<close> and \<open>protocol\<close> are the pool's;
  \<open>loadbalancer_id\<close> and \<open>listener_id\<close> are the first load balancer and listener when the
  lists are not empty and are left as they were otherwise; \<open>health_monitor\<close> and
  \<open>session_persistence\<close> are written when the pool has them and left as they were otherwise.
\<close>

theorem LBPoolRead_mirrors:
  assumes frame: "revertState_frame env"
    and ok: "resourceLBPoolRead env d s = (Return [], d', s')"
  shows "\<exists>client w1 lb w2.
     CreateClient env d LBPoolsPoint (VersionPointV1 env) (world s) = ((client, None), w1) \<and>
     lbpools_Get env client (Id' d) w1 = ((Some lb, None), w2) \<and>
     Get d' ''name'' = VStr (Pool.Name lb) \<and>
     Get d' ''lb_algorithm'' = VStr (LoadBalancerAlgorithm lb) \<and>
     Get d' ''protocol'' = VStr (Pool.Protocol lb) \<and>
     Get d' ''loadbalancer_id'' =
       (if LoadBalancers lb \<noteq> [] then VStr (hd (LoadBalancers lb)) else Get d ''loadbalancer_id'') \<and>
     Get d' ''listener_id'' =
       (if Listeners lb \<noteq> [] then VStr (hd (Listeners lb)) else Get d ''listener_id'') \<and>
     Get d' ''health_monitor'' =
       (case Pool.HealthMonitor lb of
          Some hm \<Rightarrow> VList [healthMonitor_map hm] | None \<Rightarrow> Get d ''health_monitor'') \<and>
     Get d' ''session_persistence'' =
       (case Pool.SessionPersistence lb of
          Some sp \<Rightarrow> VList [sessionPersistence_map sp] | None \<Rightarrow> Get d ''session_persistence'')"
proof -
  obtain client e1 w1 where cc:
    "CreateClient env d LBPoolsPoint (VersionPointV1 env) (world s) = ((client, e1), w1)"
    by (metis surj_pair)
  have e1: "e1 = None"
    using ok cc by (auto simp: resourceLBPoolRead_def call_def split: option.splits)
  obtain lbo e2 w2 where get: "lbpools_Get env client (Id' d) w1 = ((lbo, e2), w2)"
    by (metis surj_pair)
  have e2: "e2 = None"
    using ok cc e1 get by (auto simp: resourceLBPoolRead_def call_def split: option.splits)
  obtain lb where lb: "lbo = Some lb"
    using ok cc e1 get e2 by (cases lbo) (auto simp: resourceLBPoolRead_def call_def)
  have fields: "LBPoolRead_fields env lb d = ([], d')"
    using ok cc e1 get e2 lb by (auto simp: resourceLBPoolRead_def call_def split: prod.splits)
  show ?thesis
    using cc e1 get e2 lb LBPoolRead_fields_ok [OF frame fields] by blast
qed

theorem LBPoolRead_mirrors_witness:
  "revertState_frame example_lbpools \<and>
   fst (resourceLBPoolRead example_lbpools (example_data ''pool-1'') (example_state [''pool-1''])) = Return [] \<and>
   (let d' = fst (snd (resourceLBPoolRead example_lbpools (example_data ''pool-1'')
                         (example_state [''pool-1''])))
    in Get d' ''name'' = VStr ''web'' \<and> Get d' ''lb_algorithm'' = VStr ''ROUND_ROBIN'' \<and>
       Get d' ''protocol'' = VStr ''HTTP'' \<and> Get d' ''loadbalancer_id'' = VStr ''lb-1'' \<and>
       Get d' ''listener_id'' = VNil \<and> Get d' ''health_monitor'' = VNil \<and>
       Get d' ''session_persistence'' =
         VList [VMap [(''type'', VStr ''APP_COOKIE''), (''cookie_name'', VStr ''sid''),
                      (''persistence_granularity'', VNil), (''persistence_timeout'', VNil)]])"
proof -
  let ?r = "resourceLBPoolRead example_lbpools (example_data ''pool-1'') (example_state [''pool-1''])"
  have frame: "revertState_frame example_lbpools"
    by (simp add: revertState_frame_def example_lbpools_def)
  have ok: "?r = (Return [], fst (snd ?r), snd (snd ?r))"
    by (simp add: resourceLBPoolRead_def LBPoolRead_fields_def call_def Let_def Set_checked_def
        example_defs)
  have get: "lbpools_Get example_lbpools c ''pool-1'' w = ((Some lb, None), w2) \<Longrightarrow> lb = example_pool"
    for c w lb w2
    by (auto simp: example_lbpools_def split: if_splits)
  from LBPoolRead_mirrors [OF frame ok] obtain c w lb w2 where
    *: "lbpools_Get example_lbpools c (Id' (example_data ''pool-1'')) w = ((Some lb, None), w2)"
    and **: "Get (fst (snd ?r)) ''name'' = VStr (Pool.Name lb) \<and>
     Get (fst (snd ?r)) ''lb_algorithm'' = VStr (LoadBalancerAlgorithm lb) \<and>
     Get (fst (snd ?r)) ''protocol'' = VStr (Pool.Protocol lb) \<and>
     Get (fst (snd ?r)) ''loadbalancer_id'' =
       (if LoadBalancers lb \<noteq> [] then VStr (hd (LoadBalancers lb))
        else Get (example_data ''pool-1'') ''loadbalancer_id'') \<and>
     Get (fst (snd ?r)) ''listener_id'' =
       (if Listeners lb \<noteq> [] then VStr (hd (Listeners lb)) else Get (example_data ''pool-1'') ''listener_id'') \<and>
     Get (fst (snd ?r)) ''health_monitor'' =
       (case Pool.HealthMonitor lb of
          Some hm \<Rightarrow> VList [healthMonitor_map hm] | None \<Rightarrow> Get (example_data ''pool-1'') ''health_monitor'') \<and>
     Get (fst (snd ?r)) ''session_persistence'' =
       (case Pool.SessionPersistence lb of
          Some sp \<Rightarrow> VList [sessionPersistence_map sp]
        | None \<Rightarrow> Get (example_data ''pool-1'') ''session_persistence'')"
    by blast
  have lb: "lb = example_pool"
    using * get by (simp add: example_data_def)
  have "fst ?r = Return []"
    using ok by (metis fst_conv)
  then show ?thesis
    using frame ** unfolding lb Let_def
    by (simp add: example_pool_def example_data_def Get_def sessionPersistence_map_def)
qed

text \<open>
  C9: when none of \<open>lb_algorithm\<close>, \<open>health_monitor\<close> and \<open>session_persistence\<close> has changed,
  the update of a pool does what a read of the unchanged data does once the client exists
  (and returns the client's error otherwise): the only calls it makes are \<open>CreateClient\<close>
  and \<open>lbpools.Get\<close>, so no \<open>lbpools.Update\<close>, no task wait and no write of
  \<open>last_updated\<close>. When one of the three has changed and the client exists, it calls
  \<open>lbpools.Update\<close>.
\<close>

theorem LBPoolUpdate_only_on_change:
  assumes run: "resourceLBPoolUpdate env d s = (r, d', s')"
  shows "(\<not> (HasChange d ''lb_algorithm'' \<or> HasChange d ''health_monitor'' \<or>
             HasChange d ''session_persistence'') \<longrightarrow>
            (\<exists>cs. calls s' = calls s @ cs \<and>
                  set cs \<subseteq> {CallCreateClient LBPoolsPoint, CallLbpoolsGet (Id' d)}) \<and>
            (r, d', s') =
              (case call (CallCreateClient LBPoolsPoint)
                      (CreateClient env d LBPoolsPoint (VersionPointV1 env)) s of
                 ((client, Some e), s1) \<Rightarrow> (Return (diag_FromErr e), d, s1)
               | ((client, None), s1) \<Rightarrow> resourceLBPoolRead env d s1)) \<and>
         ((HasChange d ''lb_algorithm'' \<or> HasChange d ''health_monitor'' \<or>
             HasChange d ''session_persistence'') \<and>
            snd (fst (CreateClient env d LBPoolsPoint (VersionPointV1 env) (world s))) = None \<longrightarrow>
            CallLbpoolsUpdate (Id' d) \<in> set (calls s'))"
proof (intro conjI impI)
  assume nc: "\<not> (HasChange d ''lb_algorithm'' \<or> HasChange d ''health_monitor'' \<or>
             HasChange d ''session_persistence'')"
  then have opts: "snd (LBPoolUpdate_opts env d) = False"
    by (simp add: LBPoolUpdate_opts_def Let_def)
  show eq: "(r, d', s') =
              (case call (CallCreateClient LBPoolsPoint)
                      (CreateClient env d LBPoolsPoint (VersionPointV1 env)) s of
                 ((client, Some e), s1) \<Rightarrow> (Return (diag_FromErr e), d, s1)
               | ((client, None), s1) \<Rightarrow> resourceLBPoolRead env d s1)"
    using run opts unfolding resourceLBPoolUpdate_def
    by (auto split: prod.splits option.splits)
  show "\<exists>cs. calls s' = calls s @ cs \<and>
                  set cs \<subseteq> {CallCreateClient LBPoolsPoint, CallLbpoolsGet (Id' d)}"
  proof (cases "call (CallCreateClient LBPoolsPoint) (CreateClient env d LBPoolsPoint (VersionPointV1 env)) s")
    case (Pair a s1)
    obtain client eo where a: "a = (client, eo)" by (cases a)
    have c1: "calls s1 = calls s @ [CallCreateClient LBPoolsPoint]"
      using Pair by (rule calls_call)
    show ?thesis
    proof (cases eo)
      case None
      then have "resourceLBPoolRead env d s1 = (r, d', s')"
        using eq Pair a by simp
      from resourceLBPoolRead_calls [OF this] c1 show ?thesis by auto
    next
      case (Some e)
      then have "s' = s1" using eq Pair a by simp
      then show ?thesis using c1 by auto
    qed
  qed
next
  assume ch: "(HasChange d ''lb_algorithm'' \<or> HasChange d ''health_monitor'' \<or>
             HasChange d ''session_persistence'') \<and>
            snd (fst (CreateClient env d LBPoolsPoint (VersionPointV1 env) (world s))) = None"
  then have opts: "snd (LBPoolUpdate_opts env d) = True"
    by (auto simp: LBPoolUpdate_opts_def Let_def)
  obtain client w1 where cc: "CreateClient env d LBPoolsPoint (VersionPointV1 env) (world s) = ((client, None), w1)"
    using ch by (cases "CreateClient env d LBPoolsPoint (VersionPointV1 env) (world s)") auto
  obtain opts' where o: "LBPoolUpdate_opts env d = (opts', True)"
    using opts by (cases "LBPoolUpdate_opts env d") auto
  let ?s1 = "\<lparr>world = w1, calls = calls s @ [CallCreateClient LBPoolsPoint]\<rparr>"
  obtain res s2 where up: "call (CallLbpoolsUpdate (Id' d)) (lbpools_Update env client (Id' d) opts') ?s1 = (res, s2)"
    by (metis surj_pair)
  have c2: "CallLbpoolsUpdate (Id' d) \<in> set (calls s2)"
    using calls_call [OF up] by simp
  have "\<exists>cs. calls s' = calls s2 @ cs"
    using run cc o up unfolding resourceLBPoolUpdate_def
    by (auto simp: call_def split: prod.splits option.splits dest!: resourceLBPoolRead_calls)
  then show "CallLbpoolsUpdate (Id' d) \<in> set (calls s')"
    using c2 by auto
qed


theorem LBPoolUpdate_only_on_change_witness:
  "(let d = example_data ''pool-1'';
        u = resourceLBPoolUpdate example_lbpools d (example_state [''pool-1''])
    in \<not> HasChange d ''lb_algorithm'' \<and> \<not> HasChange d ''health_monitor'' \<and>
       \<not> HasChange d ''session_persistence'' \<and>
       u = resourceLBPoolRead example_lbpools d
             \<lparr>world = [''pool-1''], calls = [CallCreateClient ''lbpools'']\<rparr> \<and>
       CallLbpoolsUpdate ''pool-1'' \<notin> set (calls (snd (snd u))) \<and>
       CallWaitTask ''task-2'' 2400 \<notin> set (calls (snd (snd u)))) \<and>
   (let d = (example_data ''pool-1'')\<lparr>planned := (\<lambda>k. VNil)(''lb_algorithm'' := VStr ''SOURCE_IP'')\<rparr>;
        u = resourceLBPoolUpdate example_lbpools d (example_state [''pool-1''])
    in HasChange d ''lb_algorithm'' \<and> CallLbpoolsUpdate ''pool-1'' \<in> set (calls (snd (snd u))))"
proof -
  let ?d = "example_data ''pool-1''"
  let ?s = "example_state [''pool-1'']"
  let ?u = "resourceLBPoolUpdate example_lbpools ?d ?s"
  let ?d2 = "(example_data ''pool-1'')\<lparr>planned := (\<lambda>k. VNil)(''lb_algorithm'' := VStr ''SOURCE_IP'')\<rparr>"
  let ?u2 = "resourceLBPoolUpdate example_lbpools ?d2 ?s"
  have nc: "\<not> (HasChange ?d ''lb_algorithm'' \<or> HasChange ?d ''health_monitor'' \<or>
             HasChange ?d ''session_persistence'')"
    by (simp add: HasChange_def example_data_def)
  have ch: "HasChange ?d2 ''lb_algorithm''"
    by (simp add: HasChange_def example_data_def)
  have cc: "snd (fst (CreateClient example_lbpools ?d2 LBPoolsPoint (VersionPointV1 example_lbpools)
                        (world ?s))) = None"
    by (simp add: example_lbpools_def)
  have id: "Id' ?d = ''pool-1''" "Id' ?d2 = ''pool-1''" "calls ?s = []"
    by (simp_all add: example_data_def example_state_def)
  have 1: "(\<exists>cs. calls (snd (snd ?u)) = calls ?s @ cs \<and>
                  set cs \<subseteq> {CallCreateClient LBPoolsPoint, CallLbpoolsGet (Id' ?d)}) \<and>
       (fst ?u, fst (snd ?u), snd (snd ?u)) =
              (case call (CallCreateClient LBPoolsPoint)
                      (CreateClient example_lbpools ?d LBPoolsPoint (VersionPointV1 example_lbpools)) ?s of
                 ((client, Some e), s1) \<Rightarrow> (Return (diag_FromErr e), ?d, s1)
               | ((client, None), s1) \<Rightarrow> resourceLBPoolRead example_lbpools ?d s1)"
  proof -
    have run: "?u = (fst ?u, fst (snd ?u), snd (snd ?u))" by simp
    from LBPoolUpdate_only_on_change [OF run] nc show ?thesis by blast
  qed
  have 2: "CallLbpoolsUpdate (Id' ?d2) \<in> set (calls (snd (snd ?u2)))"
  proof -
    have run: "?u2 = (fst ?u2, fst (snd ?u2), snd (snd ?u2))" by simp
    from LBPoolUpdate_only_on_change [OF run] ch cc show ?thesis by blast
  qed
  have 3: "?u = resourceLBPoolRead example_lbpools ?d \<lparr>world = [''pool-1''], calls = [CallCreateClient ''lbpools'']\<rparr>"
    using 1 by (simp add: call_def example_lbpools_def example_state_def LBPoolsPoint_def)
  have 4: "CallLbpoolsUpdate ''pool-1'' \<notin> set (calls (snd (snd ?u)))"
    "CallWaitTask ''task-2'' 2400 \<notin> set (calls (snd (snd ?u)))"
    using 1 id by auto
  show ?thesis
    unfolding Let_def using nc ch 2 3 4 id by simp
qed

section \<open>Delete handlers\<close>

lemma RouterDelete_checker_cases:
  "(fst (RouterDelete_checker env client routerID task w) = Some (INil, None) \<longleftrightarrow>
      (\<exists>e. snd (fst (routers_Get env client routerID w)) = Some e \<and> errors_As_404 e)) \<and>
   (snd (fst (routers_Get env client routerID w)) = None \<longrightarrow>
      fst (RouterDelete_checker env client routerID task w) =
        Some (INil, Some (Errorf ''cannot delete router with ID: %s'' [routerID]))) \<and>
   (\<forall>e. snd (fst (routers_Get env client routerID w)) = Some e \<and> \<not> errors_As_404 e \<longrightarrow>
      fst (RouterDelete_checker env client routerID task w) =
        Some (INil, Some (Errorf_w ''extracting Router resource error: %w'' [] e)))"
  by (auto simp: RouterDelete_checker_def split: prod.splits option.splits)

lemma LBPoolDelete_checker_cases:
  "(fst (LBPoolDelete_checker env client id' task w) = Some (INil, None) \<longleftrightarrow>
      (\<exists>e. snd (fst (lbpools_Get env client id' w)) = Some e \<and> errors_As_404 e)) \<and>
   (snd (fst (lbpools_Get env client id' w)) = None \<longrightarrow>
      fst (LBPoolDelete_checker env client id' task w) =
        Some (INil, Some (Errorf ''cannot delete LBPool with ID: %s'' [id']))) \<and>
   (\<forall>e. snd (fst (lbpools_Get env client id' w)) = Some e \<and> \<not> errors_As_404 e \<longrightarrow>
      fst (LBPoolDelete_checker env client id' task w) =
        Some (INil, Some (Errorf_w ''extracting LBPool resource error: %w'' [] e)))"
  by (auto simp: LBPoolDelete_checker_def split: prod.splits option.splits)

lemma BmInstanceDelete_checker_cases:
  "(fst (BmInstanceDelete_checker env client instanceID task w) = Some (INil, None) \<longleftrightarrow>
      (\<exists>e. snd (fst (instances_Get env client instanceID w)) = Some e \<and> errors_As_404 e)) \<and>
   (snd (fst (instances_Get env client instanceID w)) = None \<longrightarrow>
      fst (BmInstanceDelete_checker env client instanceID task w) =
        Some (INil, Some (Errorf ''cannot delete instance with ID: %s'' [instanceID]))) \<and>
   (\<forall>e. snd (fst (instances_Get env client instanceID w)) = Some e \<and> \<not> errors_As_404 e \<longrightarrow>
      fst (BmInstanceDelete_checker env client instanceID task w) =
        Some (INil, Some (Errorf_w ''extracting Instance resource error: %w'' [] e)))"
  by (auto simp: BmInstanceDelete_checker_def split: prod.splits option.splits)

lemma resourceRouterDelete_run:
  assumes "CreateClient env d RouterPoint (VersionPointV1 env) (world s) = ((client, None), wa)"
    and "routers_Delete env client (Id' d) wa = ((results, None), wb)"
    and "first_task results = Some task"
    and "WaitTaskAndReturnResult env client task True RouterDeleting
           (RouterDelete_checker env client (Id' d)) wb = (Some (r, None), wc)"
  shows "resourceRouterDelete env d s =
     (Return [], SetId d [],
      \<lparr>world = wc,
       calls = calls s @ [CallCreateClient RouterPoint, CallRoutersDelete (Id' d),
                          CallWaitTask task RouterDeleting]\<rparr>)"
  using assms by (simp add: resourceRouterDelete_def call_def Let_def)

lemma resourceRouterDelete_success:
  assumes "resourceRouterDelete env d s = (Return [], d', s')"
  shows "\<exists>client wa results wb task r wc.
     CreateClient env d RouterPoint (VersionPointV1 env) (world s) = ((client, None), wa) \<and>
     routers_Delete env client (Id' d) wa = ((results, None), wb) \<and>
     first_task results = Some task \<and>
     WaitTaskAndReturnResult env client task True RouterDeleting
       (RouterDelete_checker env client (Id' d)) wb = (Some (r, None), wc) \<and>
     d' = SetId d [] \<and>
     s' = \<lparr>world = wc,
           calls = calls s @ [CallCreateClient RouterPoint, CallRoutersDelete (Id' d),
                              CallWaitTask task RouterDeleting]\<rparr>"
  using assms
  by (auto simp: resourceRouterDelete_def Let_def call_def
      split: prod.splits option.splits)

lemma resourceLBPoolDelete_run:
  assumes "CreateClient env d LBPoolsPoint (VersionPointV1 env) (world s) = ((client, None), wa)"
    and "lbpools_Delete env client (Id' d) wa = ((results, None), wb)"
    and "first_task results = Some task"
    and "WaitTaskAndReturnResult env client task True LBPoolsCreateTimeout
           (LBPoolDelete_checker env client (Id' d)) wb = (Some (r, None), wc)"
  shows "resourceLBPoolDelete env d s =
     (Return [], SetId d [],
      \<lparr>world = wc,
       calls = calls s @ [CallCreateClient LBPoolsPoint, CallLbpoolsDelete (Id' d),
                          CallWaitTask task LBPoolsCreateTimeout]\<rparr>)"
  using assms by (simp add: resourceLBPoolDelete_def LBPoolDelete_wait_def call_def Let_def)

lemma resourceLBPoolDelete_success:
  assumes "resourceLBPoolDelete env d s = (Return [], d', s')"
  shows "\<exists>client wa results eo wb task r wc.
     CreateClient env d LBPoolsPoint (VersionPointV1 env) (world s) = ((client, None), wa) \<and>
     lbpools_Delete env client (Id' d) wa = ((results, eo), wb) \<and>
     first_task results = Some task \<and>
     WaitTaskAndReturnResult env client task True LBPoolsCreateTimeout
       (LBPoolDelete_checker env client (Id' d)) wb = (Some (r, None), wc) \<and>
     d' = SetId d [] \<and>
     s' = \<lparr>world = wc,
           calls = calls s @ [CallCreateClient LBPoolsPoint, CallLbpoolsDelete (Id' d),
                              CallWaitTask task LBPoolsCreateTimeout]\<rparr>"
  using assms
  by (auto simp: resourceLBPoolDelete_def LBPoolDelete_wait_def Let_def call_def
      split: prod.splits option.splits if_splits)

lemma resourceBmInstanceDelete_run:
  assumes "CreateClient env d (InstancePoint env) (VersionPointV1 env) (world s) = ((client, None), wa)"
    and "instances_Delete env client (Id' d) \<lparr>DeleteFloatings = True\<rparr> wa = ((results, None), wb)"
    and "first_task results = Some task"
    and "WaitTaskAndReturnResult env client task True BmInstanceDeleting
           (BmInstanceDelete_checker env client (Id' d)) wb = (Some (r, None), wc)"
  shows "resourceBmInstanceDelete env d s =
     (Return [], SetId d [],
      \<lparr>world = wc,
       calls = calls s @ [CallCreateClient (InstancePoint env), CallInstancesDelete (Id' d),
                          CallWaitTask task BmInstanceDeleting]\<rparr>)"
  using assms by (simp add: resourceBmInstanceDelete_def call_def Let_def)

lemma resourceBmInstanceDelete_success:
  assumes "resourceBmInstanceDelete env d s = (Return [], d', s')"
  shows "\<exists>client wa results wb task r wc.
     CreateClient env d (InstancePoint env) (VersionPointV1 env) (world s) = ((client, None), wa) \<and>
     instances_Delete env client (Id' d) \<lparr>DeleteFloatings = True\<rparr> wa = ((results, None), wb) \<and>
     first_task results = Some task \<and>
     WaitTaskAndReturnResult env client task True BmInstanceDeleting
       (BmInstanceDelete_checker env client (Id' d)) wb = (Some (r, None), wc) \<and>
     d' = SetId d [] \<and>
     s' = \<lparr>world = wc,
           calls = calls s @ [CallCreateClient (InstancePoint env), CallInstancesDelete (Id' d),
                              CallWaitTask task BmInstanceDeleting]\<rparr>"
  using assms
  by (auto simp: resourceBmInstanceDelete_def Let_def call_def
      split: prod.splits option.splits)

text \<open>
  C3: in the delete handlers of the router, the LB pool and the baremetal instance, the checker
  given to the task wait returns \<open>(nil, nil)\<close> exactly when its \<open>Get\<close> of the resource
  fails with an error that \<open>errors.As\<close> recognises as the typed 404; when \<open>Get\<close> succeeds it
  returns the error "cannot delete ...", and for any other error of \<open>Get\<close> it returns that
  error wrapped. When the handler's client is created, its delete request gives a task, and
  its wait for this task, run with this checker on that client and the resource ID, returns no
  error, the handler returns no diagnostic and sets the resource ID to the empty string, its
  calls being the client creation, the delete request and the task wait. Conversely, a handler
  that returns no diagnostic has made exactly these three calls, the wait with this checker
  for the first task of its delete request has returned no error, and the resource ID is the
  empty string.
\<close>

theorem delete_checkers_succeed_on_404:
  "((fst (RouterDelete_checker envR cR routerID tR wR) = Some (INil, None) \<longleftrightarrow>
       (\<exists>e. snd (fst (routers_Get envR cR routerID wR)) = Some e \<and> errors_As_404 e)) \<and>
    (snd (fst (routers_Get envR cR routerID wR)) = None \<longrightarrow>
       fst (RouterDelete_checker envR cR routerID tR wR) =
         Some (INil, Some (Errorf ''cannot delete router with ID: %s'' [routerID]))) \<and>
    (\<forall>e. snd (fst (routers_Get envR cR routerID wR)) = Some e \<and> \<not> errors_As_404 e \<longrightarrow>
       fst (RouterDelete_checker envR cR routerID tR wR) =
         Some (INil, Some (Errorf_w ''extracting Router resource error: %w'' [] e)))) \<and>
   (CreateClient envR dR RouterPoint (VersionPointV1 envR) (world sR) = ((clientR, None), wRa) \<and>
    routers_Delete envR clientR (Id' dR) wRa = ((resultsR, None), wRb) \<and>
    first_task resultsR = Some taskR \<and>
    WaitTaskAndReturnResult envR clientR taskR True RouterDeleting
      (RouterDelete_checker envR clientR (Id' dR)) wRb = (Some (rR, None), wRc) \<longrightarrow>
      resourceRouterDelete envR dR sR =
        (Return [], SetId dR [],
         \<lparr>world = wRc,
          calls = calls sR @ [CallCreateClient RouterPoint, CallRoutersDelete (Id' dR),
                              CallWaitTask taskR RouterDeleting]\<rparr>)) \<and>
   (resourceRouterDelete envR dR sR = (Return [], dR', sR') \<longrightarrow>
      Id' dR' = [] \<and>
      (\<exists>client wa results wb task r wc.
         CreateClient envR dR RouterPoint (VersionPointV1 envR) (world sR) = ((client, None), wa) \<and>
         routers_Delete envR client (Id' dR) wa = ((results, None), wb) \<and>
         first_task results = Some task \<and>
         WaitTaskAndReturnResult envR client task True RouterDeleting
           (RouterDelete_checker envR client (Id' dR)) wb = (Some (r, None), wc) \<and>
         dR' = SetId dR [] \<and>
         sR' = \<lparr>world = wc,
                calls = calls sR @ [CallCreateClient RouterPoint, CallRoutersDelete (Id' dR),
                                    CallWaitTask task RouterDeleting]\<rparr>)) \<and>
   ((fst (LBPoolDelete_checker envP cP poolID tP wP) = Some (INil, None) \<longleftrightarrow>
       (\<exists>e. snd (fst (lbpools_Get envP cP poolID wP)) = Some e \<and> errors_As_404 e)) \<and>
    (snd (fst (lbpools_Get envP cP poolID wP)) = None \<longrightarrow>
       fst (LBPoolDelete_checker envP cP poolID tP wP) =
         Some (INil, Some (Errorf ''cannot delete LBPool with ID: %s'' [poolID]))) \<and>
    (\<forall>e. snd (fst (lbpools_Get envP cP poolID wP)) = Some e \<and> \<not> errors_As_404 e \<longrightarrow>
       fst (LBPoolDelete_checker envP cP poolID tP wP) =
         Some (INil, Some (Errorf_w ''extracting LBPool resource error: %w'' [] e)))) \<and>
   (CreateClient envP dP LBPoolsPoint (VersionPointV1 envP) (world sP) = ((clientP, None), wPa) \<and>
    lbpools_Delete envP clientP (Id' dP) wPa = ((resultsP, None), wPb) \<and>
    first_task resultsP = Some taskP \<and>
    WaitTaskAndReturnResult envP clientP taskP True LBPoolsCreateTimeout
      (LBPoolDelete_checker envP clientP (Id' dP)) wPb = (Some (rP, None), wPc) \<longrightarrow>
      resourceLBPoolDelete envP dP sP =
        (Return [], SetId dP [],
         \<lparr>world = wPc,
          calls = calls sP @ [CallCreateClient LBPoolsPoint, CallLbpoolsDelete (Id' dP),
                              CallWaitTask taskP LBPoolsCreateTimeout]\<rparr>)) \<and>
   (resourceLBPoolDelete envP dP sP = (Return [], dP', sP') \<longrightarrow>
      Id' dP' = [] \<and>
      (\<exists>client wa results eo wb task r wc.
         CreateClient envP dP LBPoolsPoint (VersionPointV1 envP) (world sP) = ((client, None), wa) \<and>
         lbpools_Delete envP client (Id' dP) wa = ((results, eo), wb) \<and>
         first_task results = Some task \<and>
         WaitTaskAndReturnResult envP client task True LBPoolsCreateTimeout
           (LBPoolDelete_checker envP client (Id' dP)) wb = (Some (r, None), wc) \<and>
         dP' = SetId dP [] \<and>
         sP' = \<lparr>world = wc,
                calls = calls sP @ [CallCreateClient LBPoolsPoint, CallLbpoolsDelete (Id' dP),
                                    CallWaitTask task LBPoolsCreateTimeout]\<rparr>)) \<and>
   ((fst (BmInstanceDelete_checker envB cB instanceID tB wB) = Some (INil, None) \<longleftrightarrow>
       (\<exists>e. snd (fst (instances_Get envB cB instanceID wB)) = Some e \<and> errors_As_404 e)) \<and>
    (snd (fst (instances_Get envB cB instanceID wB)) = None \<longrightarrow>
       fst (BmInstanceDelete_checker envB cB instanceID tB wB) =
         Some (INil, Some (Errorf ''cannot delete instance with ID: %s'' [instanceID]))) \<and>
    (\<forall>e. snd (fst (instances_Get envB cB instanceID wB)) = Some e \<and> \<not> errors_As_404 e \<longrightarrow>
       fst (BmInstanceDelete_checker envB cB instanceID tB wB) =
         Some (INil, Some (Errorf_w ''extracting Instance resource error: %w'' [] e)))) \<and>
   (CreateClient envB dB (InstancePoint envB) (VersionPointV1 envB) (world sB) = ((clientB, None), wBa) \<and>
    instances_Delete envB clientB (Id' dB) \<lparr>DeleteFloatings = True\<rparr> wBa = ((resultsB, None), wBb) \<and>
    first_task resultsB = Some taskB \<and>
    WaitTaskAndReturnResult envB clientB taskB True BmInstanceDeleting
      (BmInstanceDelete_checker envB clientB (Id' dB)) wBb = (Some (rB, None), wBc) \<longrightarrow>
      resourceBmInstanceDelete envB dB sB =
        (Return [], SetId dB [],
         \<lparr>world = wBc,
          calls = calls sB @ [CallCreateClient (InstancePoint envB), CallInstancesDelete (Id' dB),
                              CallWaitTask taskB BmInstanceDeleting]\<rparr>)) \<and>
   (resourceBmInstanceDelete envB dB sB = (Return [], dB', sB') \<longrightarrow>
      Id' dB' = [] \<and>
      (\<exists>client wa results wb task r wc.
         CreateClient envB dB (InstancePoint envB) (VersionPointV1 envB) (world sB) = ((client, None), wa) \<and>
         instances_Delete envB client (Id' dB) \<lparr>DeleteFloatings = True\<rparr> wa = ((results, None), wb) \<and>
         first_task results = Some task \<and>
         WaitTaskAndReturnResult envB client task True BmInstanceDeleting
           (BmInstanceDelete_checker envB client (Id' dB)) wb = (Some (r, None), wc) \<and>
         dB' = SetId dB [] \<and>
         sB' = \<lparr>world = wc,
                calls = calls sB @ [CallCreateClient (InstancePoint envB), CallInstancesDelete (Id' dB),
                                    CallWaitTask task BmInstanceDeleting]\<rparr>))"
proof (intro conjI)
  show "CreateClient envR dR RouterPoint (VersionPointV1 envR) (world sR) = ((clientR, None), wRa) \<and>
    routers_Delete envR clientR (Id' dR) wRa = ((resultsR, None), wRb) \<and>
    first_task resultsR = Some taskR \<and>
    WaitTaskAndReturnResult envR clientR taskR True RouterDeleting
      (RouterDelete_checker envR clientR (Id' dR)) wRb = (Some (rR, None), wRc) \<longrightarrow>
      resourceRouterDelete envR dR sR =
        (Return [], SetId dR [],
         \<lparr>world = wRc,
          calls = calls sR @ [CallCreateClient RouterPoint, CallRoutersDelete (Id' dR),
                              CallWaitTask taskR RouterDeleting]\<rparr>)"
    using resourceRouterDelete_run [of envR dR sR clientR wRa resultsR wRb taskR rR wRc] by blast
  show "resourceRouterDelete envR dR sR = (Return [], dR', sR') \<longrightarrow>
      Id' dR' = [] \<and>
      (\<exists>client wa results wb task r wc.
         CreateClient envR dR RouterPoint (VersionPointV1 envR) (world sR) = ((client, None), wa) \<and>
         routers_Delete envR client (Id' dR) wa = ((results, None), wb) \<and>
         first_task results = Some task \<and>
         WaitTaskAndReturnResult envR client task True RouterDeleting
           (RouterDelete_checker envR client (Id' dR)) wb = (Some (r, None), wc) \<and>
         dR' = SetId dR [] \<and>
         sR' = \<lparr>world = wc,
                calls = calls sR @ [CallCreateClient RouterPoint, CallRoutersDelete (Id' dR),
                                    CallWaitTask task RouterDeleting]\<rparr>)"
  proof
    assume run: "resourceRouterDelete envR dR sR = (Return [], dR', sR')"
    from resourceRouterDelete_success [OF run] have "dR' = SetId dR []" by blast
    then have id: "Id' dR' = []" by (simp add: Id'_SetId)
    from id resourceRouterDelete_success [OF run] show "Id' dR' = [] \<and>
      (\<exists>client wa results wb task r wc.
         CreateClient envR dR RouterPoint (VersionPointV1 envR) (world sR) = ((client, None), wa) \<and>
         routers_Delete envR client (Id' dR) wa = ((results, None), wb) \<and>
         first_task results = Some task \<and>
         WaitTaskAndReturnResult envR client task True RouterDeleting
           (RouterDelete_checker envR client (Id' dR)) wb = (Some (r, None), wc) \<and>
         dR' = SetId dR [] \<and>
         sR' = \<lparr>world = wc,
                calls = calls sR @ [CallCreateClient RouterPoint, CallRoutersDelete (Id' dR),
                                    CallWaitTask task RouterDeleting]\<rparr>)"
      by (rule conjI)
  qed
  show "CreateClient envP dP LBPoolsPoint (VersionPointV1 envP) (world sP) = ((clientP, None), wPa) \<and>
    lbpools_Delete envP clientP (Id' dP) wPa = ((resultsP, None), wPb) \<and>
    first_task resultsP = Some taskP \<and>
    WaitTaskAndReturnResult envP clientP taskP True LBPoolsCreateTimeout
      (LBPoolDelete_checker envP clientP (Id' dP)) wPb = (Some (rP, None), wPc) \<longrightarrow>
      resourceLBPoolDelete envP dP sP =
        (Return [], SetId dP [],
         \<lparr>world = wPc,
          calls = calls sP @ [CallCreateClient LBPoolsPoint, CallLbpoolsDelete (Id' dP),
                              CallWaitTask taskP LBPoolsCreateTimeout]\<rparr>)"
    using resourceLBPoolDelete_run [of envP dP sP clientP wPa resultsP wPb taskP rP wPc] by blast
  show "resourceLBPoolDelete envP dP sP = (Return [], dP', sP') \<longrightarrow>
      Id' dP' = [] \<and>
      (\<exists>client wa results eo wb task r wc.
         CreateClient envP dP LBPoolsPoint (VersionPointV1 envP) (world sP) = ((client, None), wa) \<and>
         lbpools_Delete envP client (Id' dP) wa = ((results, eo), wb) \<and>
         first_task results = Some task \<and>
         WaitTaskAndReturnResult envP client task True LBPoolsCreateTimeout
           (LBPoolDelete_checker envP client (Id' dP)) wb = (Some (r, None), wc) \<and>
         dP' = SetId dP [] \<and>
         sP' = \<lparr>world = wc,
                calls = calls sP @ [CallCreateClient LBPoolsPoint, CallLbpoolsDelete (Id' dP),
                                    CallWaitTask task LBPoolsCreateTimeout]\<rparr>)"
  proof
    assume run: "resourceLBPoolDelete envP dP sP = (Return [], dP', sP')"
    from resourceLBPoolDelete_success [OF run] have "dP' = SetId dP []" by blast
    then have id: "Id' dP' = []" by (simp add: Id'_SetId)
    from id resourceLBPoolDelete_success [OF run] show "Id' dP' = [] \<and>
      (\<exists>client wa results eo wb task r wc.
         CreateClient envP dP LBPoolsPoint (VersionPointV1 envP) (world sP) = ((client, None), wa) \<and>
         lbpools_Delete envP client (Id' dP) wa = ((results, eo), wb) \<and>
         first_task results = Some task \<and>
         WaitTaskAndReturnResult envP client task True LBPoolsCreateTimeout
           (LBPoolDelete_checker envP client (Id' dP)) wb = (Some (r, None), wc) \<and>
         dP' = SetId dP [] \<and>
         sP' = \<lparr>world = wc,
                calls = calls sP @ [CallCreateClient LBPoolsPoint, CallLbpoolsDelete (Id' dP),
                                    CallWaitTask task LBPoolsCreateTimeout]\<rparr>)"
      by (rule conjI)
  qed
  show "CreateClient envB dB (InstancePoint envB) (VersionPointV1 envB) (world sB) = ((clientB, None), wBa) \<and>
    instances_Delete envB clientB (Id' dB) \<lparr>DeleteFloatings = True\<rparr> wBa = ((resultsB, None), wBb) \<and>
    first_task resultsB = Some taskB \<and>
    WaitTaskAndReturnResult envB clientB taskB True BmInstanceDeleting
      (BmInstanceDelete_checker envB clientB (Id' dB)) wBb = (Some (rB, None), wBc) \<longrightarrow>
      resourceBmInstanceDelete envB dB sB =
        (Return [], SetId dB [],
         \<lparr>world = wBc,
          calls = calls sB @ [CallCreateClient (InstancePoint envB), CallInstancesDelete (Id' dB),
                              CallWaitTask taskB BmInstanceDeleting]\<rparr>)"
    using resourceBmInstanceDelete_run [of envB dB sB clientB wBa resultsB wBb taskB rB wBc] by blast
  show "resourceBmInstanceDelete envB dB sB = (Return [], dB', sB') \<longrightarrow>
      Id' dB' = [] \<and>
      (\<exists>client wa results wb task r wc.
         CreateClient envB dB (InstancePoint envB) (VersionPointV1 envB) (world sB) = ((client, None), wa) \<and>
         instances_Delete envB client (Id' dB) \<lparr>DeleteFloatings = True\<rparr> wa = ((results, None), wb) \<and>
         first_task results = Some task \<and>
         WaitTaskAndReturnResult envB client task True BmInstanceDeleting
           (BmInstanceDelete_checker envB client (Id' dB)) wb = (Some (r, None), wc) \<and>
         dB' = SetId dB [] \<and>
         sB' = \<lparr>world = wc,
                calls = calls sB @ [CallCreateClient (InstancePoint envB), CallInstancesDelete (Id' dB),
                                    CallWaitTask task BmInstanceDeleting]\<rparr>)"
  proof
    assume run: "resourceBmInstanceDelete envB dB sB = (Return [], dB', sB')"
    from resourceBmInstanceDelete_success [OF run] have "dB' = SetId dB []" by blast
    then have id: "Id' dB' = []" by (simp add: Id'_SetId)
    from id resourceBmInstanceDelete_success [OF run] show "Id' dB' = [] \<and>
      (\<exists>client wa results wb task r wc.
         CreateClient envB dB (InstancePoint envB) (VersionPointV1 envB) (world sB) = ((client, None), wa) \<and>
         instances_Delete envB client (Id' dB) \<lparr>DeleteFloatings = True\<rparr> wa = ((results, None), wb) \<and>
         first_task results = Some task \<and>
         WaitTaskAndReturnResult envB client task True BmInstanceDeleting
           (BmInstanceDelete_checker envB client (Id' dB)) wb = (Some (r, None), wc) \<and>
         dB' = SetId dB [] \<and>
         sB' = \<lparr>world = wc,
                calls = calls sB @ [CallCreateClient (InstancePoint envB), CallInstancesDelete (Id' dB),
                                    CallWaitTask task BmInstanceDeleting]\<rparr>)"
      by (rule conjI)
  qed
qed (use RouterDelete_checker_cases [of envR cR routerID tR wR]
      LBPoolDelete_checker_cases [of envP cP poolID tP wP]
      BmInstanceDelete_checker_cases [of envB cB instanceID tB wB] in blast)+

lemmas delete_eval =
  resourceRouterDelete_def resourceLBPoolDelete_def resourceBmInstanceDelete_def
  resourceLBMemberDelete_def LBPoolDelete_wait_def RouterDelete_checker_def
  LBPoolDelete_checker_def BmInstanceDelete_checker_def LBMemberDelete_checker_def
  first_task_def call_def Let_def

theorem delete_checkers_succeed_on_404_witness:
  "resourceRouterDelete example_routers (example_data ''router-1'') (example_state [''router-1'']) =
     (Return [], SetId (example_data ''router-1'') [],
      \<lparr>world = [],
       calls = [CallCreateClient ''routers'', CallRoutersDelete ''router-1'',
                CallWaitTask ''task-2'' 1200]\<rparr>) \<and>
   Id' (fst (snd (resourceRouterDelete example_routers (example_data ''router-1'')
                    (example_state [''router-1''])))) = [] \<and>
   resourceLBPoolDelete example_lbpools (example_data ''pool-1'') (example_state [''pool-1'']) =
     (Return [], SetId (example_data ''pool-1'') [],
      \<lparr>world = [],
       calls = [CallCreateClient ''lbpools'', CallLbpoolsDelete ''pool-1'',
                CallWaitTask ''task-3'' 2400]\<rparr>) \<and>
   Id' (fst (snd (resourceLBPoolDelete example_lbpools (example_data ''pool-1'')
                    (example_state [''pool-1''])))) = [] \<and>
   resourceBmInstanceDelete example_bminstances (example_data ''bm-1'') (example_state [''bm-1'']) =
     (Return [], SetId (example_data ''bm-1'') [],
      \<lparr>world = [],
       calls = [CallCreateClient ''instances'', CallInstancesDelete ''bm-1'',
                CallWaitTask ''task-2'' 1200]\<rparr>) \<and>
   Id' (fst (snd (resourceBmInstanceDelete example_bminstances (example_data ''bm-1'')
                    (example_state [''bm-1''])))) = [] \<and>
   fst (RouterDelete_checker example_routers ''routers'' ''router-1'' ''task-2'' []) = Some (INil, None) \<and>
   fst (RouterDelete_checker example_routers ''routers'' ''router-1'' ''task-2'' [''router-1'']) =
     Some (INil, Some (Errorf ''cannot delete router with ID: %s'' [''router-1'']))"
proof -
  let ?R = "resourceRouterDelete example_routers (example_data ''router-1'') (example_state [''router-1''])"
  let ?P = "resourceLBPoolDelete example_lbpools (example_data ''pool-1'') (example_state [''pool-1''])"
  let ?B = "resourceBmInstanceDelete example_bminstances (example_data ''bm-1'') (example_state [''bm-1''])"
  note ev = example_defs RouterPoint_def LBPoolsPoint_def RouterDeleting_def BmInstanceDeleting_def
    LBPoolsCreateTimeout_def first_task_def RouterDelete_checker_def BmInstanceDelete_checker_def
    LBPoolDelete_checker_def
  note T = delete_checkers_succeed_on_404 [where envR = example_routers and envP = example_lbpools
      and envB = example_bminstances
      and dR = "example_data ''router-1''" and sR = "example_state [''router-1'']"
      and clientR = "''routers''" and wRa = "[''router-1'']" and resultsR = "example_task ''task-2''"
      and wRb = "[]" and taskR = "''task-2''" and rR = INil and wRc = "[]"
      and dR' = "fst (snd ?R)" and sR' = "snd (snd ?R)"
      and dP = "example_data ''pool-1''" and sP = "example_state [''pool-1'']"
      and clientP = "''lbpools''" and wPa = "[''pool-1'']" and resultsP = "example_task ''task-3''"
      and wPb = "[]" and taskP = "''task-3''" and rP = INil and wPc = "[]"
      and dP' = "fst (snd ?P)" and sP' = "snd (snd ?P)"
      and dB = "example_data ''bm-1''" and sB = "example_state [''bm-1'']"
      and clientB = "''instances''" and wBa = "[''bm-1'']" and resultsB = "example_task ''task-2''"
      and wBb = "[]" and taskB = "''task-2''" and rB = INil and wBc = "[]"
      and dB' = "fst (snd ?B)" and sB' = "snd (snd ?B)"
      and cR = "''routers''" and routerID = "''router-1''" and tR = "''task-2''"]
  note c2 = conjunct2
  note FwdR = T [THEN c2, THEN conjunct1]
  note ConvR = T [THEN c2, THEN c2, THEN conjunct1]
  note FwdP = T [THEN c2, THEN c2, THEN c2, THEN c2, THEN conjunct1]
  note ConvP = T [THEN c2, THEN c2, THEN c2, THEN c2, THEN c2, THEN conjunct1]
  note FwdB = T [THEN c2, THEN c2, THEN c2, THEN c2, THEN c2, THEN c2, THEN c2, THEN conjunct1]
  note ConvB = T [THEN c2, THEN c2, THEN c2, THEN c2, THEN c2, THEN c2, THEN c2, THEN c2]
  have R: "?R = (Return [], SetId (example_data ''router-1'') [],
      \<lparr>world = [],
       calls = [CallCreateClient ''routers'', CallRoutersDelete ''router-1'',
                CallWaitTask ''task-2'' 1200]\<rparr>)"
    using FwdR by (simp add: ev)
  have P: "?P = (Return [], SetId (example_data ''pool-1'') [],
      \<lparr>world = [],
       calls = [CallCreateClient ''lbpools'', CallLbpoolsDelete ''pool-1'',
                CallWaitTask ''task-3'' 2400]\<rparr>)"
    using FwdP by (simp add: ev)
  have B: "?B = (Return [], SetId (example_data ''bm-1'') [],
      \<lparr>world = [],
       calls = [CallCreateClient ''instances'', CallInstancesDelete ''bm-1'',
                CallWaitTask ''task-2'' 1200]\<rparr>)"
    using FwdB by (simp add: ev)
  have R': "?R = (Return [], fst (snd ?R), snd (snd ?R))" unfolding R by simp
  have P': "?P = (Return [], fst (snd ?P), snd (snd ?P))" unfolding P by simp
  have B': "?B = (Return [], fst (snd ?B), snd (snd ?B))" unfolding B by simp
  have 1: "Id' (fst (snd ?R)) = []" using ConvR [rule_format, OF R'] by (rule conjunct1)
  have 2: "Id' (fst (snd ?P)) = []" using ConvP [rule_format, OF P'] by (rule conjunct1)
  have 3: "Id' (fst (snd ?B)) = []" using ConvB [rule_format, OF B'] by (rule conjunct1)
  have g1: "\<exists>e. snd (fst (routers_Get example_routers ''routers'' ''router-1'' [])) = Some e \<and> errors_As_404 e"
    by (simp add: example_routers_def)
  have g2: "snd (fst (routers_Get example_routers ''routers'' ''router-1'' [''router-1''])) = None"
    by (simp add: example_routers_def)
  have 4: "fst (RouterDelete_checker example_routers ''routers'' ''router-1'' ''task-2'' []) = Some (INil, None)"
    using T [where wR = "[]", THEN conjunct1] g1 by blast
  have 5: "fst (RouterDelete_checker example_routers ''routers'' ''router-1'' ''task-2'' [''router-1'']) =
     Some (INil, Some (Errorf ''cannot delete router with ID: %s'' [''router-1'']))"
    using T [where wR = "[''router-1'']", THEN conjunct1] g2 by blast
  show ?thesis
    using R P B 1 2 3 4 5 by (intro conjI)
qed

text \<open>
  C2, as the code has it: in every delete handler an error of the delete request that is not
  the typed 404, and an error of the task wait, is returned as the handler's diagnostic, with
  the resource data unchanged and no further call. A 404 of the delete request is returned
  in this way by the router and the baremetal handlers; the LB member handler clears the
  resource ID and returns no diagnostic.
\<close>

theorem delete_errors_propagate:
  "(CreateClient envR dR RouterPoint (VersionPointV1 envR) (world sR) = ((clientR, None), wRa) \<and>
    routers_Delete envR clientR (Id' dR) wRa = ((resultsR, Some eR), wRb) \<longrightarrow>
      resourceRouterDelete envR dR sR =
        (Return (diag_FromErr eR), dR,
         \<lparr>world = wRb,
          calls = calls sR @ [CallCreateClient RouterPoint, CallRoutersDelete (Id' dR)]\<rparr>)) \<and>
   (CreateClient envR dR RouterPoint (VersionPointV1 envR) (world sR) = ((clientR, None), wRa) \<and>
    routers_Delete envR clientR (Id' dR) wRa = ((resultsR, None), wRb) \<and>
    first_task resultsR = Some taskR \<and>
    WaitTaskAndReturnResult envR clientR taskR True RouterDeleting
      (RouterDelete_checker envR clientR (Id' dR)) wRb = (Some (rR, Some eR), wRc) \<longrightarrow>
      resourceRouterDelete envR dR sR =
        (Return (diag_FromErr eR), dR,
         \<lparr>world = wRc,
          calls = calls sR @ [CallCreateClient RouterPoint, CallRoutersDelete (Id' dR),
                              CallWaitTask taskR RouterDeleting]\<rparr>)) \<and>
   (CreateClient envB dB (InstancePoint envB) (VersionPointV1 envB) (world sB) = ((clientB, None), wBa) \<and>
    instances_Delete envB clientB (Id' dB) \<lparr>DeleteFloatings = True\<rparr> wBa = ((resultsB, Some eB), wBb) \<longrightarrow>
      resourceBmInstanceDelete envB dB sB =
        (Return (diag_FromErr eB), dB,
         \<lparr>world = wBb,
          calls = calls sB @ [CallCreateClient (InstancePoint envB), CallInstancesDelete (Id' dB)]\<rparr>)) \<and>
   (CreateClient envB dB (InstancePoint envB) (VersionPointV1 envB) (world sB) = ((clientB, None), wBa) \<and>
    instances_Delete envB clientB (Id' dB) \<lparr>DeleteFloatings = True\<rparr> wBa = ((resultsB, None), wBb) \<and>
    first_task resultsB = Some taskB \<and>
    WaitTaskAndReturnResult envB clientB taskB True BmInstanceDeleting
      (BmInstanceDelete_checker envB clientB (Id' dB)) wBb = (Some (rB, Some eB), wBc) \<longrightarrow>
      resourceBmInstanceDelete envB dB sB =
        (Return (diag_FromErr eB), dB,
         \<lparr>world = wBc,
          calls = calls sB @ [CallCreateClient (InstancePoint envB), CallInstancesDelete (Id' dB),
                              CallWaitTask taskB BmInstanceDeleting]\<rparr>)) \<and>
   (CreateClient envM dM LBPoolsPoint (VersionPointV1 envM) (world sM) = ((clientM, None), wMa) \<and>
    lbpools_DeleteMember envM clientM (as_string (Get dM ''pool_id'')) (Id' dM) wMa =
      ((resultsM, Some eM), wMb) \<longrightarrow>
      resourceLBMemberDelete envM dM sM =
        ((if errors_As_404 eM then Return [] else Return (diag_FromErr eM)),
         (if errors_As_404 eM then SetId dM [] else dM),
         \<lparr>world = wMb,
          calls = calls sM @ [CallCreateClient LBPoolsPoint,
                              CallLbpoolsDeleteMember (as_string (Get dM ''pool_id'')) (Id' dM)]\<rparr>)) \<and>
   (CreateClient envM dM LBPoolsPoint (VersionPointV1 envM) (world sM) = ((clientM, None), wMa) \<and>
    lbpools_DeleteMember envM clientM (as_string (Get dM ''pool_id'')) (Id' dM) wMa =
      ((resultsM, None), wMb) \<and>
    first_task resultsM = Some taskM \<and>
    WaitTaskAndReturnResult envM clientM taskM True LBPoolsCreateTimeout
      (LBMemberDelete_checker envM clientM (as_string (Get dM ''pool_id'')) (Id' dM)) wMb =
      (Some (rM, Some eM), wMc) \<longrightarrow>
      resourceLBMemberDelete envM dM sM =
        (Return (diag_FromErr eM), dM,
         \<lparr>world = wMc,
          calls = calls sM @ [CallCreateClient LBPoolsPoint,
                              CallLbpoolsDeleteMember (as_string (Get dM ''pool_id'')) (Id' dM),
                              CallWaitTask taskM LBPoolsCreateTimeout]\<rparr>)) \<and>
   (CreateClient envP dP LBPoolsPoint (VersionPointV1 envP) (world sP) = ((clientP, None), wPa) \<and>
    lbpools_Delete envP clientP (Id' dP) wPa = ((resultsP, Some eP), wPb) \<and>
    \<not> errors_As_404 eP \<longrightarrow>
      resourceLBPoolDelete envP dP sP =
        (Return (diag_FromErr eP), dP,
         \<lparr>world = wPb,
          calls = calls sP @ [CallCreateClient LBPoolsPoint, CallLbpoolsDelete (Id' dP)]\<rparr>)) \<and>
   (CreateClient envP dP LBPoolsPoint (VersionPointV1 envP) (world sP) = ((clientP, None), wPa) \<and>
    lbpools_Delete envP clientP (Id' dP) wPa = ((resultsP, None), wPb) \<and>
    first_task resultsP = Some taskP \<and>
    WaitTaskAndReturnResult envP clientP taskP True LBPoolsCreateTimeout
      (LBPoolDelete_checker envP clientP (Id' dP)) wPb = (Some (rP, Some eP), wPc) \<longrightarrow>
      resourceLBPoolDelete envP dP sP =
        (Return (diag_FromErr eP), dP,
         \<lparr>world = wPc,
          calls = calls sP @ [CallCreateClient LBPoolsPoint, CallLbpoolsDelete (Id' dP),
                              CallWaitTask taskP LBPoolsCreateTimeout]\<rparr>))"
  by (intro conjI impI; (elim conjE)?; simp add: delete_eval)


theorem delete_errors_propagate_witness:
  "resourceRouterDelete example_routers (example_data ''router-9'') (example_state []) =
     (Return (diag_FromErr Default404Error), example_data ''router-9'',
      \<lparr>world = [], calls = [CallCreateClient ''routers'', CallRoutersDelete ''router-9'']\<rparr>) \<and>
   resourceRouterDelete
     (example_routers\<lparr>routers_Delete := (\<lambda>client id' w. ((example_task ''task-2'', None), w))\<rparr>)
     (example_data ''router-1'') (example_state [''router-1'']) =
     (Return (diag_FromErr (Errorf ''cannot delete router with ID: %s'' [''router-1''])),
      example_data ''router-1'',
      \<lparr>world = [''router-1''],
       calls = [CallCreateClient ''routers'', CallRoutersDelete ''router-1'',
                CallWaitTask ''task-2'' 1200]\<rparr>) \<and>
   resourceBmInstanceDelete example_bminstances (example_data ''bm-9'') (example_state []) =
     (Return (diag_FromErr Default404Error), example_data ''bm-9'',
      \<lparr>world = [], calls = [CallCreateClient ''instances'', CallInstancesDelete ''bm-9'']\<rparr>) \<and>
   resourceBmInstanceDelete
     (example_bminstances\<lparr>instances_Delete := (\<lambda>client id' opts w. ((example_task ''task-2'', None), w))\<rparr>)
     (example_data ''bm-1'') (example_state [''bm-1'']) =
     (Return (diag_FromErr (Errorf ''cannot delete instance with ID: %s'' [''bm-1''])),
      example_data ''bm-1'',
      \<lparr>world = [''bm-1''],
       calls = [CallCreateClient ''instances'', CallInstancesDelete ''bm-1'',
                CallWaitTask ''task-2'' 1200]\<rparr>) \<and>
   resourceLBMemberDelete example_lbpools (example_data ''member-9'') (example_state []) =
     (Return [], SetId (example_data ''member-9'') [],
      \<lparr>world = [], calls = [CallCreateClient ''lbpools'', CallLbpoolsDeleteMember [] ''member-9'']\<rparr>) \<and>
   resourceLBMemberDelete example_lbpools (example_data ''member-1'') (example_state [''member-1'']) =
     (Return (diag_FromErr (Errorf_w ''extracting LBPool resource error: %w'' [] Default404Error)),
      example_data ''member-1'',
      \<lparr>world = [],
       calls = [CallCreateClient ''lbpools'', CallLbpoolsDeleteMember [] ''member-1'',
                CallWaitTask ''task-5'' 2400]\<rparr>) \<and>
   resourceLBPoolDelete
     (example_lbpools\<lparr>lbpools_Delete := (\<lambda>client id' w. ((None, Some (SDKError ''conflict'')), w))\<rparr>)
     (example_data ''pool-1'') (example_state [''pool-1'']) =
     (Return (diag_FromErr (SDKError ''conflict'')), example_data ''pool-1'',
      \<lparr>world = [''pool-1''],
       calls = [CallCreateClient ''lbpools'', CallLbpoolsDelete ''pool-1'']\<rparr>) \<and>
   resourceLBPoolDelete
     (example_lbpools\<lparr>lbpools_Delete := (\<lambda>client id' w. ((example_task ''task-3'', None), w))\<rparr>)
     (example_data ''pool-1'') (example_state [''pool-1'']) =
     (Return (diag_FromErr (Errorf ''cannot delete LBPool with ID: %s'' [''pool-1''])),
      example_data ''pool-1'',
      \<lparr>world = [''pool-1''],
       calls = [CallCreateClient ''lbpools'', CallLbpoolsDelete ''pool-1'',
                CallWaitTask ''task-3'' 2400]\<rparr>)"
proof -
  note ev = example_defs RouterPoint_def LBPoolsPoint_def RouterDeleting_def BmInstanceDeleting_def
    LBPoolsCreateTimeout_def first_task_def RouterDelete_checker_def BmInstanceDelete_checker_def
    LBMemberDelete_checker_def LBPoolDelete_checker_def Get_def
  note T = delete_errors_propagate
    [where envR = example_routers and dR = "example_data ''router-9''" and sR = "example_state []"
      and clientR = "''routers''" and wRa = "[]" and resultsR = None and eR = Default404Error
      and wRb = "[]"
      and envB = example_bminstances and dB = "example_data ''bm-9''" and sB = "example_state []"
      and clientB = "''instances''" and wBa = "[]" and resultsB = None and eB = Default404Error
      and wBb = "[]"
      and envM = example_lbpools and dM = "example_data ''member-9''" and sM = "example_state []"
      and clientM = "''lbpools''" and wMa = "[]" and resultsM = None and eM = Default404Error
      and wMb = "[]"
      and envP = "example_lbpools\<lparr>lbpools_Delete := (\<lambda>client id' w. ((None, Some (SDKError ''conflict'')), w))\<rparr>"
      and dP = "example_data ''pool-1''" and sP = "example_state [''pool-1'']"
      and clientP = "''lbpools''" and wPa = "[''pool-1'']" and resultsP = None
      and eP = "SDKError ''conflict''" and wPb = "[''pool-1'']"]
  note U = delete_errors_propagate
    [where envR = "example_routers\<lparr>routers_Delete := (\<lambda>client id' w. ((example_task ''task-2'', None), w))\<rparr>"
      and dR = "example_data ''router-1''" and sR = "example_state [''router-1'']"
      and clientR = "''routers''" and wRa = "[''router-1'']" and resultsR = "example_task ''task-2''"
      and taskR = "''task-2''" and rR = INil
      and eR = "Errorf ''cannot delete router with ID: %s'' [''router-1'']"
      and wRb = "[''router-1'']" and wRc = "[''router-1'']"
      and envB = "example_bminstances\<lparr>instances_Delete := (\<lambda>client id' opts w. ((example_task ''task-2'', None), w))\<rparr>"
      and dB = "example_data ''bm-1''" and sB = "example_state [''bm-1'']"
      and clientB = "''instances''" and wBa = "[''bm-1'']" and resultsB = "example_task ''task-2''"
      and taskB = "''task-2''" and rB = INil
      and eB = "Errorf ''cannot delete instance with ID: %s'' [''bm-1'']"
      and wBb = "[''bm-1'']" and wBc = "[''bm-1'']"
      and envM = example_lbpools and dM = "example_data ''member-1''" and sM = "example_state [''member-1'']"
      and clientM = "''lbpools''" and wMa = "[''member-1'']" and resultsM = "example_task ''task-5''"
      and taskM = "''task-5''" and rM = INil
      and eM = "Errorf_w ''extracting LBPool resource error: %w'' [] Default404Error"
      and wMb = "[]" and wMc = "[]"
      and envP = "example_lbpools\<lparr>lbpools_Delete := (\<lambda>client id' w. ((example_task ''task-3'', None), w))\<rparr>"
      and dP = "example_data ''pool-1''" and sP = "example_state [''pool-1'']"
      and clientP = "''lbpools''" and wPa = "[''pool-1'']" and resultsP = "example_task ''task-3''"
      and taskP = "''task-3''" and rP = INil
      and eP = "Errorf ''cannot delete LBPool with ID: %s'' [''pool-1'']"
      and wPb = "[''pool-1'']" and wPc = "[''pool-1'']"]
  show ?thesis
    using T U by (simp add: ev)
qed

text \<open>
  C2 as stated fails. In the example cloud the member \<open>member-9\<close> does not exist, so
  \<open>lbpools.DeleteMember\<close> fails with the typed 404: the LB member handler returns no
  diagnostic and clears the ID.
\<close>

theorem delete_404_counterexample:
  "snd (fst (lbpools_DeleteMember example_lbpools ''lbpools'' [] ''member-9'' [])) = Some Default404Error \<and>
   fst (resourceLBMemberDelete example_lbpools (example_data ''member-9'') (example_state [])) = Return [] \<and>
   Id' (fst (snd (resourceLBMemberDelete example_lbpools (example_data ''member-9'')
                    (example_state [])))) = [] \<and>
   Return [] \<noteq> Return (diag_FromErr Default404Error)"
  by (simp add: delete_eval example_defs SetId_def Get_def)

section \<open>Image data source\<close>

lemma find_first_match:
  "\<forall>x \<in> set pre. \<not> P x \<Longrightarrow> P y \<Longrightarrow> find P (pre @ y # post) = Some y"
  by (induction pre) auto

lemma Get_fst_Set_checked:
  "k' \<noteq> k \<Longrightarrow> Get (fst (Set_checked env d k v)) k' = Get d k'"
  by (auto simp: Set_checked_def split: option.splits)

text \<open>
  C10: once the client exists and \<open>images.ListAll\<close> has returned a list, the data source
  takes the first image of the list whose lower-cased name has the lower-cased \<open>name\<close> as a
  prefix: its ID becomes the resource ID and its fields the computed attributes. When no image
  of the list matches, the result is the diagnostic "image with name %s not found" with the
  name, and the resource data (ID and attributes) is unchanged.
\<close>

theorem dataSourceImageRead_first_prefix_match:
  assumes cc: "CreateClient env d (if as_bool (Get d ''is_baremetal'') then bmImagesPoint else ImagesPoint)
                 (VersionPointV1 env) (world s) = ((client, None), wa)"
    and list: "images_ListAll env client (dataSourceImageRead_listOpts d) wa = ((allImages, None), wb)"
  shows "((\<forall>img \<in> set allImages.
             \<not> strings_HasPrefix (strings_ToLower env (Image.Name img))
                 (strings_ToLower env (as_string (Get d ''name'')))) \<longrightarrow>
          dataSourceImageRead env d s =
            (Return (diag_Errorf ''image with name %s not found'' [ArgS (as_string (Get d ''name''))]), d,
             \<lparr>world = wb,
              calls = calls s @ [CallCreateClient (if as_bool (Get d ''is_baremetal'')
                                                   then bmImagesPoint else ImagesPoint),
                                 CallImagesListAll]\<rparr>)) \<and>
         (allImages = pre @ img # post \<and>
          (\<forall>x \<in> set pre.
             \<not> strings_HasPrefix (strings_ToLower env (Image.Name x))
                 (strings_ToLower env (as_string (Get d ''name'')))) \<and>
          strings_HasPrefix (strings_ToLower env (Image.Name img))
            (strings_ToLower env (as_string (Get d ''name''))) \<longrightarrow>
          (let d' = fst (snd (dataSourceImageRead env d s))
           in Id' d' = Image.ID img \<and>
              Get d' ''min_disk'' = VInt (MinDisk img) \<and>
              Get d' ''min_ram'' = VInt (MinRAM img) \<and>
              Get d' ''os_distro'' = VStr (OsDistro img) \<and>
              Get d' ''os_version'' = VStr (OsVersion img) \<and>
              Get d' ''description'' = VStr (Description img)))"
proof (intro conjI impI)
  assume "\<forall>img \<in> set allImages.
             \<not> strings_HasPrefix (strings_ToLower env (Image.Name img))
                 (strings_ToLower env (as_string (Get d ''name'')))"
  then have "find_image env (as_string (Get d ''name'')) allImages = None"
    by (simp add: find_image_def find_None_iff)
  then show "dataSourceImageRead env d s =
            (Return (diag_Errorf ''image with name %s not found'' [ArgS (as_string (Get d ''name''))]), d,
             \<lparr>world = wb,
              calls = calls s @ [CallCreateClient (if as_bool (Get d ''is_baremetal'')
                                                   then bmImagesPoint else ImagesPoint),
                                 CallImagesListAll]\<rparr>)"
    using cc list by (simp add: dataSourceImageRead_def Let_def call_def)
next
  assume a: "allImages = pre @ img # post \<and>
          (\<forall>x \<in> set pre.
             \<not> strings_HasPrefix (strings_ToLower env (Image.Name x))
                 (strings_ToLower env (as_string (Get d ''name'')))) \<and>
          strings_HasPrefix (strings_ToLower env (Image.Name img))
            (strings_ToLower env (as_string (Get d ''name'')))"
  then have f: "find_image env (as_string (Get d ''name'')) allImages = Some img"
    unfolding find_image_def by (simp add: find_first_match)
  show "let d' = fst (snd (dataSourceImageRead env d s))
           in Id' d' = Image.ID img \<and>
              Get d' ''min_disk'' = VInt (MinDisk img) \<and>
              Get d' ''min_ram'' = VInt (MinRAM img) \<and>
              Get d' ''os_distro'' = VStr (OsDistro img) \<and>
              Get d' ''os_version'' = VStr (OsVersion img) \<and>
              Get d' ''description'' = VStr (Description img)"
    using cc list f
    by (auto simp: dataSourceImageRead_def Let_def call_def Set_checked_def
        split: prod.splits option.splits)
qed

theorem dataSourceImageRead_first_prefix_match_witness:
  "(let d = (example_data [])\<lparr>attrs := (\<lambda>k. VNil)(''name'' := VStr ''UBU'')\<rparr>;
        d' = fst (snd (dataSourceImageRead example_images d (example_state [])))
    in Id' d' = ''img-2'' \<and> Get d' ''os_version'' = VStr ''22.04'') \<and>
   (let d = (example_data [])\<lparr>attrs := (\<lambda>k. VNil)(''name'' := VStr ''centos'')\<rparr>
    in dataSourceImageRead example_images d (example_state []) =
         (Return (diag_Errorf ''image with name %s not found'' [ArgS ''centos'']), d,
          \<lparr>world = [], calls = [CallCreateClient ''images'', CallImagesListAll]\<rparr>))"
proof -
  let ?d = "(example_data [])\<lparr>attrs := (\<lambda>k. VNil)(''name'' := VStr ''UBU'')\<rparr>"
  let ?c = "(example_data [])\<lparr>attrs := (\<lambda>k. VNil)(''name'' := VStr ''centos'')\<rparr>"
  note ev = example_defs Get_def ImagesPoint_def bmImagesPoint_def strings_HasPrefix_def
  have 1: "Id' (fst (snd (dataSourceImageRead example_images ?d (example_state [])))) = ''img-2'' \<and>
    Get (fst (snd (dataSourceImageRead example_images ?d (example_state [])))) ''os_version'' = VStr ''22.04''"
    using dataSourceImageRead_first_prefix_match
      [where env = example_images and d = ?d and s = "example_state []" and client = "''images''"
        and wa = "[]" and wb = "[]"
        and allImages = "[example_image ''img-1'' ''Debian-12'', example_image ''img-2'' ''Ubuntu-22.04'',
              example_image ''img-3'' ''ubuntu-20.04'']"
        and pre = "[example_image ''img-1'' ''Debian-12'']"
        and img = "example_image ''img-2'' ''Ubuntu-22.04''"
        and post = "[example_image ''img-3'' ''ubuntu-20.04'']"]
    by (simp add: ev Let_def)
  have 2: "dataSourceImageRead example_images ?c (example_state []) =
         (Return (diag_Errorf ''image with name %s not found'' [ArgS ''centos'']), ?c,
          \<lparr>world = [], calls = [CallCreateClient ''images'', CallImagesListAll]\<rparr>)"
    using dataSourceImageRead_first_prefix_match
      [where env = example_images and d = ?c and s = "example_state []" and client = "''images''"
        and wa = "[]" and wb = "[]"
        and allImages = "[example_image ''img-1'' ''Debian-12'', example_image ''img-2'' ''Ubuntu-22.04'',
              example_image ''img-3'' ''ubuntu-20.04'']"]
    by (simp add: ev)
  show ?thesis unfolding Let_def using 1 2 by simp
qed

section \<open>Router update: the interfaces\<close>












lemma count_attach_in_detach [simp]:
  "count_list (map (\<lambda>n. CallRoutersDetach rid (g n)) xs) (CallRoutersAttach rid' x) = 0"
  by (induction xs) auto

lemma count_detach_in_attach [simp]:
  "count_list (map (\<lambda>n. CallRoutersAttach rid (g n)) xs) (CallRoutersDetach rid' x) = 0"
  by (induction xs) auto













section \<open>Create handlers\<close>

lemma drop_diags_Id' [simp]: "Id' (fst (snd (drop_diags r))) = Id' (fst (snd r))"
  by (cases r; cases "fst r") (auto simp: drop_diags_def)

lemma drop_diags_outcome: "fst (drop_diags r) = Return [] \<or> fst (drop_diags r) = Panic"
  by (cases r; cases "fst r") (auto simp: drop_diags_def)

lemma fold_LBMemberRead_member_Id' [simp]:
  "Id' (fold (LBMemberRead_member mid) members d) = Id' d"
  by (induction members arbitrary: d) (simp_all add: LBMemberRead_member_def Let_def)

lemma resourceLBMemberRead_Id':
  assumes "revertState_frame env" and "resourceLBMemberRead env d s = (r, d', s')"
  shows "Id' d' = Id' d"
  using assms
  by (auto simp: resourceLBMemberRead_def revertState_frame_def Let_def split: option.splits prod.splits)

lemma RouterRead_gateway_Id':
  "RouterRead_gateway env router d = (d', r) \<Longrightarrow> Id' d' = Id' d"
  by (auto simp: RouterRead_gateway_def Let_def split: if_splits option.splits prod.splits)

lemma resourceRouterRead_Id':
  assumes "resourceRouterRead env d s = (r, d', s')"
  shows "Id' d' = Id' d"
  using assms
  by (auto simp: resourceRouterRead_def Let_def split: option.splits prod.splits
      dest!: RouterRead_gateway_Id' Set_checked_Id')

lemma BmInstanceRead_instance_Id' [simp]: "Id' (BmInstanceRead_instance env instance d) = Id' d"
  by (simp add: BmInstanceRead_instance_def Let_def)

lemma BmInstanceRead_tail_Id':
  assumes "revertState_frame env" and "BmInstanceRead_tail env client instanceID instance d s = (r, d', s')"
  shows "Id' d' = Id' d"
  using assms
  by (auto simp: BmInstanceRead_tail_def revertState_frame_def Let_def GetOk_def
      split: option.splits prod.splits sum.splits if_splits bool.splits dest!: Set_checked_Id')

lemma resourceBmInstanceRead_Id':
  assumes "revertState_frame env" and "resourceBmInstanceRead env d s = (r, d', s')"
  shows "Id' d' = Id' d"
  using assms
  by (auto simp: resourceBmInstanceRead_def Let_def split: option.splits prod.splits if_splits
      dest!: Set_checked_Id' BmInstanceRead_tail_Id')


lemma read_keeps_Id':
  "revertState_frame envP \<Longrightarrow> Id' (fst (snd (resourceLBPoolRead envP d sP))) = Id' d"
  "revertState_frame envM \<Longrightarrow> Id' (fst (snd (resourceLBMemberRead envM d sM))) = Id' d"
  "Id' (fst (snd (resourceRouterRead envR d sR))) = Id' d"
  "revertState_frame envB \<Longrightarrow> Id' (fst (snd (resourceBmInstanceRead envB d sB))) = Id' d"
  using resourceLBPoolRead_Id' [of envP d sP] resourceLBMemberRead_Id' [of envM d sM]
    resourceRouterRead_Id' [of envR d sR] resourceBmInstanceRead_Id' [of envB d sB]
  by (metis prod.collapse)+

lemmas create_eval =
  resourceLBPoolCreate_def resourceLBMemberCreate_def resourceRouterCreate_def
  resourceBmInstanceCreate_def LBPoolCreate_checker_def LBMemberCreate_checker_def
  RouterCreate_checker_def BmInstanceCreate_checker_def first_task_def call_def

text \<open>
  C1: for each of the four create handlers (LB pool, router, LB member, baremetal instance),
  once the client exists and the options are built:
  an error of the SDK create call is returned as the diagnostic, with the resource data
  unchanged and no further call;
  when the create call succeeds the handler waits for the first task of \<open>results.Tasks\<close>
  with the handler's fixed timeout and its checker, and an error of the wait is returned as the
  diagnostic, again with the resource data unchanged;
  when the wait returns an ID, that ID is the resource ID at the end of the handler (the helper
  \<open>revertState\<close> of the read that follows is assumed to leave the ID alone), and the handler
  returns no diagnostic unless the read panics;
  the checker returns the ID that the SDK extracts from the task that \<open>tasks.Get\<close> returns.
\<close>

theorem create_sets_id_from_task:
  "(CreateClient envP dP LBPoolsPoint (VersionPointV1 envP) (world sP) = ((clientP, None), wPa) \<and>
    lbpools_Create envP clientP (LBPoolCreate_opts envP dP) wPa = ((resultsP, Some eP), wPb) \<longrightarrow>
      resourceLBPoolCreate envP dP sP =
        (Return (diag_FromErr eP), dP,
         \<lparr>world = wPb, calls = calls sP @ [CallCreateClient LBPoolsPoint, CallLbpoolsCreate]\<rparr>)) \<and>
   (CreateClient envP dP LBPoolsPoint (VersionPointV1 envP) (world sP) = ((clientP, None), wPa) \<and>
    lbpools_Create envP clientP (LBPoolCreate_opts envP dP) wPa = ((Some \<lparr>Tasks = taskP # restP\<rparr>, None), wPb) \<and>
    WaitTaskAndReturnResult envP clientP taskP True LBPoolsCreateTimeout (LBPoolCreate_checker envP clientP) wPb =
      (Some (vP, Some eP), wPc) \<longrightarrow>
      resourceLBPoolCreate envP dP sP =
        (Return (diag_FromErr eP), dP,
         \<lparr>world = wPc,
          calls = calls sP @ [CallCreateClient LBPoolsPoint, CallLbpoolsCreate, CallWaitTask taskP LBPoolsCreateTimeout]\<rparr>)) \<and>
   (revertState_frame envP \<and>
    CreateClient envP dP LBPoolsPoint (VersionPointV1 envP) (world sP) = ((clientP, None), wPa) \<and>
    lbpools_Create envP clientP (LBPoolCreate_opts envP dP) wPa = ((Some \<lparr>Tasks = taskP # restP\<rparr>, None), wPb) \<and>
    WaitTaskAndReturnResult envP clientP taskP True LBPoolsCreateTimeout (LBPoolCreate_checker envP clientP) wPb =
      (Some (IStr idP, None), wPc) \<longrightarrow>
      Id' (fst (snd (resourceLBPoolCreate envP dP sP))) = idP \<and>
      (fst (resourceLBPoolCreate envP dP sP) = Return [] \<or> fst (resourceLBPoolCreate envP dP sP) = Panic)) \<and>
   (tasks_Get envP clientP taskP wPd = ((infoP, None), wPe) \<and>
    ExtractPoolIDFromTask envP infoP = (idP, None) \<longrightarrow>
      LBPoolCreate_checker envP clientP taskP wPd = (Some (IStr idP, None), wPe)) \<and>
   (CreateClient envR dR RouterPoint (VersionPointV1 envR) (world sR) = ((clientR, None), wRa) \<and>
    RouterCreate_opts envR dR = Inr optsR \<and>
    routers_Create envR clientR optsR wRa = ((resultsR, Some eR), wRb) \<longrightarrow>
      resourceRouterCreate envR dR sR =
        (Return (diag_FromErr eR), dR,
         \<lparr>world = wRb, calls = calls sR @ [CallCreateClient RouterPoint, CallRoutersCreate]\<rparr>)) \<and>
   (CreateClient envR dR RouterPoint (VersionPointV1 envR) (world sR) = ((clientR, None), wRa) \<and>
    RouterCreate_opts envR dR = Inr optsR \<and>
    routers_Create envR clientR optsR wRa = ((Some \<lparr>Tasks = taskR # restR\<rparr>, None), wRb) \<and>
    WaitTaskAndReturnResult envR clientR taskR True RouterCreatingTimeout (RouterCreate_checker envR clientR) wRb =
      (Some (vR, Some eR), wRc) \<longrightarrow>
      resourceRouterCreate envR dR sR =
        (Return (diag_FromErr eR), dR,
         \<lparr>world = wRc,
          calls = calls sR @ [CallCreateClient RouterPoint, CallRoutersCreate, CallWaitTask taskR RouterCreatingTimeout]\<rparr>)) \<and>
   (CreateClient envR dR RouterPoint (VersionPointV1 envR) (world sR) = ((clientR, None), wRa) \<and>
    RouterCreate_opts envR dR = Inr optsR \<and>
    routers_Create envR clientR optsR wRa = ((Some \<lparr>Tasks = taskR # restR\<rparr>, None), wRb) \<and>
    WaitTaskAndReturnResult envR clientR taskR True RouterCreatingTimeout (RouterCreate_checker envR clientR) wRb =
      (Some (IStr idR, None), wRc) \<longrightarrow>
      Id' (fst (snd (resourceRouterCreate envR dR sR))) = idR \<and>
      (fst (resourceRouterCreate envR dR sR) = Return [] \<or> fst (resourceRouterCreate envR dR sR) = Panic)) \<and>
   (tasks_Get envR clientR taskR wRd = ((infoR, None), wRe) \<and>
    ExtractRouterIDFromTask envR infoR = (idR, None) \<longrightarrow>
      RouterCreate_checker envR clientR taskR wRd = (Some (IStr idR, None), wRe)) \<and>
   (CreateClient envM dM LBPoolsPoint (VersionPointV1 envM) (world sM) = ((clientM, None), wMa) \<and>
    lbpools_CreateMember envM clientM (as_string (Get dM ''pool_id''))
      (LBMemberCreate_opts envM dM) wMa = ((resultsM, Some eM), wMb) \<longrightarrow>
      resourceLBMemberCreate envM dM sM =
        (Return (diag_FromErr eM), dM,
         \<lparr>world = wMb, calls = calls sM @ [CallCreateClient LBPoolsPoint, CallLbpoolsCreateMember (as_string (Get dM ''pool_id''))]\<rparr>)) \<and>
   (CreateClient envM dM LBPoolsPoint (VersionPointV1 envM) (world sM) = ((clientM, None), wMa) \<and>
    lbpools_CreateMember envM clientM (as_string (Get dM ''pool_id''))
      (LBMemberCreate_opts envM dM) wMa = ((Some \<lparr>Tasks = taskM # restM\<rparr>, None), wMb) \<and>
    WaitTaskAndReturnResult envM clientM taskM True LBPoolsCreateTimeout (LBMemberCreate_checker envM clientM) wMb =
      (Some (vM, Some eM), wMc) \<longrightarrow>
      resourceLBMemberCreate envM dM sM =
        (Return (diag_FromErr eM), dM,
         \<lparr>world = wMc,
          calls = calls sM @ [CallCreateClient LBPoolsPoint, CallLbpoolsCreateMember (as_string (Get dM ''pool_id'')), CallWaitTask taskM LBPoolsCreateTimeout]\<rparr>)) \<and>
   (revertState_frame envM \<and>
    CreateClient envM dM LBPoolsPoint (VersionPointV1 envM) (world sM) = ((clientM, None), wMa) \<and>
    lbpools_CreateMember envM clientM (as_string (Get dM ''pool_id''))
      (LBMemberCreate_opts envM dM) wMa = ((Some \<lparr>Tasks = taskM # restM\<rparr>, None), wMb) \<and>
    WaitTaskAndReturnResult envM clientM taskM True LBPoolsCreateTimeout (LBMemberCreate_checker envM clientM) wMb =
      (Some (IStr idM, None), wMc) \<longrightarrow>
      Id' (fst (snd (resourceLBMemberCreate envM dM sM))) = idM \<and>
      (fst (resourceLBMemberCreate envM dM sM) = Return [] \<or> fst (resourceLBMemberCreate envM dM sM) = Panic)) \<and>
   (tasks_Get envM clientM taskM wMd = ((infoM, None), wMe) \<and>
    ExtractPoolMemberIDFromTask envM infoM = (idM, None) \<longrightarrow>
      LBMemberCreate_checker envM clientM taskM wMd = (Some (IStr idM, None), wMe)) \<and>
   (CreateClient envB dB BmInstancePoint (VersionPointV1 envB) (world sB) = ((clientB, None), wBa) \<and>
    BmInstanceCreate_opts envB dB = Inr optsB \<and>
    bminstances_Create envB clientB optsB wBa = ((resultsB, Some eB), wBb) \<longrightarrow>
      resourceBmInstanceCreate envB dB sB =
        (Return (diag_FromErr eB), dB,
         \<lparr>world = wBb, calls = calls sB @ [CallCreateClient BmInstancePoint, CallBminstancesCreate]\<rparr>)) \<and>
   (CreateClient envB dB BmInstancePoint (VersionPointV1 envB) (world sB) = ((clientB, None), wBa) \<and>
    BmInstanceCreate_opts envB dB = Inr optsB \<and>
    bminstances_Create envB clientB optsB wBa = ((Some \<lparr>Tasks = taskB # restB\<rparr>, None), wBb) \<and>
    WaitTaskAndReturnResult envB clientB taskB True BmInstanceCreatingTimeout (BmInstanceCreate_checker envB clientB) wBb =
      (Some (vB, Some eB), wBc) \<longrightarrow>
      resourceBmInstanceCreate envB dB sB =
        (Return (diag_FromErr eB), dB,
         \<lparr>world = wBc,
          calls = calls sB @ [CallCreateClient BmInstancePoint, CallBminstancesCreate, CallWaitTask taskB BmInstanceCreatingTimeout]\<rparr>)) \<and>
   (revertState_frame envB \<and>
    CreateClient envB dB BmInstancePoint (VersionPointV1 envB) (world sB) = ((clientB, None), wBa) \<and>
    BmInstanceCreate_opts envB dB = Inr optsB \<and>
    bminstances_Create envB clientB optsB wBa = ((Some \<lparr>Tasks = taskB # restB\<rparr>, None), wBb) \<and>
    WaitTaskAndReturnResult envB clientB taskB True BmInstanceCreatingTimeout (BmInstanceCreate_checker envB clientB) wBb =
      (Some (IStr idB, None), wBc) \<longrightarrow>
      Id' (fst (snd (resourceBmInstanceCreate envB dB sB))) = idB \<and>
      (fst (resourceBmInstanceCreate envB dB sB) = Return [] \<or> fst (resourceBmInstanceCreate envB dB sB) = Panic)) \<and>
   (tasks_Get envB clientB taskB wBd = ((infoB, None), wBe) \<and>
    ExtractInstanceIDFromTask envB infoB = (idB, None) \<longrightarrow>
      BmInstanceCreate_checker envB clientB taskB wBd = (Some (IStr idB, None), wBe))"
  by (intro conjI impI; (elim conjE)?;
      simp add: create_eval read_keeps_Id' drop_diags_outcome split: iface.splits)


theorem create_sets_id_from_task_witness:
  "Id' (fst (snd (resourceLBPoolCreate example_lbpools (example_data []) (example_state [])))) = ''pool-1'' \<and>
   Id' (fst (snd (resourceRouterCreate example_routers (example_data []) (example_state [])))) = ''router-1'' \<and>
   Id' (fst (snd (resourceLBMemberCreate example_lbpools (example_change [] ''pool_id'' VNil (VStr ''pool-1'')) (example_state [''pool-1''])))) = ''member-1'' \<and>
   Id' (fst (snd (resourceBmInstanceCreate example_bminstances (example_data []) (example_state [])))) = ''bm-1'' \<and>
   resourceLBPoolCreate
     (example_lbpools\<lparr>lbpools_Create := (\<lambda>client opts w. ((None, Some (SDKError ''quota exceeded'')), w))\<rparr>)
     (example_data []) (example_state []) =
     (Return (diag_FromErr (SDKError ''quota exceeded'')), example_data [],
      \<lparr>world = [], calls = [CallCreateClient ''lbpools'', CallLbpoolsCreate]\<rparr>) \<and>
   resourceRouterCreate
     (example_routers\<lparr>routers_Create := (\<lambda>client opts w. ((None, Some (SDKError ''quota exceeded'')), w))\<rparr>)
     (example_data []) (example_state []) =
     (Return (diag_FromErr (SDKError ''quota exceeded'')), example_data [],
      \<lparr>world = [], calls = [CallCreateClient ''routers'', CallRoutersCreate]\<rparr>) \<and>
   resourceLBMemberCreate
     (example_lbpools\<lparr>lbpools_CreateMember := (\<lambda>client pid opts w. ((None, Some (SDKError ''quota exceeded'')), w))\<rparr>)
     (example_change [] ''pool_id'' VNil (VStr ''pool-1'')) (example_state [''pool-1'']) =
     (Return (diag_FromErr (SDKError ''quota exceeded'')), example_change [] ''pool_id'' VNil (VStr ''pool-1''),
      \<lparr>world = [''pool-1''], calls = [CallCreateClient ''lbpools'', CallLbpoolsCreateMember ''pool-1'']\<rparr>) \<and>
   resourceBmInstanceCreate
     (example_bminstances\<lparr>bminstances_Create := (\<lambda>client opts w. ((None, Some (SDKError ''quota exceeded'')), w))\<rparr>)
     (example_data []) (example_state []) =
     (Return (diag_FromErr (SDKError ''quota exceeded'')), example_data [],
      \<lparr>world = [], calls = [CallCreateClient ''bminstances'', CallBminstancesCreate]\<rparr>) \<and>
   resourceLBPoolCreate
     (example_lbpools\<lparr>ExtractPoolIDFromTask := (\<lambda>t. ([], Some (SDKError ''no resource in task'')))\<rparr>)
     (example_data []) (example_state []) =
     (Return (diag_FromErr (Errorf_w ''cannot retrieve LBPool ID from task info: %w'' [] (SDKError ''no resource in task''))), example_data [],
      \<lparr>world = [''pool-1''], calls = [CallCreateClient ''lbpools'', CallLbpoolsCreate, CallWaitTask ''task-1'' 2400]\<rparr>) \<and>
   resourceRouterCreate
     (example_routers\<lparr>ExtractRouterIDFromTask := (\<lambda>t. ([], Some (SDKError ''no resource in task'')))\<rparr>)
     (example_data []) (example_state []) =
     (Return (diag_FromErr (Errorf_w ''cannot retrieve Router ID from task info: %w'' [] (SDKError ''no resource in task''))), example_data [],
      \<lparr>world = [''router-1''], calls = [CallCreateClient ''routers'', CallRoutersCreate, CallWaitTask ''task-1'' 1200]\<rparr>) \<and>
   resourceLBMemberCreate
     (example_lbpools\<lparr>ExtractPoolMemberIDFromTask := (\<lambda>t. ([], Some (SDKError ''no resource in task'')))\<rparr>)
     (example_change [] ''pool_id'' VNil (VStr ''pool-1'')) (example_state [''pool-1'']) =
     (Return (diag_FromErr (Errorf_w ''cannot retrieve LBMember ID from task info: %w'' [] (SDKError ''no resource in task''))), example_change [] ''pool_id'' VNil (VStr ''pool-1''),
      \<lparr>world = [''member-1'', ''pool-1''], calls = [CallCreateClient ''lbpools'', CallLbpoolsCreateMember ''pool-1'', CallWaitTask ''task-4'' 2400]\<rparr>) \<and>
   resourceBmInstanceCreate
     (example_bminstances\<lparr>ExtractInstanceIDFromTask := (\<lambda>t. ([], Some (SDKError ''no resource in task'')))\<rparr>)
     (example_data []) (example_state []) =
     (Return (diag_FromErr (Errorf_w ''cannot retrieve Instance ID from task info: %w'' [] (SDKError ''no resource in task''))), example_data [],
      \<lparr>world = [''bm-1''], calls = [CallCreateClient ''bminstances'', CallBminstancesCreate, CallWaitTask ''task-1'' 3600]\<rparr>) \<and>
   LBPoolCreate_checker example_lbpools ''lbpools'' ''task-1'' [''pool-1''] = (Some (IStr ''pool-1'', None), [''pool-1''])"
proof -
  note ev = example_defs LBPoolsPoint_def RouterPoint_def BmInstancePoint_def LBPoolsCreateTimeout_def
    RouterCreatingTimeout_def BmInstanceCreatingTimeout_def LBPoolCreate_checker_def
    LBMemberCreate_checker_def RouterCreate_checker_def BmInstanceCreate_checker_def
    LBPoolCreate_opts_def LBMemberCreate_opts_def RouterCreate_opts_def BmInstanceCreate_opts_def
    BmInstanceCreate_metadata_def BmInstanceCreate_nameTemplates_def revertState_frame_def
    Get_def GetOk_def Let_def
  note T = create_sets_id_from_task
    [where envP = "example_lbpools"
      and dP = "example_data []"
      and sP = "example_state []"
      and clientP = "''lbpools''"
      and wPa = "[]"
      and taskP = "''task-1''"
      and restP = "[]"
      and wPb = "[''pool-1'']"
      and wPc = "[''pool-1'']"
      and idP = "''pool-1''"
      and wPd = "[''pool-1'']"
      and wPe = "[''pool-1'']"
      and infoP = "''task-1''"
      and envR = "example_routers"
      and dR = "example_data []"
      and sR = "example_state []"
      and clientR = "''routers''"
      and wRa = "[]"
      and optsR = "\<lparr>routers_CreateOpts.Name = [], routers_CreateOpts.ExternalGatewayInfo = None, routers_CreateOpts.Interfaces = [], routers_CreateOpts.Routes = []\<rparr>"
      and taskR = "''task-1''"
      and restR = "[]"
      and wRb = "[''router-1'']"
      and wRc = "[''router-1'']"
      and idR = "''router-1''"
      and wRd = "[''router-1'']"
      and wRe = "[''router-1'']"
      and infoR = "''task-1''"
      and envM = "example_lbpools"
      and dM = "example_change [] ''pool_id'' VNil (VStr ''pool-1'')"
      and sM = "example_state [''pool-1'']"
      and clientM = "''lbpools''"
      and wMa = "[''pool-1'']"
      and taskM = "''task-4''"
      and restM = "[]"
      and wMb = "[''member-1'', ''pool-1'']"
      and wMc = "[''member-1'', ''pool-1'']"
      and idM = "''member-1''"
      and wMd = "[''member-1'', ''pool-1'']"
      and wMe = "[''member-1'', ''pool-1'']"
      and infoM = "''task-4''"
      and envB = "example_bminstances"
      and dB = "example_data []"
      and sB = "example_state []"
      and clientB = "''bminstances''"
      and wBa = "[]"
      and optsB = "\<lparr>bminstances_CreateOpts.Flavor = [], ImageID = [], AppTemplateID = [], Keypair = [], Password = [], Username = [], UserData = [], AppConfig = [], bminstances_CreateOpts.Interfaces = [], Names = [], NameTemplates = [], bminstances_CreateOpts.Metadata = None\<rparr>"
      and taskB = "''task-1''"
      and restB = "[]"
      and wBb = "[''bm-1'']"
      and wBc = "[''bm-1'']"
      and idB = "''bm-1''"
      and wBd = "[''bm-1'']"
      and wBe = "[''bm-1'']"
      and infoB = "''task-1''"]
  note U = create_sets_id_from_task
    [where envP = "(example_lbpools\<lparr>lbpools_Create := (\<lambda>client opts w. ((None, Some (SDKError ''quota exceeded'')), w))\<rparr>)"
      and dP = "example_data []"
      and sP = "example_state []"
      and clientP = "''lbpools''"
      and wPa = "[]"
      and resultsP = None
      and eP = "SDKError ''quota exceeded''"
      and wPb = "[]"
      and envR = "(example_routers\<lparr>routers_Create := (\<lambda>client opts w. ((None, Some (SDKError ''quota exceeded'')), w))\<rparr>)"
      and dR = "example_data []"
      and sR = "example_state []"
      and clientR = "''routers''"
      and wRa = "[]"
      and optsR = "\<lparr>routers_CreateOpts.Name = [], routers_CreateOpts.ExternalGatewayInfo = None, routers_CreateOpts.Interfaces = [], routers_CreateOpts.Routes = []\<rparr>"
      and resultsR = None
      and eR = "SDKError ''quota exceeded''"
      and wRb = "[]"
      and envM = "(example_lbpools\<lparr>lbpools_CreateMember := (\<lambda>client pid opts w. ((None, Some (SDKError ''quota exceeded'')), w))\<rparr>)"
      and dM = "example_change [] ''pool_id'' VNil (VStr ''pool-1'')"
      and sM = "example_state [''pool-1'']"
      and clientM = "''lbpools''"
      and wMa = "[''pool-1'']"
      and resultsM = None
      and eM = "SDKError ''quota exceeded''"
      and wMb = "[''pool-1'']"
      and envB = "(example_bminstances\<lparr>bminstances_Create := (\<lambda>client opts w. ((None, Some (SDKError ''quota exceeded'')), w))\<rparr>)"
      and dB = "example_data []"
      and sB = "example_state []"
      and clientB = "''bminstances''"
      and wBa = "[]"
      and optsB = "\<lparr>bminstances_CreateOpts.Flavor = [], ImageID = [], AppTemplateID = [], Keypair = [], Password = [], Username = [], UserData = [], AppConfig = [], bminstances_CreateOpts.Interfaces = [], Names = [], NameTemplates = [], bminstances_CreateOpts.Metadata = None\<rparr>"
      and resultsB = None
      and eB = "SDKError ''quota exceeded''"
      and wBb = "[]"]
  note V = create_sets_id_from_task
    [where envP = "(example_lbpools\<lparr>ExtractPoolIDFromTask := (\<lambda>t. ([], Some (SDKError ''no resource in task'')))\<rparr>)"
      and dP = "example_data []"
      and sP = "example_state []"
      and clientP = "''lbpools''"
      and wPa = "[]"
      and taskP = "''task-1''"
      and restP = "[]"
      and wPb = "[''pool-1'']"
      and wPc = "[''pool-1'']"
      and vP = INil
      and eP = "Errorf_w ''cannot retrieve LBPool ID from task info: %w'' [] (SDKError ''no resource in task'')"
      and envR = "(example_routers\<lparr>ExtractRouterIDFromTask := (\<lambda>t. ([], Some (SDKError ''no resource in task'')))\<rparr>)"
      and dR = "example_data []"
      and sR = "example_state []"
      and clientR = "''routers''"
      and wRa = "[]"
      and optsR = "\<lparr>routers_CreateOpts.Name = [], routers_CreateOpts.ExternalGatewayInfo = None, routers_CreateOpts.Interfaces = [], routers_CreateOpts.Routes = []\<rparr>"
      and taskR = "''task-1''"
      and restR = "[]"
      and wRb = "[''router-1'']"
      and wRc = "[''router-1'']"
      and vR = INil
      and eR = "Errorf_w ''cannot retrieve Router ID from task info: %w'' [] (SDKError ''no resource in task'')"
      and envM = "(example_lbpools\<lparr>ExtractPoolMemberIDFromTask := (\<lambda>t. ([], Some (SDKError ''no resource in task'')))\<rparr>)"
      and dM = "example_change [] ''pool_id'' VNil (VStr ''pool-1'')"
      and sM = "example_state [''pool-1'']"
      and clientM = "''lbpools''"
      and wMa = "[''pool-1'']"
      and taskM = "''task-4''"
      and restM = "[]"
      and wMb = "[''member-1'', ''pool-1'']"
      and wMc = "[''member-1'', ''pool-1'']"
      and vM = INil
      and eM = "Errorf_w ''cannot retrieve LBMember ID from task info: %w'' [] (SDKError ''no resource in task'')"
      and envB = "(example_bminstances\<lparr>ExtractInstanceIDFromTask := (\<lambda>t. ([], Some (SDKError ''no resource in task'')))\<rparr>)"
      and dB = "example_data []"
      and sB = "example_state []"
      and clientB = "''bminstances''"
      and wBa = "[]"
      and optsB = "\<lparr>bminstances_CreateOpts.Flavor = [], ImageID = [], AppTemplateID = [], Keypair = [], Password = [], Username = [], UserData = [], AppConfig = [], bminstances_CreateOpts.Interfaces = [], Names = [], NameTemplates = [], bminstances_CreateOpts.Metadata = None\<rparr>"
      and taskB = "''task-1''"
      and restB = "[]"
      and wBb = "[''bm-1'']"
      and wBc = "[''bm-1'']"
      and vB = INil
      and eB = "Errorf_w ''cannot retrieve Instance ID from task info: %w'' [] (SDKError ''no resource in task'')"]
  have t: "Id' (fst (snd (resourceLBPoolCreate example_lbpools (example_data []) (example_state [])))) = ''pool-1'' \<and>
   Id' (fst (snd (resourceRouterCreate example_routers (example_data []) (example_state [])))) = ''router-1'' \<and>
   Id' (fst (snd (resourceLBMemberCreate example_lbpools (example_change [] ''pool_id'' VNil (VStr ''pool-1'')) (example_state [''pool-1''])))) = ''member-1'' \<and>
   Id' (fst (snd (resourceBmInstanceCreate example_bminstances (example_data []) (example_state [])))) = ''bm-1'' \<and>
   LBPoolCreate_checker example_lbpools ''lbpools'' ''task-1'' [''pool-1''] = (Some (IStr ''pool-1'', None), [''pool-1''])"
    using T by (simp add: ev)
  have u: "resourceLBPoolCreate
     (example_lbpools\<lparr>lbpools_Create := (\<lambda>client opts w. ((None, Some (SDKError ''quota exceeded'')), w))\<rparr>)
     (example_data []) (example_state []) =
     (Return (diag_FromErr (SDKError ''quota exceeded'')), example_data [],
      \<lparr>world = [], calls = [CallCreateClient ''lbpools'', CallLbpoolsCreate]\<rparr>) \<and>
   resourceRouterCreate
     (example_routers\<lparr>routers_Create := (\<lambda>client opts w. ((None, Some (SDKError ''quota exceeded'')), w))\<rparr>)
     (example_data []) (example_state []) =
     (Return (diag_FromErr (SDKError ''quota exceeded'')), example_data [],
      \<lparr>world = [], calls = [CallCreateClient ''routers'', CallRoutersCreate]\<rparr>) \<and>
   resourceLBMemberCreate
     (example_lbpools\<lparr>lbpools_CreateMember := (\<lambda>client pid opts w. ((None, Some (SDKError ''quota exceeded'')), w))\<rparr>)
     (example_change [] ''pool_id'' VNil (VStr ''pool-1'')) (example_state [''pool-1'']) =
     (Return (diag_FromErr (SDKError ''quota exceeded'')), example_change [] ''pool_id'' VNil (VStr ''pool-1''),
      \<lparr>world = [''pool-1''], calls = [CallCreateClient ''lbpools'', CallLbpoolsCreateMember ''pool-1'']\<rparr>) \<and>
   resourceBmInstanceCreate
     (example_bminstances\<lparr>bminstances_Create := (\<lambda>client opts w. ((None, Some (SDKError ''quota exceeded'')), w))\<rparr>)
     (example_data []) (example_state []) =
     (Return (diag_FromErr (SDKError ''quota exceeded'')), example_data [],
      \<lparr>world = [], calls = [CallCreateClient ''bminstances'', CallBminstancesCreate]\<rparr>)"
    using U by (simp add: ev)
  have v: "resourceLBPoolCreate
     (example_lbpools\<lparr>ExtractPoolIDFromTask := (\<lambda>t. ([], Some (SDKError ''no resource in task'')))\<rparr>)
     (example_data []) (example_state []) =
     (Return (diag_FromErr (Errorf_w ''cannot retrieve LBPool ID from task info: %w'' [] (SDKError ''no resource in task''))), example_data [],
      \<lparr>world = [''pool-1''], calls = [CallCreateClient ''lbpools'', CallLbpoolsCreate, CallWaitTask ''task-1'' 2400]\<rparr>) \<and>
   resourceRouterCreate
     (example_routers\<lparr>ExtractRouterIDFromTask := (\<lambda>t. ([], Some (SDKError ''no resource in task'')))\<rparr>)
     (example_data []) (example_state []) =
     (Return (diag_FromErr (Errorf_w ''cannot retrieve Router ID from task info: %w'' [] (SDKError ''no resource in task''))), example_data [],
      \<lparr>world = [''router-1''], calls = [CallCreateClient ''routers'', CallRoutersCreate, CallWaitTask ''task-1'' 1200]\<rparr>) \<and>
   resourceLBMemberCreate
     (example_lbpools\<lparr>ExtractPoolMemberIDFromTask := (\<lambda>t. ([], Some (SDKError ''no resource in task'')))\<rparr>)
     (example_change [] ''pool_id'' VNil (VStr ''pool-1'')) (example_state [''pool-1'']) =
     (Return (diag_FromErr (Errorf_w ''cannot retrieve LBMember ID from task info: %w'' [] (SDKError ''no resource in task''))), example_change [] ''pool_id'' VNil (VStr ''pool-1''),
      \<lparr>world = [''member-1'', ''pool-1''], calls = [CallCreateClient ''lbpools'', CallLbpoolsCreateMember ''pool-1'', CallWaitTask ''task-4'' 2400]\<rparr>) \<and>
   resourceBmInstanceCreate
     (example_bminstances\<lparr>ExtractInstanceIDFromTask := (\<lambda>t. ([], Some (SDKError ''no resource in task'')))\<rparr>)
     (example_data []) (example_state []) =
     (Return (diag_FromErr (Errorf_w ''cannot retrieve Instance ID from task info: %w'' [] (SDKError ''no resource in task''))), example_data [],
      \<lparr>world = [''bm-1''], calls = [CallCreateClient ''bminstances'', CallBminstancesCreate, CallWaitTask ''task-1'' 3600]\<rparr>)"
    using V by (simp add: ev)
  show ?thesis
    using t u v by simp
qed

end
